theory Spec2Isabelle
  imports Complex_Main "HOL-Library.Log_Nat"
begin

section \<open>JavaScript values used by the storyboard creator\<close>

text \<open>
  A JavaScript string is a sequence of UTF-16 code units. The messages of the program
  are Japanese, so every string is kept as the list of its code units; \<open>ascii\<close> turns
  an ASCII literal into that form.
\<close>

type_synonym js_string = "nat list"

definition ascii :: "string \<Rightarrow> js_string" where
  "ascii s = map of_char s"

text \<open>
  What a \<open>throw\<close> or a rejected promise carries. \<open>err instanceof Error\<close> holds for
  the first three; \<open>NonError\<close> is any other thrown value.
\<close>

datatype thrown =
    Error js_string
  | TypeError js_string
  | SyntaxError js_string
  | NonError

fun instanceof_Error :: "thrown \<Rightarrow> bool" where
  "instanceof_Error NonError = False"
| "instanceof_Error _ = True"

fun message :: "thrown \<Rightarrow> js_string" where
  "message (Error m) = m"
| "message (TypeError m) = m"
| "message (SyntaxError m) = m"
| "message NonError = []"

section \<open>services/geminiService.ts\<close>

text \<open>\<open>ScriptData\<close> of types.ts: the entries of the \<open>scenes\<close> array.\<close>

record script_entry =
  image_prompt :: js_string
  narrator_script :: js_string

text \<open>
  An element of the array as \<open>JSON.parse\<close> returns it. Nothing in lines 53-59 looks at
  the elements, so an element can be \<open>null\<close>; reading a property of \<open>null\<close> throws
  a TypeError, whose message is the engine's. Every other JSON value (an object, an
  array, a string, a number, a boolean) lets its properties be read; of those the two
  properties that the application reads are kept, as the strings that the response
  schema of lines 10-35 asks for.
\<close>

datatype entry =
    NullEntry js_string
  | Entry script_entry

text \<open>
  The value of \<open>parsedData.scenes\<close> as line 55 tells it apart: falsy (missing,
  \<open>null\<close>, \<open>0\<close>, \<open>""\<close>, \<open>false\<close>), truthy but no array, or an array.
\<close>

datatype scenes_field =
    ScenesFalsy
  | ScenesNotArray
  | ScenesArray "entry list"

text \<open>
  What the remote call of lines 39-53 can come back with: the call rejects; the response
  has no \<open>text\<close> (so \<open>.trim()\<close> throws a TypeError with the engine's message);
  \<open>JSON.parse\<close> throws a SyntaxError; the text parses to \<open>null\<close> (reading
  \<open>.scenes\<close> of it throws a TypeError); or it parses to a value whose \<open>scenes\<close>
  property is as given.
\<close>

datatype script_response =
    CallRejected thrown
  | TextUndefined js_string
  | TextNotJson js_string
  | ParsedNull js_string
  | Parsed scenes_field

text \<open>"Invalid script format received from API."\<close>

definition invalid_script_format_msg :: js_string where
  "invalid_script_format_msg = ascii ''Invalid script format received from API.''"

text \<open>The message of line 63, as UTF-16 code units.\<close>

definition script_failed_msg :: js_string where
  "script_failed_msg =
     [0x30B9, 0x30AF, 0x30EA, 0x30D7, 0x30C8, 0x306E, 0x751F, 0x6210,
      0x306B, 0x5931, 0x6557, 0x3057, 0x307E, 0x3057, 0x305F, 0x3002]"

text \<open>The body of the \<open>try\<close> block of \<open>generateScript\<close> (lines 39-59).\<close>

fun generateScript_try :: "script_response \<Rightarrow> thrown + entry list" where
  "generateScript_try (CallRejected e) = Inl e"
| "generateScript_try (TextUndefined m) = Inl (TypeError m)"
| "generateScript_try (TextNotJson m) = Inl (SyntaxError m)"
| "generateScript_try (ParsedNull m) = Inl (TypeError m)"
| "generateScript_try (Parsed ScenesFalsy) = Inl (Error invalid_script_format_msg)"
| "generateScript_try (Parsed ScenesNotArray) = Inl (Error invalid_script_format_msg)"
| "generateScript_try (Parsed (ScenesArray xs)) = Inr xs"

text \<open>\<open>generateScript\<close>: the \<open>catch\<close> of lines 61-64 replaces whatever was thrown.\<close>

definition generateScript :: "script_response \<Rightarrow> thrown + entry list" where
  "generateScript r =
     (case generateScript_try r of
        Inl _ \<Rightarrow> Inl (Error script_failed_msg)
      | Inr d \<Rightarrow> Inr d)"

text \<open>
  The answer of \<open>ai.models.generateImages\<close>: the call rejects, or the response carries
  \<open>generatedImages\<close> (possibly undefined), each image given by its \<open>imageBytes\<close>.
\<close>

datatype images_response =
    ImagesRejected thrown
  | ImagesReturned "js_string list option"

definition no_image_msg :: js_string where
  "no_image_msg = ascii ''No image was generated.''"

definition image_failed_msg :: js_string where
  "image_failed_msg =
     [0x753B, 0x50CF, 0x306E, 0x751F, 0x6210, 0x306B, 0x5931, 0x6557,
      0x3057, 0x307E, 0x3057, 0x305F, 0x3002]"

definition data_url_prefix :: js_string where
  "data_url_prefix = ascii ''data:image/jpeg;base64,''"

fun generateImage_try :: "images_response \<Rightarrow> thrown + js_string" where
  "generateImage_try (ImagesRejected e) = Inl e"
| "generateImage_try (ImagesReturned None) = Inl (Error no_image_msg)"
| "generateImage_try (ImagesReturned (Some [])) = Inl (Error no_image_msg)"
| "generateImage_try (ImagesReturned (Some (b # bs))) = Inr (data_url_prefix @ b)"

definition generateImage :: "images_response \<Rightarrow> thrown + js_string" where
  "generateImage r =
     (case generateImage_try r of
        Inl _ \<Rightarrow> Inl (Error image_failed_msg)
      | Inr u \<Rightarrow> Inr u)"

section \<open>Strings and numbers of the two applications\<close>

text \<open>
  \<open>String.prototype.trim\<close> removes white space and line terminators from both
  ends; these are the code units ECMAScript counts as such.
\<close>

definition js_whitespace :: "nat \<Rightarrow> bool" where
  "js_whitespace c \<longleftrightarrow>
     c \<in> set [0x9, 0xA, 0xB, 0xC, 0xD, 0x20, 0xA0, 0x1680, 0x2028, 0x2029,
               0x202F, 0x205F, 0x3000, 0xFEFF] \<or> (0x2000 \<le> c \<and> c \<le> 0x200A)"

definition trim :: "js_string \<Rightarrow> js_string" where
  "trim s = rev (dropWhile js_whitespace (rev (dropWhile js_whitespace s)))"

text \<open>The decimal digits of a number in a template literal.\<close>

fun decimal :: "nat \<Rightarrow> js_string" where
  "decimal n = (if n < 10 then [48 + n] else decimal (n div 10) @ [48 + n mod 10])"

text \<open>
  The remainder operator \<open>%\<close> of JavaScript on integers truncates towards zero: the
  result has the sign of the dividend.
\<close>

definition js_rem :: "int \<Rightarrow> int \<Rightarrow> int" where
  "js_rem a b = sgn a * (\<bar>a\<bar> mod \<bar>b\<bar>)"

subsection \<open>Numbers that are not integers\<close>

text \<open>
  A JavaScript number is an IEEE 754 double: a finite one is \<open>m \<times> 2\<^sup>e\<close> with
  \<open>\<bar>m\<bar> < 2\<^sup>5\<^sup>3\<close> and \<open>e \<ge> -1074\<close>. Times and durations are kept as the real
  numbers they denote, and every quotient and product the code computes is rounded as
  the double operation rounds it: to the nearest double, a tie to the one whose \<open>m\<close> is
  even.

  \<open>pow2 k\<close> is \<open>2\<^sup>k\<close>. \<open>binary_exponent x\<close> is the \<open>e\<close> with
  \<open>2\<^sup>e \<le> \<bar>x\<bar> < 2\<^sup>e\<^sup>+\<^sup>1\<close>, computed from the number of binary digits
  (\<open>bitlen\<close>) of the integer part of \<open>\<bar>x\<bar>\<close> or of its reciprocal.
  \<open>round_half_even\<close> rounds to the nearest integer, a tie to the even one.
  \<open>round64 x\<close> is the double nearest to \<open>x\<close>: doubles next to \<open>x\<close> are
  \<open>2\<^sup>e\<^sup>-\<^sup>5\<^sup>2\<close> apart, and \<open>2\<^sup>-\<^sup>1\<^sup>0\<^sup>7\<^sup>4\<close> apart below \<open>2\<^sup>-\<^sup>1\<^sup>0\<^sup>2\<^sup>2\<close>
  (where a result may round to 0). The largest double is not modelled: where the double
  operation overflows to \<open>Infinity\<close>, \<open>round64\<close> gives a finite number beyond every
  double; the only place such a quotient can arise takes the minimum with the last index
  of the board (an array holds fewer than \<open>2\<^sup>3\<^sup>2\<close> elements), which treats the two
  alike.
\<close>

definition pow2 :: "int \<Rightarrow> real" where
  "pow2 k = (if 0 \<le> k then 2 ^ nat k else 1 / 2 ^ nat (- k))"

definition binary_exponent :: "real \<Rightarrow> int" where
  "binary_exponent x =
     (if 1 \<le> \<bar>x\<bar> then bitlen \<lfloor>\<bar>x\<bar>\<rfloor> - 1
      else - bitlen (\<lceil>1 / \<bar>x\<bar>\<rceil> - 1))"

definition round_half_even :: "real \<Rightarrow> int" where
  "round_half_even y =
     (let f = \<lfloor>y\<rfloor>; r = y - of_int f in
      if r < 1 / 2 then f else if 1 / 2 < r then f + 1 else if even f then f else f + 1)"

definition round64 :: "real \<Rightarrow> real" where
  "round64 x =
     (if x = 0 then 0
      else (let u = pow2 (max (binary_exponent x) (- 1022) - 52)
            in of_int (round_half_even (x / u)) * u))"

text \<open>The operators \<open>/\<close> and \<open>*\<close> on finite numbers, the divisor not zero.\<close>

definition js_divide :: "real \<Rightarrow> real \<Rightarrow> real" where
  "js_divide a b = round64 (a / b)"

definition js_times :: "real \<Rightarrow> real \<Rightarrow> real" where
  "js_times a b = round64 (a * b)"

subsection \<open>Arrays\<close>

text \<open>\<open>xs.map((x, i) => f(i, x))\<close>\<close>

definition mapi :: "(nat \<Rightarrow> 'a \<Rightarrow> 'b) \<Rightarrow> 'a list \<Rightarrow> 'b list" where
  "mapi f xs = map (\<lambda>(i, x). f i x) (enumerate 0 xs)"

text \<open>\<open>xs[i]\<close> for a number \<open>i\<close>: \<open>undefined\<close> out of range.\<close>

definition js_index :: "'a list \<Rightarrow> int \<Rightarrow> 'a option" where
  "js_index xs i = (if 0 \<le> i \<and> i < int (length xs) then Some (xs ! nat i) else None)"

section \<open>types.ts and the state both applications share\<close>

record Scene =
  sceneId :: nat
  imagePrompt :: js_string
  narratorScript :: js_string
  imageUrl :: "js_string option"

text \<open>
  The \<open>useState\<close> cells that App.tsx (topic mode, speech synthesis) and the second
  App component (audio mode) both declare. Each application extends this record.
\<close>

record board =
  scenes :: "Scene list"
  isLoading :: bool
  loadingMessage :: js_string
  error :: "js_string option"
  currentSceneIndex :: int
  isPlaying :: bool
  regeneratingSceneId :: "nat option"

text \<open>\<open>const currentScene = scenes[currentSceneIndex]\<close>\<close>

definition currentScene :: "'a board_scheme \<Rightarrow> Scene option" where
  "currentScene s = js_index (scenes s) (currentSceneIndex s)"

text \<open>
  \<open>prevScenes.map(s => (s.id === i ? { ...s, imageUrl } : s))\<close>, the patch applied
  after every image call.
\<close>

definition patch_imageUrl :: "nat \<Rightarrow> js_string \<Rightarrow> Scene list \<Rightarrow> Scene list" where
  "patch_imageUrl i url scs =
     map (\<lambda>sc. if sceneId sc = i then sc\<lparr>imageUrl := Some url\<rparr> else sc) scs"

text \<open>\<open>err instanceof Error ? err.message : fallback\<close>\<close>

definition error_text :: "js_string \<Rightarrow> thrown \<Rightarrow> js_string" where
  "error_text fallback e = (if instanceof_Error e then message e else fallback)"

definition unknown_error_msg :: js_string where
  "unknown_error_msg =
     [0x4E0D, 0x660E, 0x306A, 0x30A8, 0x30E9, 0x30FC, 0x304C, 0x767A,
      0x751F, 0x3057, 0x307E, 0x3057, 0x305F, 0x3002]"

definition regenerate_failed_msg :: js_string where
  "regenerate_failed_msg =
     [0x753B, 0x50CF, 0x306E, 0x518D, 0x751F, 0x6210, 0x306B, 0x5931,
      0x6557, 0x3057, 0x307E, 0x3057, 0x305F, 0x3002]"

text \<open>The progress message of the image step: scene \<open>i + 1\<close> of \<open>n\<close>.\<close>

definition image_progress_msg :: "nat \<Rightarrow> nat \<Rightarrow> js_string" where
  "image_progress_msg i n =
     [0x30B7, 0x30FC, 0x30F3, 0x20] @ decimal (i + 1) @ [0x2F] @ decimal n @
     [0x20, 0x306E, 0x753B, 0x50CF, 0x3092, 0x751F, 0x6210, 0x4E2D, 0x2E, 0x2E, 0x2E]"

subsection \<open>The editor (the same code in both applications)\<close>

definition handleScriptChange :: "js_string \<Rightarrow> 'a board_scheme \<Rightarrow> 'a board_scheme" where
  "handleScriptChange newScript s =
     s\<lparr>scenes := mapi (\<lambda>i sc. if int i = currentSceneIndex s
                                then sc\<lparr>narratorScript := newScript\<rparr> else sc) (scenes s)\<rparr>"

definition handlePromptChange :: "js_string \<Rightarrow> 'a board_scheme \<Rightarrow> 'a board_scheme" where
  "handlePromptChange newPrompt s =
     s\<lparr>scenes := mapi (\<lambda>i sc. if int i = currentSceneIndex s
                                then sc\<lparr>imagePrompt := newPrompt\<rparr> else sc) (scenes s)\<rparr>"

text \<open>
  \<open>handleRegenerateImage\<close> up to its \<open>await\<close>: nothing happens without a current
  scene; otherwise playback stops, the scene is marked and the error is cleared. The
  image request then made is for the prompt of \<open>currentScene\<close> as it was at the click.
\<close>

definition handleRegenerateImage_begin :: "'a board_scheme \<Rightarrow> 'a board_scheme" where
  "handleRegenerateImage_begin s =
     (case currentScene s of
        None \<Rightarrow> s
      | Some cs \<Rightarrow> s\<lparr>isPlaying := False, regeneratingSceneId := Some (sceneId cs),
                      error := None\<rparr>)"

text \<open>
  The rest of \<open>handleRegenerateImage\<close>, run when the image call settles: \<open>cs\<close> is the
  scene the handler closed over.
\<close>

definition handleRegenerateImage_settle ::
    "Scene \<Rightarrow> images_response \<Rightarrow> 'a board_scheme \<Rightarrow> 'a board_scheme" where
  "handleRegenerateImage_settle cs r s =
     (let s1 = (case generateImage r of
                  Inr url \<Rightarrow> s\<lparr>scenes := patch_imageUrl (sceneId cs) url (scenes s)\<rparr>
                | Inl e \<Rightarrow> s\<lparr>error := Some (error_text regenerate_failed_msg e)\<rparr>)
      in s1\<lparr>regeneratingSceneId := None\<rparr>)"

text \<open>The whole handler when nothing else happens while the image call is pending.\<close>

definition handleRegenerateImage :: "images_response \<Rightarrow> 'a board_scheme \<Rightarrow> 'a board_scheme" where
  "handleRegenerateImage r s =
     (case currentScene s of
        None \<Rightarrow> s
      | Some cs \<Rightarrow> handleRegenerateImage_settle cs r (handleRegenerateImage_begin s))"

text \<open>
  The regenerate button: it is rendered only when \<open>scenes.length > 0 && currentScene\<close>
  and carries \<open>disabled={isLoading || regeneratingSceneId !== null}\<close>; a click on a
  button that is absent or disabled runs no handler.
\<close>

definition regenerate_enabled :: "'a board_scheme \<Rightarrow> bool" where
  "regenerate_enabled s \<longleftrightarrow>
     scenes s \<noteq> [] \<and> currentScene s \<noteq> None \<and>
     \<not> (isLoading s \<or> regeneratingSceneId s \<noteq> None)"

definition click_regenerate :: "'a board_scheme \<Rightarrow> 'a board_scheme" where
  "click_regenerate s = (if regenerate_enabled s then handleRegenerateImage_begin s else s)"

section \<open>App.tsx: topic mode, narrated by speech synthesis\<close>

record topic_app = board +
  topic :: js_string
  sceneCount :: nat

definition topic_required_msg :: js_string where
  "topic_required_msg =
     [0x30C8, 0x30D4, 0x30C3, 0x30AF, 0x3092, 0x5165, 0x529B, 0x3057,
      0x3066, 0x304F, 0x3060, 0x3055, 0x3044, 0x3002]"

definition writing_scenario_msg :: js_string where
  "writing_scenario_msg =
     [0x41, 0x49, 0x304C, 0x30B7, 0x30CA, 0x30EA, 0x30AA, 0x3092,
      0x57F7, 0x7B46, 0x4E2D, 0x2E, 0x2E, 0x2E]"

text \<open>
  \<open>handleGenerate\<close> up to its first \<open>await\<close> (lines 57-70): an empty topic is
  refused with a message; otherwise the board is reset and the script is requested.
\<close>

definition handleGenerate_begin :: "topic_app \<Rightarrow> topic_app" where
  "handleGenerate_begin s =
     (if trim (topic s) = [] then s\<lparr>error := Some topic_required_msg\<rparr>
      else s\<lparr>isLoading := True, error := None, scenes := [], currentSceneIndex := 0,
             isPlaying := False, loadingMessage := writing_scenario_msg\<rparr>)"

text \<open>
  Lines 72-77. The callback of the \<open>map\<close> on an entry that is not \<open>null\<close>: a scene
  numbered by the position of the entry, without an image.
\<close>

definition scene_of_entry :: "nat \<Rightarrow> script_entry \<Rightarrow> Scene" where
  "scene_of_entry index e =
     \<lparr>sceneId = index, imagePrompt = image_prompt e,
      narratorScript = narrator_script e, imageUrl = None\<rparr>"

text \<open>
  The \<open>map\<close> itself, from position \<open>index\<close> on: the callback runs on the entries in
  order and the first \<open>null\<close> entry makes it throw, which ends the \<open>map\<close>.
\<close>

fun initialScenes_from :: "nat \<Rightarrow> entry list \<Rightarrow> thrown + Scene list" where
  "initialScenes_from index [] = Inr []"
| "initialScenes_from index (NullEntry m # es) = Inl (TypeError m)"
| "initialScenes_from index (Entry e # es) =
     (case initialScenes_from (Suc index) es of
        Inl t \<Rightarrow> Inl t
      | Inr scs \<Rightarrow> Inr (scene_of_entry index e # scs))"

definition initialScenes_of :: "entry list \<Rightarrow> thrown + Scene list" where
  "initialScenes_of entries = initialScenes_from 0 entries"

text \<open>The \<open>catch\<close> and \<open>finally\<close> blocks of lines 87-92.\<close>

definition pipeline_catch :: "thrown \<Rightarrow> 'a board_scheme \<Rightarrow> 'a board_scheme" where
  "pipeline_catch e s = s\<lparr>error := Some (error_text unknown_error_msg e)\<rparr>"

definition pipeline_finally :: "'a board_scheme \<Rightarrow> 'a board_scheme" where
  "pipeline_finally s = s\<lparr>isLoading := False, loadingMessage := []\<rparr>"

text \<open>
  The loop of lines 80-86 from index \<open>i\<close> on. \<open>img i\<close> is the answer of the image
  service to the request for scene \<open>i\<close>. The result is the state, with what was thrown
  if an image call failed.
\<close>

function image_loop ::
    "(nat \<Rightarrow> images_response) \<Rightarrow> Scene list \<Rightarrow> nat \<Rightarrow> 'a board_scheme
       \<Rightarrow> thrown \<times> 'a board_scheme + 'a board_scheme" where
  "image_loop img initial i s =
     (if i < length initial then
        (let s1 = s\<lparr>loadingMessage := image_progress_msg i (length initial)\<rparr> in
         case generateImage (img i) of
           Inl e \<Rightarrow> Inl (e, s1)
         | Inr url \<Rightarrow>
             image_loop img initial (Suc i) (s1\<lparr>scenes := patch_imageUrl i url (scenes s1)\<rparr>))
      else Inr s)"
  by pat_completeness auto
termination
  by (relation "measure (\<lambda>(img, initial, i, s). length initial - i)") auto

declare image_loop.simps [simp del]

text \<open>
  \<open>handleGenerate\<close> when no other event interleaves: \<open>sr\<close> is the answer to the
  script request, \<open>img\<close> the answers to the image requests.
\<close>

definition handleGenerate ::
    "script_response \<Rightarrow> (nat \<Rightarrow> images_response) \<Rightarrow> topic_app \<Rightarrow> topic_app" where
  "handleGenerate sr img s =
     (if trim (topic s) = [] then handleGenerate_begin s
      else
        (let s1 = handleGenerate_begin s;
             r = (case generateScript sr of
                    Inl e \<Rightarrow> Inl (e, s1)
                  | Inr entries \<Rightarrow>
                      (case initialScenes_of entries of
                         Inl e \<Rightarrow> Inl (e, s1)
                       | Inr initialScenes \<Rightarrow>
                           image_loop img initialScenes 0 (s1\<lparr>scenes := initialScenes\<rparr>)))
         in pipeline_finally
              (case r of Inl (e, s2) \<Rightarrow> pipeline_catch e s2 | Inr s2 \<Rightarrow> s2)))"

definition togglePlayPause :: "topic_app \<Rightarrow> topic_app" where
  "togglePlayPause s =
     (if isPlaying s then s\<lparr>isPlaying := False\<rparr>
      else if length (scenes s) > 0 then
        (let s1 = (if currentSceneIndex s = int (length (scenes s)) - 1 \<and>
                      (case currentScene s of None \<Rightarrow> True
                                            | Some sc \<Rightarrow> narratorScript sc = [])
                   then s\<lparr>currentSceneIndex := 0\<rparr> else s)
         in s1\<lparr>isPlaying := True\<rparr>)
      else s)"

definition nextScene :: "topic_app \<Rightarrow> topic_app" where
  "nextScene s =
     (let s1 = s\<lparr>isPlaying := False\<rparr> in
      if length (scenes s) > 0
      then s1\<lparr>currentSceneIndex :=
                js_rem (currentSceneIndex s + 1) (int (length (scenes s)))\<rparr>
      else s1)"

definition prevScene :: "topic_app \<Rightarrow> topic_app" where
  "prevScene s =
     (let s1 = s\<lparr>isPlaying := False\<rparr> in
      if length (scenes s) > 0
      then s1\<lparr>currentSceneIndex :=
                js_rem (currentSceneIndex s - 1 + int (length (scenes s)))
                       (int (length (scenes s)))\<rparr>
      else s1)"

subsection \<open>The speech synthesis effect (lines 19-47)\<close>

text \<open>
  The utterance the effect speaks, with the values its callbacks closed over; \<open>None\<close>
  when the effect only cancels the synthesis.
\<close>

record utterance =
  utterance_text :: js_string
  closed_index :: int
  closed_length :: nat

definition speech_effect :: "topic_app \<Rightarrow> utterance option" where
  "speech_effect s =
     (if isPlaying s \<and> length (scenes s) > 0 then
        (case currentScene s of
           None \<Rightarrow> None
         | Some sc \<Rightarrow> Some \<lparr>utterance_text = narratorScript sc,
                            closed_index = currentSceneIndex s,
                            closed_length = length (scenes s)\<rparr>)
      else None)"

definition utterance_onend :: "utterance \<Rightarrow> topic_app \<Rightarrow> topic_app" where
  "utterance_onend u s =
     (if closed_index u < int (closed_length u) - 1
      then s\<lparr>currentSceneIndex := currentSceneIndex s + 1\<rparr>
      else s\<lparr>isPlaying := False\<rparr>)"

definition utterance_onerror :: "utterance \<Rightarrow> topic_app \<Rightarrow> topic_app" where
  "utterance_onerror u s = s\<lparr>isPlaying := False\<rparr>"

text \<open>
  The synthesis of the utterance being spoken completes, or fails: the callback of that
  utterance runs. Without an utterance there is no callback.
\<close>

definition synthesis_completes :: "topic_app \<Rightarrow> topic_app" where
  "synthesis_completes s =
     (case speech_effect s of None \<Rightarrow> s | Some u \<Rightarrow> utterance_onend u s)"

definition synthesis_fails :: "topic_app \<Rightarrow> topic_app" where
  "synthesis_fails s =
     (case speech_effect s of None \<Rightarrow> s | Some u \<Rightarrow> utterance_onerror u s)"

section \<open>The second App component: audio mode, scenes by time division\<close>

record js_file =
  file_type :: js_string
  file_text :: js_string

text \<open>The \<open>duration\<close> of a media element: \<open>NaN\<close> before the metadata is known,
  \<open>Infinity\<close> for an unbounded stream, or a number of seconds.\<close>

datatype media_duration = NaN | Infinity | Seconds real

record audio_element =
  currentTime :: real
  duration :: media_duration

text \<open>
  \<open>audioRef\<close> is the element of \<open>{audioUrl && <audio ref={audioRef} .../>}\<close>: there
  is one exactly while \<open>audioUrl\<close> is set. \<open>sceneDurationRef\<close> starts at 0 and is
  assigned only in \<open>handleAudioLoadedMetadata\<close>, the quotient of a finite duration by a
  non-zero length, so it always holds a finite number. \<open>forceUpdateCount\<close> counts the
  calls of \<open>forceUpdate({})\<close>, which only ask for a new rendering.
\<close>

record audio_app = board +
  scriptFile :: "js_file option"
  audioFile :: "js_file option"
  audioUrl :: "js_string option"
  audioRef :: "audio_element option"
  sceneDurationRef :: real
  forceUpdateCount :: nat

text \<open>\<open>isFinite\<close> of a number that is neither \<open>NaN\<close> nor infinite.\<close>

definition isFinite :: "real \<Rightarrow> bool" where
  "isFinite x = True"

definition text_file_required_msg :: js_string where
  "text_file_required_msg =
     [0x6709, 0x52B9, 0x306A, 0x30C6, 0x30AD, 0x30B9, 0x30C8, 0x30D5, 0x30A1,
      0x30A4, 0x30EB, 0xFF08, 0x2E, 0x74, 0x78, 0x74, 0xFF09, 0x3092, 0x9078,
      0x629E, 0x3057, 0x3066, 0x304F, 0x3060, 0x3055, 0x3044, 0x3002]"

definition audio_file_required_msg :: js_string where
  "audio_file_required_msg =
     [0x6709, 0x52B9, 0x306A, 0x97F3, 0x58F0, 0x30D5, 0x30A1, 0x30A4, 0x30EB,
      0x3092, 0x9078, 0x629E, 0x3057, 0x3066, 0x304F, 0x3060, 0x3055, 0x3044, 0x3002]"

definition both_files_required_msg :: js_string where
  "both_files_required_msg =
     [0x30C6, 0x30AD, 0x30B9, 0x30C8, 0x30D5, 0x30A1, 0x30A4, 0x30EB, 0x3068,
      0x97F3, 0x58F0, 0x30D5, 0x30A1, 0x30A4, 0x30EB, 0x306E, 0x4E21, 0x65B9,
      0x3092, 0x30A2, 0x30C3, 0x30D7, 0x30ED, 0x30FC, 0x30C9, 0x3057, 0x3066,
      0x304F, 0x3060, 0x3055, 0x3044, 0x3002]"

definition empty_script_msg :: js_string where
  "empty_script_msg =
     [0x30B9, 0x30AF, 0x30EA, 0x30D7, 0x30C8, 0x30D5, 0x30A1, 0x30A4, 0x30EB,
      0x304C, 0x7A7A, 0x304B, 0x3001, 0x5185, 0x5BB9, 0x304C, 0x3042, 0x308A,
      0x307E, 0x305B, 0x3093, 0x3002]"

definition reading_script_msg :: js_string where
  "reading_script_msg =
     [0x30B9, 0x30AF, 0x30EA, 0x30D7, 0x30C8, 0x3092, 0x8AAD, 0x307F, 0x8FBC,
      0x307F, 0x4E2D, 0x2E, 0x2E, 0x2E]"

definition prompt_progress_msg :: "nat \<Rightarrow> nat \<Rightarrow> js_string" where
  "prompt_progress_msg i n =
     [0x30B7, 0x30FC, 0x30F3, 0x20] @ decimal (i + 1) @ [0x2F] @ decimal n @
     [0x20, 0x306E, 0x30D7, 0x30ED, 0x30F3, 0x30D7, 0x30C8, 0x3092, 0x751F, 0x6210,
      0x4E2D, 0x2E, 0x2E, 0x2E]"

text \<open>The file inputs: \<open>f\<close> is \<open>e.target.files?.[0]\<close>.\<close>

definition handleScriptFileChange :: "js_file option \<Rightarrow> audio_app \<Rightarrow> audio_app" where
  "handleScriptFileChange f s =
     (case f of
        Some fl \<Rightarrow>
          if file_type fl = ascii ''text/plain''
          then s\<lparr>scriptFile := Some fl, error := None\<rparr>
          else s\<lparr>scriptFile := None, error := Some text_file_required_msg\<rparr>
      | None \<Rightarrow> s\<lparr>scriptFile := None, error := Some text_file_required_msg\<rparr>)"

definition handleAudioFileChange :: "js_file option \<Rightarrow> audio_app \<Rightarrow> audio_app" where
  "handleAudioFileChange f s =
     (case f of
        Some fl \<Rightarrow>
          if take 6 (file_type fl) = ascii ''audio/''
          then s\<lparr>audioFile := Some fl, error := None\<rparr>
          else s\<lparr>audioFile := None, error := Some audio_file_required_msg\<rparr>
      | None \<Rightarrow> s\<lparr>audioFile := None, error := Some audio_file_required_msg\<rparr>)"

text \<open>\<open>content.split(sep)\<close> for a separator of one code unit.\<close>

fun split_on :: "nat \<Rightarrow> js_string \<Rightarrow> js_string list" where
  "split_on sep [] = [[]]"
| "split_on sep (c # cs) =
     (if c = sep then [] # split_on sep cs
      else (case split_on sep cs of
              [] \<Rightarrow> [[c]]
            | l # ls \<Rightarrow> (c # l) # ls))"

text \<open>Line 81: the lines of the script that are not blank, each kept as it is.\<close>

definition scriptLines_of :: "js_string \<Rightarrow> js_string list" where
  "scriptLines_of scriptContent = filter (\<lambda>line. trim line \<noteq> []) (split_on 0xA scriptContent)"

definition initialScenes_of_lines :: "js_string list \<Rightarrow> Scene list" where
  "initialScenes_of_lines scriptLines =
     mapi (\<lambda>index line. \<lparr>sceneId = index, imagePrompt = [], narratorScript = line,
                           imageUrl = None\<rparr>) scriptLines"

definition patch_imagePrompt :: "nat \<Rightarrow> js_string \<Rightarrow> Scene list \<Rightarrow> Scene list" where
  "patch_imagePrompt i prompt scs =
     map (\<lambda>sc. if sceneId sc = i then sc\<lparr>imagePrompt := prompt\<rparr> else sc) scs"

text \<open>
  \<open>setAudioUrl\<close> together with the rendering that follows it: a URL mounts the audio
  element on the new source, at time 0 with its metadata still unknown; \<open>null\<close>
  removes the element.
\<close>

definition setAudioUrl :: "js_string option \<Rightarrow> audio_app \<Rightarrow> audio_app" where
  "setAudioUrl u s =
     s\<lparr>audioUrl := u,
       audioRef := (case u of None \<Rightarrow> None
                            | Some _ \<Rightarrow> Some \<lparr>currentTime = 0, duration = NaN\<rparr>)\<rparr>"

text \<open>\<open>handleCreateStoryboard\<close> up to its first \<open>await\<close> (lines 67-80).\<close>

definition handleCreateStoryboard_begin :: "audio_app \<Rightarrow> audio_app" where
  "handleCreateStoryboard_begin s =
     (if scriptFile s = None \<or> audioFile s = None
      then s\<lparr>error := Some both_files_required_msg\<rparr>
      else s\<lparr>isLoading := True, error := None, scenes := [], currentSceneIndex := 0,
             isPlaying := False,
             audioRef := map_option (\<lambda>a. a\<lparr>currentTime := 0\<rparr>) (audioRef s),
             loadingMessage := reading_script_msg\<rparr>)"

text \<open>
  The loop of lines 98-110 from index \<open>i\<close> on. \<open>generateImagePromptForScript\<close> is
  imported from the service but its code is not part of the sources at hand, so its
  outcome is a parameter: \<open>pr i\<close> is what the call for scene \<open>i\<close> throws or returns.
  \<open>img i\<close> is the answer of the image service for scene \<open>i\<close>.
\<close>

function storyboard_loop ::
    "(nat \<Rightarrow> thrown + js_string) \<Rightarrow> (nat \<Rightarrow> images_response) \<Rightarrow> Scene list \<Rightarrow> nat
       \<Rightarrow> 'a board_scheme \<Rightarrow> thrown \<times> 'a board_scheme + 'a board_scheme" where
  "storyboard_loop pr img initial i s =
     (if i < length initial then
        (let s1 = s\<lparr>loadingMessage := prompt_progress_msg i (length initial)\<rparr> in
         case pr i of
           Inl e \<Rightarrow> Inl (e, s1)
         | Inr prompt \<Rightarrow>
             (let s2 = s1\<lparr>scenes := patch_imagePrompt i prompt (scenes s1),
                          loadingMessage := image_progress_msg i (length initial)\<rparr> in
              case generateImage (img i) of
                Inl e \<Rightarrow> Inl (e, s2)
              | Inr url \<Rightarrow>
                  storyboard_loop pr img initial (Suc i)
                    (s2\<lparr>scenes := patch_imageUrl i url (scenes s2)\<rparr>)))
      else Inr s)"
  by pat_completeness auto
termination
  by (relation "measure (\<lambda>(pr, img, initial, i, s). length initial - i)") auto

declare storyboard_loop.simps [simp del]

text \<open>
  \<open>handleCreateStoryboard\<close> when no other event interleaves. \<open>newAudioUrl\<close> is what
  \<open>URL.createObjectURL(audioFile)\<close> returns.
\<close>

definition handleCreateStoryboard ::
    "js_string \<Rightarrow> (nat \<Rightarrow> thrown + js_string) \<Rightarrow> (nat \<Rightarrow> images_response)
       \<Rightarrow> audio_app \<Rightarrow> audio_app" where
  "handleCreateStoryboard newAudioUrl pr img s =
     (case scriptFile s of
        None \<Rightarrow> handleCreateStoryboard_begin s
      | Some sf \<Rightarrow>
          if audioFile s = None then handleCreateStoryboard_begin s
          else
            (let s1 = handleCreateStoryboard_begin s;
                 scriptLines = scriptLines_of (file_text sf);
                 r = (if length scriptLines = 0 then Inl (Error empty_script_msg, s1)
                      else
                        (let initialScenes = initialScenes_of_lines scriptLines;
                             s2 = setAudioUrl (Some newAudioUrl) (s1\<lparr>scenes := initialScenes\<rparr>)
                         in storyboard_loop pr img initialScenes 0 s2))
             in pipeline_finally
                  (case r of
                     Inl (e, s3) \<Rightarrow> setAudioUrl None (pipeline_catch e s3)
                   | Inr s3 \<Rightarrow> s3)))"

definition togglePlayPause_audio :: "audio_app \<Rightarrow> audio_app" where
  "togglePlayPause_audio s =
     (if length (scenes s) > 0 \<and> audioUrl s \<noteq> None
      then s\<lparr>isPlaying := \<not> isPlaying s\<rparr> else s)"

text \<open>
  The handlers of the audio element read the element: the browser has set its
  \<open>currentTime\<close> or \<open>duration\<close> before the event is delivered.

  \<open>handleAudioTimeUpdate\<close> is given by the state setters it calls, in order: whether
  \<open>setCurrentSceneIndex\<close> is called at all is part of what it does. The state after
  the handler is the state with these calls applied.
\<close>

datatype setter_call = SetCurrentSceneIndex int | ForceUpdate

fun apply_setter :: "setter_call \<Rightarrow> audio_app \<Rightarrow> audio_app" where
  "apply_setter (SetCurrentSceneIndex i) s = s\<lparr>currentSceneIndex := i\<rparr>"
| "apply_setter ForceUpdate s = s\<lparr>forceUpdateCount := forceUpdateCount s + 1\<rparr>"

definition handleAudioTimeUpdate_calls :: "audio_app \<Rightarrow> setter_call list" where
  "handleAudioTimeUpdate_calls s =
     (case audioRef s of
        None \<Rightarrow> []
      | Some a \<Rightarrow>
          if sceneDurationRef s = 0 then []
          else
            (let newIndex = min (int (length (scenes s)) - 1)
                                \<lfloor>js_divide (currentTime a) (sceneDurationRef s)\<rfloor>
             in (if newIndex \<noteq> currentSceneIndex s then [SetCurrentSceneIndex newIndex]
                 else []) @ [ForceUpdate]))"

definition handleAudioTimeUpdate :: "audio_app \<Rightarrow> audio_app" where
  "handleAudioTimeUpdate s = foldl (\<lambda>s1 c. apply_setter c s1) s (handleAudioTimeUpdate_calls s)"

definition handleAudioLoadedMetadata :: "audio_app \<Rightarrow> audio_app" where
  "handleAudioLoadedMetadata s =
     (case audioRef s of
        None \<Rightarrow> s
      | Some a \<Rightarrow>
          if length (scenes s) = 0 then s
          else
            (case duration a of
               Seconds d \<Rightarrow>
                 if d \<noteq> 0
                 then s\<lparr>sceneDurationRef := js_divide d (real (length (scenes s)))\<rparr> else s
             | _ \<Rightarrow> s))"

definition handleAudioEnded :: "audio_app \<Rightarrow> audio_app" where
  "handleAudioEnded s =
     s\<lparr>isPlaying := False, currentSceneIndex := int (length (scenes s)) - 1\<rparr>"

text \<open>
  \<open>goToScene\<close> assigns \<open>currentTime\<close>; the element is given the time as assigned.
  (A browser moves a time outside the medium to its nearest end; the times of the scenes
  of the board all lie inside it.) An index is an integer-valued number. Its sum with
  the length and the remainder are computed on the integers, which is what the double
  operations give as long as \<open>\<bar>index\<bar>\<close> and \<open>\<bar>index + length\<bar>\<close> do not exceed
  \<open>2\<^sup>5\<^sup>3\<close>; the callers pass the current index plus or minus one.
\<close>

definition goToScene :: "int \<Rightarrow> audio_app \<Rightarrow> audio_app" where
  "goToScene index s =
     (if length (scenes s) = 0 \<or> audioRef s = None \<or> \<not> isFinite (sceneDurationRef s) then s
      else
        (let newIndex = js_rem (index + int (length (scenes s))) (int (length (scenes s)))
         in s\<lparr>currentSceneIndex := newIndex,
               audioRef := map_option
                 (\<lambda>a. a\<lparr>currentTime := js_times (real_of_int newIndex) (sceneDurationRef s)\<rparr>)
                 (audioRef s)\<rparr>))"

definition nextScene_audio :: "audio_app \<Rightarrow> audio_app" where
  "nextScene_audio s = goToScene (currentSceneIndex s + 1) s"

definition prevScene_audio :: "audio_app \<Rightarrow> audio_app" where
  "prevScene_audio s = goToScene (currentSceneIndex s - 1) s"

text \<open>
  The events of the audio element as the browser delivers them: the metadata has loaded
  and the element reports its duration; playback has reached time \<open>t\<close>.
\<close>

definition loadedmetadata :: "media_duration \<Rightarrow> audio_app \<Rightarrow> audio_app" where
  "loadedmetadata d s =
     handleAudioLoadedMetadata (s\<lparr>audioRef := map_option (\<lambda>a. a\<lparr>duration := d\<rparr>) (audioRef s)\<rparr>)"

definition timeupdate :: "real \<Rightarrow> audio_app \<Rightarrow> audio_app" where
  "timeupdate t s =
     handleAudioTimeUpdate (s\<lparr>audioRef := map_option (\<lambda>a. a\<lparr>currentTime := t\<rparr>) (audioRef s)\<rparr>)"

section \<open>App.tsx as an event loop\<close>

text \<open>
  The handlers are \<open>async\<close>: between the moment a request is sent and the moment it
  settles, any other event of the page can run. A configuration is the React state
  together with the requests in flight, each standing for the rest of the handler that
  awaits it, with the values that handler closed over.
\<close>

datatype request =
    ScriptRequest
  | PipelineImageRequest nat "Scene list"
  | RegenerateImageRequest Scene

datatype answer =
    ScriptAnswer script_response
  | ImagesAnswer images_response

fun is_image_request :: "request \<Rightarrow> bool" where
  "is_image_request ScriptRequest = False"
| "is_image_request (PipelineImageRequest i initial) = True"
| "is_image_request (RegenerateImageRequest cs) = True"

fun is_regenerate_request :: "request \<Rightarrow> bool" where
  "is_regenerate_request (RegenerateImageRequest cs) = True"
| "is_regenerate_request _ = False"

fun is_pipeline_request :: "request \<Rightarrow> bool" where
  "is_pipeline_request (RegenerateImageRequest cs) = False"
| "is_pipeline_request _ = True"

definition images_in_flight :: "request list \<Rightarrow> nat" where
  "images_in_flight p = length (filter is_image_request p)"

definition regenerations_in_flight :: "request list \<Rightarrow> nat" where
  "regenerations_in_flight p = length (filter is_regenerate_request p)"

definition pipelines_in_flight :: "request list \<Rightarrow> nat" where
  "pipelines_in_flight p = length (filter is_pipeline_request p)"

text \<open>The head of the loop of lines 80-86: the next image request, or the \<open>finally\<close>.\<close>

definition loop_head :: "Scene list \<Rightarrow> nat \<Rightarrow> topic_app \<Rightarrow> topic_app \<times> request list" where
  "loop_head initial i s =
     (if i < length initial
      then (s\<lparr>loadingMessage := image_progress_msg i (length initial)\<rparr>,
            [PipelineImageRequest i initial])
      else (pipeline_finally s, []))"

text \<open>
  The rest of a handler when its request settles: the new state and the requests it
  sends next. An answer of the wrong kind does not occur.
\<close>

fun resume :: "request \<Rightarrow> answer \<Rightarrow> topic_app \<Rightarrow> (topic_app \<times> request list) option" where
  "resume ScriptRequest (ScriptAnswer sr) s =
     Some (case generateScript sr of
             Inl e \<Rightarrow> (pipeline_finally (pipeline_catch e s), [])
           | Inr entries \<Rightarrow>
               (case initialScenes_of entries of
                  Inl e \<Rightarrow> (pipeline_finally (pipeline_catch e s), [])
                | Inr initialScenes \<Rightarrow>
                    loop_head initialScenes 0 (s\<lparr>scenes := initialScenes\<rparr>)))"
| "resume (PipelineImageRequest i initial) (ImagesAnswer r) s =
     Some (case generateImage r of
             Inl e \<Rightarrow> (pipeline_finally (pipeline_catch e s), [])
           | Inr url \<Rightarrow>
               loop_head initial (Suc i) (s\<lparr>scenes := patch_imageUrl i url (scenes s)\<rparr>))"
| "resume (RegenerateImageRequest cs) (ImagesAnswer r) s =
     Some (handleRegenerateImage_settle cs r s, [])"
| "resume _ _ s = None"

text \<open>
  What the user and the browser can do. A control that is not rendered or is
  \<open>disabled\<close> runs no handler: the generate button has \<open>disabled={isLoading}\<close>; the
  navigation and play buttons are rendered when \<open>!isLoading && scenes.length > 0\<close>, the
  play button with the further conditions of its \<open>disabled\<close> attribute; the editor is
  rendered when \<open>scenes.length > 0 && currentScene\<close>. \<open>Settles k a\<close>: the request
  at position \<open>k\<close> settles with answer \<open>a\<close>.
\<close>

datatype event =
    ClickGenerate
  | ClickRegenerate
  | ClickNext
  | ClickPrev
  | ClickPlayPause
  | EditScript js_string
  | EditPrompt js_string
  | EditTopic js_string
  | SetSceneCount nat
  | SynthesisEnds
  | SynthesisFails
  | Settles nat answer

definition play_enabled :: "topic_app \<Rightarrow> bool" where
  "play_enabled s \<longleftrightarrow>
     \<not> (isLoading s \<or> length (scenes s) = 0
        \<or> list_ex (\<lambda>sc. imageUrl sc = None \<or> imageUrl sc = Some []) (scenes s)
        \<or> regeneratingSceneId s \<noteq> None)"

definition editor_rendered :: "'a board_scheme \<Rightarrow> bool" where
  "editor_rendered s \<longleftrightarrow> length (scenes s) > 0 \<and> currentScene s \<noteq> None"

fun step :: "event \<Rightarrow> topic_app \<times> request list \<Rightarrow> topic_app \<times> request list" where
  "step ClickGenerate (s, p) =
     (if isLoading s then (s, p)
      else if trim (topic s) = [] then (handleGenerate_begin s, p)
      else (handleGenerate_begin s, p @ [ScriptRequest]))"
| "step ClickRegenerate (s, p) =
     (case currentScene s of
        None \<Rightarrow> (s, p)
      | Some cs \<Rightarrow>
          if regenerate_enabled s
          then (click_regenerate s, p @ [RegenerateImageRequest cs]) else (s, p))"
| "step ClickNext (s, p) =
     (if isLoading s \<or> length (scenes s) = 0 then (s, p) else (nextScene s, p))"
| "step ClickPrev (s, p) =
     (if isLoading s \<or> length (scenes s) = 0 then (s, p) else (prevScene s, p))"
| "step ClickPlayPause (s, p) = (if play_enabled s then (togglePlayPause s, p) else (s, p))"
| "step (EditScript v) (s, p) =
     (if editor_rendered s then (handleScriptChange v s, p) else (s, p))"
| "step (EditPrompt v) (s, p) =
     (if editor_rendered s then (handlePromptChange v s, p) else (s, p))"
| "step (EditTopic v) (s, p) = (s\<lparr>topic := v\<rparr>, p)"
| "step (SetSceneCount n) (s, p) = (s\<lparr>sceneCount := n\<rparr>, p)"
| "step SynthesisEnds (s, p) = (synthesis_completes s, p)"
| "step SynthesisFails (s, p) = (synthesis_fails s, p)"
| "step (Settles k a) (s, p) =
     (if k < length p then
        (case resume (p ! k) a s of
           None \<Rightarrow> (s, p)
         | Some (s1, new) \<Rightarrow> (s1, take k p @ drop (Suc k) p @ new))
      else (s, p))"

text \<open>The state of lines 8-16 when the component mounts, with nothing in flight.\<close>

definition initial_app :: topic_app where
  "initial_app =
     \<lparr>scenes = [], isLoading = False, loadingMessage = [], error = None,
      currentSceneIndex = 0, isPlaying = False, regeneratingSceneId = None,
      topic = [0x5B87, 0x5B99, 0x306E, 0x9B45, 0x529B], sceneCount = 5\<rparr>"

definition run :: "event list \<Rightarrow> topic_app \<times> request list" where
  "run es = foldl (\<lambda>c e. step e c) (initial_app, []) es"

section \<open>Example boards\<close>

definition scene_of :: "nat \<Rightarrow> string \<Rightarrow> string \<Rightarrow> js_string option \<Rightarrow> Scene" where
  "scene_of i p n u = \<lparr>sceneId = i, imagePrompt = ascii p, narratorScript = ascii n, imageUrl = u\<rparr>"

text \<open>A topic-mode board of three scenes with their images, playing the middle one.\<close>

definition three_scene_board :: topic_app where
  "three_scene_board =
     \<lparr>scenes = [scene_of 0 ''reef'' ''A reef.'' (Some (ascii ''img0'')),
                scene_of 1 ''whale'' ''A whale.'' (Some (ascii ''img1'')),
                scene_of 2 ''storm'' ''A storm.'' (Some (ascii ''img2''))],
      isLoading = False, loadingMessage = [], error = None,
      currentSceneIndex = 1, isPlaying = True, regeneratingSceneId = None,
      topic = ascii ''ocean'', sceneCount = 3\<rparr>"

text \<open>
  An audio-mode board of three scenes whose audio lasts 30 seconds, with the per-scene
  duration already computed, playing its first scene.
\<close>

definition audio_board_playing :: audio_app where
  "audio_board_playing =
     \<lparr>scenes = [scene_of 0 ''reef'' ''A reef.'' (Some (ascii ''img0'')),
                scene_of 1 ''whale'' ''A whale.'' (Some (ascii ''img1'')),
                scene_of 2 ''storm'' ''A storm.'' (Some (ascii ''img2''))],
      isLoading = False, loadingMessage = [], error = None,
      currentSceneIndex = 0, isPlaying = True, regeneratingSceneId = None,
      scriptFile = Some \<lparr>file_type = ascii ''text/plain'', file_text = ascii ''a''\<rparr>,
      audioFile = Some \<lparr>file_type = ascii ''audio/mpeg'', file_text = []\<rparr>,
      audioUrl = Some (ascii ''blob:1''),
      audioRef = Some \<lparr>currentTime = 0, duration = Seconds 30\<rparr>,
      sceneDurationRef = 10, forceUpdateCount = 0\<rparr>"

text \<open>
  The same board before the metadata of its audio has loaded: the element is mounted,
  its duration is still unknown and the per-scene duration still has its initial value.
\<close>

definition audio_board_unmeasured :: audio_app where
  "audio_board_unmeasured =
     audio_board_playing\<lparr>isPlaying := False,
       audioRef := Some \<lparr>currentTime = 0, duration = NaN\<rparr>, sceneDurationRef := 0\<rparr>"

text \<open>The audio-mode application when it mounts (lines 8-20).\<close>

definition initial_audio_app :: audio_app where
  "initial_audio_app =
     \<lparr>scenes = [], isLoading = False, loadingMessage = [], error = None,
      currentSceneIndex = 0, isPlaying = False, regeneratingSceneId = None,
      scriptFile = None, audioFile = None, audioUrl = None, audioRef = None,
      sceneDurationRef = 0, forceUpdateCount = 0\<rparr>"

text \<open>
  A script of three lines and an audio file are chosen and the storyboard is created,
  every prompt and image call succeeding.
\<close>

definition three_line_script :: js_file where
  "three_line_script = \<lparr>file_type = ascii ''text/plain'', file_text = [0x61, 0xA, 0x62, 0xA, 0x63]\<rparr>"

definition some_audio_file :: js_file where
  "some_audio_file = \<lparr>file_type = ascii ''audio/mpeg'', file_text = []\<rparr>"

definition three_line_storyboard :: audio_app where
  "three_line_storyboard =
     handleCreateStoryboard (ascii ''blob:1'') (\<lambda>i. Inr (ascii ''p''))
       (\<lambda>i. ImagesReturned (Some [ascii ''x'']))
       (handleAudioFileChange (Some some_audio_file)
          (handleScriptFileChange (Some three_line_script) initial_audio_app))"

text \<open>An audio-mode board of five scenes over 30 seconds of audio.\<close>

definition five_scene_audio_board :: audio_app where
  "five_scene_audio_board =
     audio_board_playing\<lparr>scenes := map (\<lambda>i. scene_of i ''p'' ''n'' (Some (ascii ''img'')))
                                        [0, 1, 2, 3, 4],
                          isPlaying := False, sceneDurationRef := 6\<rparr>"

text \<open>
  The three-scene audio board showing its last scene, after the user has chosen a
  script file that holds nothing but blank lines.
\<close>

definition blank_script_board :: audio_app where
  "blank_script_board =
     audio_board_playing\<lparr>currentSceneIndex := 2,
       scriptFile := Some \<lparr>file_type = ascii ''text/plain'', file_text = [0x20, 0xA, 0xA]\<rparr>\<rparr>"

text \<open>
  Topic mode: the topic "ocean" with four scenes requested, on the freshly mounted
  application; scripts of four and of two entries; an image service that always
  answers, and one that rejects the request for scene \<open>k\<close> only.
\<close>

definition ocean_request :: topic_app where
  "ocean_request = initial_app\<lparr>topic := ascii ''ocean'', sceneCount := 4\<rparr>"

definition entry_of :: "string \<Rightarrow> string \<Rightarrow> script_entry" where
  "entry_of p n = \<lparr>image_prompt = ascii p, narrator_script = ascii n\<rparr>"

definition four_entries :: "script_entry list" where
  "four_entries = [entry_of ''p0'' ''n0'', entry_of ''p1'' ''n1'', entry_of ''p2'' ''n2'',
                   entry_of ''p3'' ''n3'']"

definition two_entries :: "script_entry list" where
  "two_entries = [entry_of ''p0'' ''n0'', entry_of ''p1'' ''n1'']"

text \<open>
  A script of two entries whose second is \<open>null\<close>, with the message V8 gives for
  reading \<open>image_prompt\<close> of \<open>null\<close>.
\<close>

definition null_read_msg :: js_string where
  "null_read_msg =
     ascii ''Cannot read properties of null (reading '' @ [0x27] @ ascii ''image_prompt''
       @ [0x27] @ ascii '')''"

definition script_with_null :: script_response where
  "script_with_null =
     Parsed (ScenesArray [Entry (entry_of ''p0'' ''n0''), NullEntry null_read_msg])"

definition always_answers :: "nat \<Rightarrow> images_response" where
  "always_answers i = ImagesReturned (Some [ascii ''x''])"

definition rejects_scene :: "nat \<Rightarrow> nat \<Rightarrow> images_response" where
  "rejects_scene k i = (if i = k then ImagesRejected NonError else ImagesReturned (Some [ascii ''x'']))"

text \<open>
  Audio mode: the three-line script and an audio file have been chosen, nothing created
  yet; a prompt service that always answers, and one that rejects the request for scene
  \<open>k\<close> only.
\<close>

definition three_line_upload :: audio_app where
  "three_line_upload =
     handleAudioFileChange (Some some_audio_file)
       (handleScriptFileChange (Some three_line_script) initial_audio_app)"

definition prompt_answers :: "nat \<Rightarrow> thrown + js_string" where
  "prompt_answers i = Inr (ascii ''p'')"

definition prompt_rejects_scene :: "nat \<Rightarrow> nat \<Rightarrow> thrown + js_string" where
  "prompt_rejects_scene k i = (if i = k then Inl NonError else Inr (ascii ''p''))"

text \<open>
  A session of the topic-mode application: a storyboard of two scenes is generated to
  the end; the user asks for the image of the current scene again and, while that
  request is pending, types another topic and starts a new storyboard, whose script of
  three entries arrives. In the longer session the image of the regeneration then
  arrives.
\<close>

definition desert_entries :: "script_entry list" where
  "desert_entries = [entry_of ''q0'' ''m0'', entry_of ''q1'' ''m1'', entry_of ''q2'' ''m2'']"

definition overlapping_session :: "event list" where
  "overlapping_session =
     [ClickGenerate,
      Settles 0 (ScriptAnswer (Parsed (ScenesArray (map Entry two_entries)))),
      Settles 0 (ImagesAnswer (ImagesReturned (Some [ascii ''x'']))),
      Settles 0 (ImagesAnswer (ImagesReturned (Some [ascii ''x'']))),
      ClickRegenerate,
      EditTopic (ascii ''desert''),
      ClickGenerate,
      Settles 1 (ScriptAnswer (Parsed (ScenesArray (map Entry desert_entries))))]"

definition stale_regeneration_session :: "event list" where
  "stale_regeneration_session =
     overlapping_session @ [Settles 0 (ImagesAnswer (ImagesReturned (Some [ascii ''y''])))]"

section \<open>Properties of the script service\<close>

lemma generateScript_cases:
  "generateScript r = Inl (Error script_failed_msg) \<or>
   (\<exists>xs. r = Parsed (ScenesArray xs) \<and> generateScript r = Inr xs)"
  by (cases r rule: generateScript_try.cases) (simp_all add: generateScript_def)

text \<open>
  C10: \<open>generateScript\<close> raises the same fixed message for every failure cause: a
  rejected call, a response without text, unparseable JSON, a \<open>null\<close> document, and a
  \<open>scenes\<close> field that is missing or no array. Whatever it raises is an \<open>Error\<close>
  with that message, so the caller cannot tell a malformed response from a network
  failure; and it fails exactly when the response is not a document with a \<open>scenes\<close>
  array. The message is the sequence of code units of line 63.
\<close>

theorem generateScript_uniform_failure:
  "generateScript (CallRejected e) = Inl (Error script_failed_msg) \<and>
   generateScript (TextUndefined m) = Inl (Error script_failed_msg) \<and>
   generateScript (TextNotJson m) = Inl (Error script_failed_msg) \<and>
   generateScript (ParsedNull m) = Inl (Error script_failed_msg) \<and>
   generateScript (Parsed ScenesFalsy) = Inl (Error script_failed_msg) \<and>
   generateScript (Parsed ScenesNotArray) = Inl (Error script_failed_msg) \<and>
   (generateScript r = Inl x \<longrightarrow> x = Error script_failed_msg) \<and>
   ((\<exists>y. generateScript r = Inl y) \<longleftrightarrow> (\<forall>xs. r \<noteq> Parsed (ScenesArray xs))) \<and>
   script_failed_msg =
     [0x30B9, 0x30AF, 0x30EA, 0x30D7, 0x30C8, 0x306E, 0x751F, 0x6210,
      0x306B, 0x5931, 0x6557, 0x3057, 0x307E, 0x3057, 0x305F, 0x3002]"
proof (intro conjI)
  show "generateScript r = Inl x \<longrightarrow> x = Error script_failed_msg"
    using generateScript_cases [of r] by auto
  show "(\<exists>y. generateScript r = Inl y) \<longleftrightarrow> (\<forall>xs. r \<noteq> Parsed (ScenesArray xs))"
    using generateScript_cases [of r] by (auto simp: generateScript_def)
  show "script_failed_msg =
     [0x30B9, 0x30AF, 0x30EA, 0x30D7, 0x30C8, 0x306E, 0x751F, 0x6210,
      0x306B, 0x5931, 0x6557, 0x3057, 0x307E, 0x3057, 0x305F, 0x3002]"
    by (simp add: script_failed_msg_def)
qed (simp_all add: generateScript_def)

theorem generateScript_uniform_failure_witness:
  "generateScript (TextNotJson (ascii ''Unexpected token'')) = Inl (Error script_failed_msg) \<and>
   (\<exists>y. generateScript (Parsed ScenesNotArray) = Inl y) \<and>
   (\<forall>xs. Parsed ScenesNotArray \<noteq> Parsed (ScenesArray xs))"
proof -
  note t = generateScript_uniform_failure
          [where m = "ascii ''Unexpected token''" and r = "Parsed ScenesNotArray"]
  have a: "generateScript (TextNotJson (ascii ''Unexpected token'')) = Inl (Error script_failed_msg)"
    by (rule t [THEN conjunct2, THEN conjunct2, THEN conjunct1])
  have "generateScript (Parsed ScenesNotArray) = Inl (Error script_failed_msg)"
    by (rule t [THEN conjunct2, THEN conjunct2, THEN conjunct2, THEN conjunct2,
                THEN conjunct2, THEN conjunct1])
  then have b: "(\<exists>y. generateScript (Parsed ScenesNotArray) = Inl y)" ..
  show ?thesis using a b by simp
qed

section \<open>Properties of the editor\<close>

lemma length_mapi: "length (mapi f xs) = length xs"
  by (simp add: mapi_def)

lemma nth_mapi: "j < length xs \<Longrightarrow> mapi f xs ! j = f j (xs ! j)"
  by (simp add: mapi_def nth_enumerate_eq)

text \<open>
  C9: a narration or prompt edit replaces only the edited field of the scene at the
  current index. The number of scenes and every other cell of the state stay as they
  were, every other scene's record is unchanged, and the edited scene keeps its id, its
  imageUrl and the field that was not edited.
\<close>

theorem edit_touches_only_current_field:
  "handleScriptChange v s = s\<lparr>scenes := scenes (handleScriptChange v s)\<rparr> \<and>
   handlePromptChange v s = s\<lparr>scenes := scenes (handlePromptChange v s)\<rparr> \<and>
   length (scenes (handleScriptChange v s)) = length (scenes s) \<and>
   length (scenes (handlePromptChange v s)) = length (scenes s) \<and>
   (\<forall>j < length (scenes s).
      (int j \<noteq> currentSceneIndex s \<longrightarrow>
         scenes (handleScriptChange v s) ! j = scenes s ! j \<and>
         scenes (handlePromptChange v s) ! j = scenes s ! j) \<and>
      (int j = currentSceneIndex s \<longrightarrow>
         scenes (handleScriptChange v s) ! j = (scenes s ! j)\<lparr>narratorScript := v\<rparr> \<and>
         scenes (handlePromptChange v s) ! j = (scenes s ! j)\<lparr>imagePrompt := v\<rparr>) \<and>
      sceneId (scenes (handleScriptChange v s) ! j) = sceneId (scenes s ! j) \<and>
      imageUrl (scenes (handleScriptChange v s) ! j) = imageUrl (scenes s ! j) \<and>
      imagePrompt (scenes (handleScriptChange v s) ! j) = imagePrompt (scenes s ! j) \<and>
      sceneId (scenes (handlePromptChange v s) ! j) = sceneId (scenes s ! j) \<and>
      imageUrl (scenes (handlePromptChange v s) ! j) = imageUrl (scenes s ! j) \<and>
      narratorScript (scenes (handlePromptChange v s) ! j) = narratorScript (scenes s ! j))"
  by (simp add: handleScriptChange_def handlePromptChange_def length_mapi nth_mapi)

theorem edit_touches_only_current_field_witness:
  "(1::nat) < length (scenes three_scene_board) \<and> int 1 = currentSceneIndex three_scene_board \<and>
   scenes (handleScriptChange (ascii ''A blue whale.'') three_scene_board) ! 1
     = scene_of 1 ''whale'' ''A blue whale.'' (Some (ascii ''img1'')) \<and>
   (0::nat) < length (scenes three_scene_board) \<and> int 0 \<noteq> currentSceneIndex three_scene_board \<and>
   scenes (handleScriptChange (ascii ''A blue whale.'') three_scene_board) ! 0
     = scene_of 0 ''reef'' ''A reef.'' (Some (ascii ''img0''))"
proof -
  note t = edit_touches_only_current_field
             [of "ascii ''A blue whale.''" three_scene_board,
              THEN conjunct2, THEN conjunct2, THEN conjunct2, THEN conjunct2]
  have l1: "(1::nat) < length (scenes three_scene_board)"
    and l0: "(0::nat) < length (scenes three_scene_board)"
    and c1: "int 1 = currentSceneIndex three_scene_board"
    and c0: "int 0 \<noteq> currentSceneIndex three_scene_board"
    by (simp_all add: three_scene_board_def)
  from t [rule_format, OF l1] c1
  have a: "scenes (handleScriptChange (ascii ''A blue whale.'') three_scene_board) ! 1
             = (scenes three_scene_board ! 1)\<lparr>narratorScript := ascii ''A blue whale.''\<rparr>"
    by blast
  from t [rule_format, OF l0] c0
  have b: "scenes (handleScriptChange (ascii ''A blue whale.'') three_scene_board) ! 0
             = scenes three_scene_board ! 0"
    by blast
  have a': "(scenes three_scene_board ! 1)\<lparr>narratorScript := ascii ''A blue whale.''\<rparr>
             = scene_of 1 ''whale'' ''A blue whale.'' (Some (ascii ''img1''))"
    by (simp add: three_scene_board_def scene_of_def)
  have b': "scenes three_scene_board ! 0 = scene_of 0 ''reef'' ''A reef.'' (Some (ascii ''img0''))"
    by (simp add: three_scene_board_def)
  show ?thesis using l1 l0 c1 c0 a b a' b' by simp
qed

section \<open>Properties of playback by speech synthesis\<close>

lemma currentScene_in_range:
  "0 \<le> currentSceneIndex s \<Longrightarrow> currentSceneIndex s < int (length (scenes s)) \<Longrightarrow>
   currentScene s = Some (scenes s ! nat (currentSceneIndex s))"
  by (simp add: currentScene_def js_index_def)

text \<open>
  C8: while scene \<open>i\<close> is being spoken (playback is on and \<open>i\<close> is a scene of the
  board), the completion of its synthesis advances the current index to \<open>i + 1\<close> when
  \<open>i\<close> is not the last scene, and playback continues: the effect then speaks the
  narration of scene \<open>i + 1\<close>. On the last scene it stops playback and keeps the index.
  A synthesis error stops playback and keeps the index. Nothing else of the state changes.
\<close>

theorem utterance_chaining:
  assumes "isPlaying s"
    and "0 \<le> currentSceneIndex s"
    and "currentSceneIndex s < int (length (scenes s))"
  shows "(currentSceneIndex s < int (length (scenes s)) - 1 \<longrightarrow>
            synthesis_completes s = s\<lparr>currentSceneIndex := currentSceneIndex s + 1\<rparr> \<and>
            isPlaying (synthesis_completes s) \<and>
            speech_effect (synthesis_completes s) =
              Some \<lparr>utterance_text =
                       narratorScript (scenes s ! nat (currentSceneIndex s + 1)),
                    closed_index = currentSceneIndex s + 1,
                    closed_length = length (scenes s)\<rparr>) \<and>
         (currentSceneIndex s = int (length (scenes s)) - 1 \<longrightarrow>
            synthesis_completes s = s\<lparr>isPlaying := False\<rparr> \<and>
            speech_effect (synthesis_completes s) = None) \<and>
         synthesis_fails s = s\<lparr>isPlaying := False\<rparr> \<and>
         currentSceneIndex (synthesis_fails s) = currentSceneIndex s \<and>
         speech_effect (synthesis_fails s) = None"
proof -
  have cur: "currentScene s = Some (scenes s ! nat (currentSceneIndex s))"
    using assms by (simp add: currentScene_in_range)
  have ne: "length (scenes s) > 0"
    using assms by auto
  have eff: "speech_effect s =
      Some \<lparr>utterance_text = narratorScript (scenes s ! nat (currentSceneIndex s)),
            closed_index = currentSceneIndex s, closed_length = length (scenes s)\<rparr>"
    using assms ne cur by (simp add: speech_effect_def)
  have fails: "synthesis_fails s = s\<lparr>isPlaying := False\<rparr>"
    by (simp add: synthesis_fails_def eff utterance_onerror_def)
  have off: "speech_effect (s\<lparr>isPlaying := False\<rparr>) = None"
    by (simp add: speech_effect_def)
  have last: "synthesis_completes s = s\<lparr>isPlaying := False\<rparr>"
    if "currentSceneIndex s = int (length (scenes s)) - 1"
    using that by (simp add: synthesis_completes_def eff utterance_onend_def)
  have adv: "synthesis_completes s = s\<lparr>currentSceneIndex := currentSceneIndex s + 1\<rparr>"
    if "currentSceneIndex s < int (length (scenes s)) - 1"
    using that by (simp add: synthesis_completes_def eff utterance_onend_def)
  have next_eff: "speech_effect (s\<lparr>currentSceneIndex := currentSceneIndex s + 1\<rparr>) =
      Some \<lparr>utterance_text = narratorScript (scenes s ! nat (currentSceneIndex s + 1)),
            closed_index = currentSceneIndex s + 1, closed_length = length (scenes s)\<rparr>"
    if "currentSceneIndex s < int (length (scenes s)) - 1"
    using that assms ne by (simp add: speech_effect_def currentScene_def js_index_def)
  show ?thesis
    using fails off last adv next_eff assms(1) by simp
qed

theorem utterance_chaining_witness:
  "isPlaying three_scene_board \<and> 0 \<le> currentSceneIndex three_scene_board \<and>
   currentSceneIndex three_scene_board < int (length (scenes three_scene_board)) \<and>
   currentSceneIndex three_scene_board < int (length (scenes three_scene_board)) - 1 \<and>
   currentSceneIndex (synthesis_completes three_scene_board) = 2 \<and>
   isPlaying (synthesis_completes three_scene_board) \<and>
   map_option utterance_text (speech_effect (synthesis_completes three_scene_board))
     = Some (ascii ''A storm.'') \<and>
   \<not> isPlaying (synthesis_fails three_scene_board) \<and>
   currentSceneIndex (synthesis_fails three_scene_board) = 1"
proof -
  have h: "isPlaying three_scene_board" "0 \<le> currentSceneIndex three_scene_board"
    "currentSceneIndex three_scene_board < int (length (scenes three_scene_board))"
    by (simp_all add: three_scene_board_def)
  have lt: "currentSceneIndex three_scene_board < int (length (scenes three_scene_board)) - 1"
    by (simp add: three_scene_board_def)
  note t = utterance_chaining [OF h]
  from t lt have a: "synthesis_completes three_scene_board
      = three_scene_board\<lparr>currentSceneIndex := currentSceneIndex three_scene_board + 1\<rparr>"
    and b: "isPlaying (synthesis_completes three_scene_board)"
    and c: "speech_effect (synthesis_completes three_scene_board) =
              Some \<lparr>utterance_text =
                       narratorScript (scenes three_scene_board
                                         ! nat (currentSceneIndex three_scene_board + 1)),
                    closed_index = currentSceneIndex three_scene_board + 1,
                    closed_length = length (scenes three_scene_board)\<rparr>"
    and d: "synthesis_fails three_scene_board = three_scene_board\<lparr>isPlaying := False\<rparr>"
    by blast+
  have e: "currentSceneIndex three_scene_board = 1"
    "narratorScript (scenes three_scene_board ! 2) = ascii ''A storm.''"
    by (simp_all add: three_scene_board_def scene_of_def)
  have c': "map_option utterance_text (speech_effect (synthesis_completes three_scene_board))
              = Some (ascii ''A storm.'')"
    by (simp add: c e)
  have a': "currentSceneIndex (synthesis_completes three_scene_board) = 2"
    by (simp add: a e)
  have d': "\<not> isPlaying (synthesis_fails three_scene_board)"
    "currentSceneIndex (synthesis_fails three_scene_board) = 1"
    by (simp_all add: d e)
  show ?thesis using h lt b a' c' d' by simp
qed

section \<open>Properties of the rounding of doubles\<close>

lemmas round64_eval =
  js_divide_def js_times_def round64_def binary_exponent_def pow2_def round_half_even_def
  compute_bitlen Let_def

lemma pow2_pos: "0 < pow2 k"
  by (simp add: pow2_def)

lemma pow2_nat: "0 \<le> k \<Longrightarrow> pow2 k = 2 ^ nat k"
  by (simp add: pow2_def)

text \<open>\<open>binary_exponent x\<close> is the exponent of the power of two at or below \<open>\<bar>x\<bar>\<close>.\<close>

lemma binary_exponent_bounds:
  assumes "x \<noteq> 0"
  shows "pow2 (binary_exponent x) \<le> \<bar>x\<bar> \<and> \<bar>x\<bar> < pow2 (binary_exponent x + 1)"
proof (cases "1 \<le> \<bar>x\<bar>")
  case True
  define n where "n = \<lfloor>\<bar>x\<bar>\<rfloor>"
  have n: "0 < n" using True by (simp add: n_def)
  have e: "binary_exponent x = bitlen n - 1"
    using True by (simp add: binary_exponent_def n_def)
  from bitlen_bounds [OF n]
  have lo: "2 ^ nat (bitlen n - 1) \<le> n" and hi: "n < 2 ^ nat (bitlen n)" by simp_all
  have b1: "1 \<le> bitlen n" using n by (auto simp: bitlen_alt_def)
  have "(2::real) ^ nat (bitlen n - 1) \<le> of_int n"
    using lo by (metis of_int_le_iff of_int_numeral of_int_power)
  also have "\<dots> \<le> \<bar>x\<bar>" by (simp add: n_def)
  finally have l: "pow2 (bitlen n - 1) \<le> \<bar>x\<bar>"
    using b1 by (simp add: pow2_nat)
  have "n + 1 \<le> 2 ^ nat (bitlen n)" using hi by simp
  then have "of_int (n + 1) \<le> (2::real) ^ nat (bitlen n)"
    by (metis of_int_le_iff of_int_numeral of_int_power)
  moreover have "\<bar>x\<bar> < of_int (n + 1)"
    unfolding n_def by linarith
  ultimately have "\<bar>x\<bar> < 2 ^ nat (bitlen n)" by linarith
  then have h: "\<bar>x\<bar> < pow2 (bitlen n - 1 + 1)"
    using b1 by (simp add: pow2_nat)
  from l h e show ?thesis by simp
next
  case False
  define a where "a = \<bar>x\<bar>"
  have a: "0 < a" "a < 1" using assms False by (simp_all add: a_def)
  define m where "m = \<lceil>1 / a\<rceil>"
  define n where "n = m - 1"
  have y: "1 < 1 / a" using a by simp
  have m2: "2 \<le> m" unfolding m_def using y by linarith
  have n: "0 < n" using m2 by (simp add: n_def)
  have e: "binary_exponent x = - bitlen n"
    using False by (simp add: binary_exponent_def n_def m_def a_def)
  from bitlen_bounds [OF n]
  have lo: "2 ^ nat (bitlen n - 1) \<le> n" and hi: "n < 2 ^ nat (bitlen n)" by simp_all
  have b1: "1 \<le> bitlen n" using n by (auto simp: bitlen_alt_def)
  have "m \<le> 2 ^ nat (bitlen n)" using hi by (simp add: n_def)
  then have "of_int m \<le> (2::real) ^ nat (bitlen n)"
    by (metis of_int_le_iff of_int_numeral of_int_power)
  moreover have "1 / a \<le> of_int m" unfolding m_def by linarith
  ultimately have "1 / a \<le> 2 ^ nat (bitlen n)" by linarith
  then have "1 \<le> 2 ^ nat (bitlen n) * a"
    using a by (simp add: field_simps)
  then have "1 / 2 ^ nat (bitlen n) \<le> a"
    by (simp add: field_simps)
  then have l: "pow2 (- bitlen n) \<le> a"
    using b1 by (simp add: pow2_def)
  have "(2::real) ^ nat (bitlen n - 1) \<le> of_int n"
    using lo by (metis of_int_le_iff of_int_numeral of_int_power)
  moreover have "of_int n < 1 / a" unfolding n_def m_def by linarith
  ultimately have "2 ^ nat (bitlen n - 1) < 1 / a" by linarith
  then have "2 ^ nat (bitlen n - 1) * a < 1"
    using a by (simp add: field_simps)
  then have lt: "a < 1 / 2 ^ nat (bitlen n - 1)"
    by (simp add: field_simps)
  have h: "a < pow2 (- bitlen n + 1)"
  proof (cases "bitlen n = 1")
    case True
    then show ?thesis using a by (simp add: pow2_def)
  next
    case False
    with b1 have "2 \<le> bitlen n" by simp
    then have "nat (- (- bitlen n + 1)) = nat (bitlen n - 1)" "\<not> 0 \<le> - bitlen n + 1"
      by simp_all
    then show ?thesis using lt by (simp add: pow2_def)
  qed
  from l h e show ?thesis by (simp add: a_def)
qed

text \<open>\<open>round64 x\<close> is within half a step of \<open>x\<close>.\<close>

lemma round_half_even_near: "\<bar>of_int (round_half_even y) - y\<bar> \<le> 1 / 2"
proof -
  have "of_int \<lfloor>y\<rfloor> \<le> y" "y < of_int \<lfloor>y\<rfloor> + 1" by linarith+
  then show ?thesis
    by (auto simp: round_half_even_def Let_def)
qed

lemma round64_near:
  assumes "x \<noteq> 0"
  shows "\<bar>round64 x - x\<bar> \<le> pow2 (max (binary_exponent x) (- 1022) - 52) / 2"
proof -
  let ?u = "pow2 (max (binary_exponent x) (- 1022) - 52)"
  have u: "0 < ?u" by (rule pow2_pos)
  have "round64 x - x = (of_int (round_half_even (x / ?u)) - x / ?u) * ?u"
    using assms u by (simp add: round64_def Let_def algebra_simps)
  then have "\<bar>round64 x - x\<bar> = \<bar>of_int (round_half_even (x / ?u)) - x / ?u\<bar> * ?u"
    using u by (simp add: abs_mult)
  also have "\<dots> \<le> (1 / 2) * ?u"
    using round_half_even_near [of "x / ?u"] u by (intro mult_right_mono) simp_all
  finally show ?thesis by simp
qed

text \<open>
  The integers up to \<open>2\<^sup>5\<^sup>3\<close> in absolute value are doubles: a sum of integers that
  stays in this range is exact.
\<close>

lemma pow2_powi: "pow2 k = 2 powi k"
  by (simp add: pow2_def power_int_def field_simps power_inverse)

lemma round_half_even_of_int: "round_half_even (of_int k) = k"
  by (simp add: round_half_even_def Let_def)

lemma round64_of_int:
  assumes "\<bar>k\<bar> \<le> 2 ^ 53"
  shows "round64 (of_int k) = of_int k"
proof (cases "k = 0")
  case True
  then show ?thesis by (simp add: round64_def)
next
  case False
  define x :: real where "x = of_int k"
  define e where "e = binary_exponent x"
  have x0: "x \<noteq> 0" using False by (simp add: x_def)
  have x1: "1 \<le> \<bar>x\<bar>" using False by (simp add: x_def)
  have xk: "\<bar>x\<bar> = of_int \<bar>k\<bar>" by (simp add: x_def)
  have x53: "\<bar>x\<bar> \<le> 2 powi 53"
  proof -
    have "(of_int \<bar>k\<bar> :: real) \<le> of_int (2 ^ 53)" using assms by (subst of_int_le_iff)
    then show ?thesis by (simp add: xk)
  qed
  from binary_exponent_bounds [OF x0]
  have lo: "2 powi e \<le> \<bar>x\<bar>" and hi: "\<bar>x\<bar> < 2 powi (e + 1)"
    by (simp_all add: e_def pow2_powi)
  have e0: "0 \<le> e"
  proof (rule ccontr)
    assume "\<not> 0 \<le> e"
    then have "e + 1 \<le> 0" by simp
    then have "(2::real) powi (e + 1) \<le> 2 powi 0" by (rule power_int_increasing) simp
    with hi x1 show False by simp
  qed
  have e53: "e \<le> 53"
  proof (rule ccontr)
    assume "\<not> e \<le> 53"
    then have "53 < e" by simp
    then have "(2::real) powi 53 < 2 powi e" by (rule power_int_strict_increasing) simp
    with lo x53 show False by simp
  qed
  have m: "max e (- 1022) = e" using e0 by simp
  have r: "round64 x = of_int (round_half_even (x / pow2 (e - 52))) * pow2 (e - 52)"
    using x0 by (simp add: round64_def Let_def e_def [symmetric] m)
  show ?thesis
  proof (cases "e \<le> 52")
    case True
    then have u: "pow2 (e - 52) = 1 / 2 ^ nat (52 - e)"
      by (cases "e = 52") (simp_all add: pow2_def)
    have q: "x / pow2 (e - 52) = of_int (k * 2 ^ nat (52 - e))"
      by (simp add: u x_def)
    have "round64 x = of_int (k * 2 ^ nat (52 - e)) * (1 / 2 ^ nat (52 - e))"
      unfolding r q round_half_even_of_int by (simp add: u)
    then show ?thesis by (simp add: x_def)
  next
    case False
    with e53 have e: "e = 53" by simp
    have "(2::real) powi 53 \<le> \<bar>x\<bar>" using lo by (simp add: e)
    with x53 have "\<bar>x\<bar> = 2 ^ 53" by simp
    then have "of_int \<bar>k\<bar> = (of_int (2 ^ 53) :: real)" by (simp add: xk)
    then have k: "\<bar>k\<bar> = 2 ^ 53" by (subst (asm) of_int_eq_iff)
    have u: "pow2 (e - 52) = 2" by (simp add: e pow2_def)
    have k2: "k = 2 ^ 53 \<or> k = - (2 ^ 53)" using k by linarith
    then have q: "x / pow2 (e - 52) = of_int (k div 2)"
      unfolding u by (auto simp: x_def)
    have "round64 x = of_int (k div 2) * 2"
      unfolding r q round_half_even_of_int by (simp add: u)
    also have "\<dots> = x"
      using k2 by (auto simp: x_def)
    finally show ?thesis by (simp add: x_def)
  qed
qed

text \<open>
  The rounding at work: a third is the double \<open>6004799503160661 \<times> 2\<^sup>-\<^sup>5\<^sup>4\<close>, a tenth
  is \<open>3602879701896397 \<times> 2\<^sup>-\<^sup>5\<^sup>5\<close> (a little more than a tenth), so that the quotient
  of a half by it, a little less than 5, rounds to 5; \<open>2\<^sup>5\<^sup>3 + 5\<close> lies between two
  doubles and goes to the even one.
\<close>

lemma rounding_examples:
  "js_divide 1 3 = 6004799503160661 / 2 ^ 54"
  "js_divide 1 10 = 3602879701896397 / 2 ^ 55"
  "js_divide (1 / 2) (3602879701896397 / 2 ^ 55) = 5"
  "js_divide (6004799503160661 / 2 ^ 54) (js_divide 1 3) = 1"
  "js_divide 22 10 = 2476979795053773 / 2 ^ 50"
  "round64 (2 ^ 53 + 5) = 2 ^ 53 + 4"
  "js_divide 30 3 = 10"
  "js_times 2 10 = 20"
  by (simp_all add: round64_eval)

section \<open>Properties of manual navigation\<close>

lemma js_rem_nonneg: "0 \<le> a \<Longrightarrow> 0 < b \<Longrightarrow> js_rem a b = a mod b"
  by (cases "a = 0") (simp_all add: js_rem_def)

text \<open>
  C2, as the claim states it, fails in audio mode: \<open>goToScene\<close> never touches the
  playback flag, so a board that is playing is still playing after "next"; and with the
  audio element mounted but the per-scene duration still at its initial 0, "next" is no
  no-op, it moves the index (the guard tests \<open>isFinite\<close>, and 0 is finite).
\<close>

theorem navigation_counterexample:
  "isPlaying audio_board_playing \<and>
   isPlaying (nextScene_audio audio_board_playing) \<and>
   sceneDurationRef audio_board_unmeasured = 0 \<and>
   currentSceneIndex audio_board_unmeasured = 0 \<and>
   currentSceneIndex (nextScene_audio audio_board_unmeasured) = 1"
  by (simp add: audio_board_playing_def audio_board_unmeasured_def nextScene_audio_def
        goToScene_def isFinite_def js_rem_def scene_of_def)

text \<open>
  C2, amended. With \<open>N \<ge> 1\<close> scenes and the current index within the board: in
  topic mode "next" and "previous" stop playback and set the index to
  \<open>(current \<plusminus> 1 + N) mod N\<close>, changing nothing else. In audio mode navigation
  leaves the playback flag as it is; it is a no-op when there are no scenes or no audio
  element; and once a per-scene duration is known it sets the index to
  \<open>(current \<plusminus> 1 + N) mod N\<close> and the playback position to that index times the
  per-scene duration (the product of the two doubles), changing nothing else.
\<close>

theorem navigation_wraps:
  "(1 \<le> length (scenes s) \<and> 0 \<le> currentSceneIndex s \<and>
    currentSceneIndex s < int (length (scenes s)) \<longrightarrow>
      nextScene s = s\<lparr>isPlaying := False,
          currentSceneIndex :=
            (currentSceneIndex s + 1 + int (length (scenes s))) mod int (length (scenes s))\<rparr> \<and>
      prevScene s = s\<lparr>isPlaying := False,
          currentSceneIndex :=
            (currentSceneIndex s - 1 + int (length (scenes s))) mod int (length (scenes s))\<rparr>) \<and>
   isPlaying (nextScene_audio a) = isPlaying a \<and>
   isPlaying (prevScene_audio a) = isPlaying a \<and>
   (length (scenes a) = 0 \<or> audioRef a = None \<longrightarrow>
      nextScene_audio a = a \<and> prevScene_audio a = a) \<and>
   (1 \<le> length (scenes a) \<and> 0 \<le> currentSceneIndex a \<and>
    currentSceneIndex a < int (length (scenes a)) \<and> audioRef a = Some el \<and>
    0 < sceneDurationRef a \<longrightarrow>
      nextScene_audio a =
        a\<lparr>currentSceneIndex :=
            (currentSceneIndex a + 1 + int (length (scenes a))) mod int (length (scenes a)),
          audioRef := Some (el\<lparr>currentTime :=
            js_times (real_of_int ((currentSceneIndex a + 1 + int (length (scenes a)))
                           mod int (length (scenes a))))
              (sceneDurationRef a)\<rparr>)\<rparr> \<and>
      prevScene_audio a =
        a\<lparr>currentSceneIndex :=
            (currentSceneIndex a - 1 + int (length (scenes a))) mod int (length (scenes a)),
          audioRef := Some (el\<lparr>currentTime :=
            js_times (real_of_int ((currentSceneIndex a - 1 + int (length (scenes a)))
                           mod int (length (scenes a))))
              (sceneDurationRef a)\<rparr>)\<rparr>)"
proof (intro conjI impI)
  assume h: "1 \<le> length (scenes s) \<and> 0 \<le> currentSceneIndex s \<and>
    currentSceneIndex s < int (length (scenes s))"
  then have r1: "js_rem (currentSceneIndex s + 1) (int (length (scenes s)))
      = (currentSceneIndex s + 1 + int (length (scenes s))) mod int (length (scenes s))"
  proof -
    from h have "0 \<le> currentSceneIndex s + 1" and "0 < int (length (scenes s))"
      by linarith+
    then show ?thesis by (simp add: js_rem_nonneg)
  qed
  from h have r2: "js_rem (currentSceneIndex s - 1 + int (length (scenes s))) (int (length (scenes s)))
      = (currentSceneIndex s - 1 + int (length (scenes s))) mod int (length (scenes s))"
    by (intro js_rem_nonneg) auto
  from h show "nextScene s = s\<lparr>isPlaying := False,
          currentSceneIndex :=
            (currentSceneIndex s + 1 + int (length (scenes s))) mod int (length (scenes s))\<rparr>"
    unfolding nextScene_def Let_def r1 by auto
  from h show "prevScene s = s\<lparr>isPlaying := False,
          currentSceneIndex :=
            (currentSceneIndex s - 1 + int (length (scenes s))) mod int (length (scenes s))\<rparr>"
    unfolding prevScene_def Let_def r2 by auto
next
  show "isPlaying (nextScene_audio a) = isPlaying a"
    by (simp add: nextScene_audio_def goToScene_def Let_def)
  show "isPlaying (prevScene_audio a) = isPlaying a"
    by (simp add: prevScene_audio_def goToScene_def Let_def)
next
  assume "length (scenes a) = 0 \<or> audioRef a = None"
  then show "nextScene_audio a = a" "prevScene_audio a = a"
    by (auto simp: nextScene_audio_def prevScene_audio_def goToScene_def)
next
  assume h: "1 \<le> length (scenes a) \<and> 0 \<le> currentSceneIndex a \<and>
    currentSceneIndex a < int (length (scenes a)) \<and> audioRef a = Some el \<and>
    0 < sceneDurationRef a"
  then have r1: "js_rem (currentSceneIndex a + 1 + int (length (scenes a))) (int (length (scenes a)))
      = (currentSceneIndex a + 1 + int (length (scenes a))) mod int (length (scenes a))"
    by (intro js_rem_nonneg) auto
  from h have r2: "js_rem (currentSceneIndex a - 1 + int (length (scenes a))) (int (length (scenes a)))
      = (currentSceneIndex a - 1 + int (length (scenes a))) mod int (length (scenes a))"
    by (intro js_rem_nonneg) auto
  from h show "nextScene_audio a =
        a\<lparr>currentSceneIndex :=
            (currentSceneIndex a + 1 + int (length (scenes a))) mod int (length (scenes a)),
          audioRef := Some (el\<lparr>currentTime :=
            js_times (real_of_int ((currentSceneIndex a + 1 + int (length (scenes a)))
                           mod int (length (scenes a))))
              (sceneDurationRef a)\<rparr>)\<rparr>"
    unfolding nextScene_audio_def goToScene_def Let_def r1 by (auto simp: isFinite_def)
  from h show "prevScene_audio a =
        a\<lparr>currentSceneIndex :=
            (currentSceneIndex a - 1 + int (length (scenes a))) mod int (length (scenes a)),
          audioRef := Some (el\<lparr>currentTime :=
            js_times (real_of_int ((currentSceneIndex a - 1 + int (length (scenes a)))
                           mod int (length (scenes a))))
              (sceneDurationRef a)\<rparr>)\<rparr>"
    unfolding prevScene_audio_def goToScene_def Let_def r2 by (auto simp: isFinite_def)
qed

theorem navigation_wraps_witness:
  "1 \<le> length (scenes three_scene_board) \<and> 0 \<le> currentSceneIndex three_scene_board \<and>
   currentSceneIndex three_scene_board < int (length (scenes three_scene_board)) \<and>
   currentSceneIndex (nextScene three_scene_board) = 2 \<and>
   \<not> isPlaying (nextScene three_scene_board) \<and>
   currentSceneIndex (prevScene three_scene_board) = 0 \<and>
   1 \<le> length (scenes audio_board_playing) \<and> 0 \<le> currentSceneIndex audio_board_playing \<and>
   currentSceneIndex audio_board_playing < int (length (scenes audio_board_playing)) \<and>
   audioRef audio_board_playing = Some \<lparr>currentTime = 0, duration = Seconds 30\<rparr> \<and>
   0 < sceneDurationRef audio_board_playing \<and>
   currentSceneIndex (prevScene_audio audio_board_playing) = 2 \<and>
   audioRef (prevScene_audio audio_board_playing)
     = Some \<lparr>currentTime = 20, duration = Seconds 30\<rparr> \<and>
   audioRef (audio_board_playing\<lparr>audioRef := None\<rparr>) = None \<and>
   nextScene_audio (audio_board_playing\<lparr>audioRef := None\<rparr>)
     = audio_board_playing\<lparr>audioRef := None\<rparr>"
proof -
  have ht: "1 \<le> length (scenes three_scene_board) \<and> 0 \<le> currentSceneIndex three_scene_board \<and>
      currentSceneIndex three_scene_board < int (length (scenes three_scene_board))"
    by (simp add: three_scene_board_def)
  have ha: "1 \<le> length (scenes audio_board_playing) \<and> 0 \<le> currentSceneIndex audio_board_playing \<and>
      currentSceneIndex audio_board_playing < int (length (scenes audio_board_playing)) \<and>
      audioRef audio_board_playing = Some \<lparr>currentTime = 0, duration = Seconds 30\<rparr> \<and>
      0 < sceneDurationRef audio_board_playing"
    by (simp add: audio_board_playing_def)
  have hn: "length (scenes (audio_board_playing\<lparr>audioRef := None\<rparr>)) = 0 \<or>
      audioRef (audio_board_playing\<lparr>audioRef := None\<rparr>) = None"
    by simp
  note t1 = navigation_wraps [of three_scene_board audio_board_playing
                                 "\<lparr>currentTime = 0, duration = Seconds 30\<rparr>"]
  note t2 = navigation_wraps [of three_scene_board "audio_board_playing\<lparr>audioRef := None\<rparr>"
                                 "\<lparr>currentTime = 0, duration = Seconds 30\<rparr>"]
  from t1 ht have n: "nextScene three_scene_board = three_scene_board\<lparr>isPlaying := False,
          currentSceneIndex := (currentSceneIndex three_scene_board + 1
             + int (length (scenes three_scene_board))) mod int (length (scenes three_scene_board))\<rparr>"
    and p: "prevScene three_scene_board = three_scene_board\<lparr>isPlaying := False,
          currentSceneIndex := (currentSceneIndex three_scene_board - 1
             + int (length (scenes three_scene_board))) mod int (length (scenes three_scene_board))\<rparr>"
    by blast+
  from t1 ha have pa: "prevScene_audio audio_board_playing =
        audio_board_playing\<lparr>currentSceneIndex :=
            (currentSceneIndex audio_board_playing - 1 + int (length (scenes audio_board_playing)))
              mod int (length (scenes audio_board_playing)),
          audioRef := Some (\<lparr>currentTime = 0, duration = Seconds 30\<rparr>\<lparr>currentTime :=
            js_times (real_of_int ((currentSceneIndex audio_board_playing - 1
                            + int (length (scenes audio_board_playing)))
                           mod int (length (scenes audio_board_playing))))
              (sceneDurationRef audio_board_playing)\<rparr>)\<rparr>"
    by blast
  from t2 hn have nn: "nextScene_audio (audio_board_playing\<lparr>audioRef := None\<rparr>)
     = audio_board_playing\<lparr>audioRef := None\<rparr>"
    by blast
  have vt: "currentSceneIndex three_scene_board = 1" "length (scenes three_scene_board) = 3"
    by (simp_all add: three_scene_board_def)
  have va: "currentSceneIndex audio_board_playing = 0" "length (scenes audio_board_playing) = 3"
    "sceneDurationRef audio_board_playing = 10"
    by (simp_all add: audio_board_playing_def)
  have r1: "currentSceneIndex (nextScene three_scene_board) = 2"
    "\<not> isPlaying (nextScene three_scene_board)"
    by (simp_all add: n vt)
  have r2: "currentSceneIndex (prevScene three_scene_board) = 0"
    by (simp add: p vt)
  have r3: "currentSceneIndex (prevScene_audio audio_board_playing) = 2"
    "audioRef (prevScene_audio audio_board_playing)
       = Some \<lparr>currentTime = 20, duration = Seconds 30\<rparr>"
    by (simp_all add: pa va round64_eval)
  show ?thesis using ht ha r1 r2 r3 nn by simp
qed

section \<open>Properties of the time-division strategy\<close>

lemma three_line_storyboard_value:
  "length (scenes three_line_storyboard) = 3"
  "map narratorScript (scenes three_line_storyboard) = [[0x61], [0x62], [0x63]]"
  "audioRef three_line_storyboard = Some \<lparr>currentTime = 0, duration = NaN\<rparr>"
  "sceneDurationRef three_line_storyboard = 0"
  "currentSceneIndex three_line_storyboard = 0"
  by (simp_all add: three_line_storyboard_def handleCreateStoryboard_def
        handleCreateStoryboard_begin_def handleAudioFileChange_def handleScriptFileChange_def
        initial_audio_app_def three_line_script_def some_audio_file_def scriptLines_of_def
        trim_def js_whitespace_def initialScenes_of_lines_def mapi_def setAudioUrl_def
        storyboard_loop.simps patch_imagePrompt_def patch_imageUrl_def generateImage_def
        pipeline_finally_def data_url_prefix_def ascii_def Let_def)

lemma handleAudioTimeUpdate_calls_eq:
  assumes "audioRef s = Some a" and "sceneDurationRef s \<noteq> 0"
  shows "handleAudioTimeUpdate_calls s =
           (if min (int (length (scenes s)) - 1)
                   \<lfloor>js_divide (currentTime a) (sceneDurationRef s)\<rfloor> \<noteq> currentSceneIndex s
            then [SetCurrentSceneIndex
                    (min (int (length (scenes s)) - 1)
                         \<lfloor>js_divide (currentTime a) (sceneDurationRef s)\<rfloor>)]
            else []) @ [ForceUpdate]"
  using assms by (simp add: handleAudioTimeUpdate_calls_def Let_def)

text \<open>
  C4: when the metadata of the audio loads with a duration \<open>D\<close> (finite, not zero) on
  a board of \<open>N \<ge> 1\<close> scenes, the per-scene duration becomes \<open>D / N\<close> and nothing
  else changes. With a per-scene duration \<open>d\<close> known, a time-update tick at elapsed time
  \<open>t\<close> makes the current index \<open>min (N - 1) \<lfloor>t / d\<rfloor>\<close>. Both quotients are the
  code's, on doubles. \<open>setCurrentSceneIndex\<close> is called only when that index differs
  from the current one: the handler then calls it once with the new index, and otherwise
  calls nothing but the request for a new rendering; the per-scene duration is not
  touched by a tick. For the storyboard of a three-line script whose audio lasts 30
  seconds the per-scene duration is 10, and at 22 seconds the index is 2.
\<close>

theorem time_division_index:
  "(audioRef s = Some a \<and> duration a = Seconds D \<and> D \<noteq> 0 \<and> length (scenes s) \<noteq> 0 \<longrightarrow>
      handleAudioLoadedMetadata s =
        s\<lparr>sceneDurationRef := js_divide D (real (length (scenes s)))\<rparr>) \<and>
   (audioRef s = Some a \<and> 0 \<le> currentTime a \<and> 0 < sceneDurationRef s \<longrightarrow>
      currentSceneIndex (handleAudioTimeUpdate s)
        = min (int (length (scenes s)) - 1)
              \<lfloor>js_divide (currentTime a) (sceneDurationRef s)\<rfloor> \<and>
      sceneDurationRef (handleAudioTimeUpdate s) = sceneDurationRef s \<and>
      (min (int (length (scenes s)) - 1) \<lfloor>js_divide (currentTime a) (sceneDurationRef s)\<rfloor>
         = currentSceneIndex s \<longrightarrow>
         handleAudioTimeUpdate_calls s = [ForceUpdate] \<and>
         handleAudioTimeUpdate s = s\<lparr>forceUpdateCount := forceUpdateCount s + 1\<rparr>) \<and>
      (min (int (length (scenes s)) - 1) \<lfloor>js_divide (currentTime a) (sceneDurationRef s)\<rfloor>
         \<noteq> currentSceneIndex s \<longrightarrow>
         handleAudioTimeUpdate_calls s =
           [SetCurrentSceneIndex
              (min (int (length (scenes s)) - 1)
                   \<lfloor>js_divide (currentTime a) (sceneDurationRef s)\<rfloor>),
            ForceUpdate] \<and>
         handleAudioTimeUpdate s =
           s\<lparr>currentSceneIndex :=
                 min (int (length (scenes s)) - 1)
                     \<lfloor>js_divide (currentTime a) (sceneDurationRef s)\<rfloor>,
             forceUpdateCount := forceUpdateCount s + 1\<rparr>)) \<and>
   length (scenes three_line_storyboard) = 3 \<and>
   sceneDurationRef (loadedmetadata (Seconds 30) three_line_storyboard) = 10 \<and>
   currentSceneIndex (timeupdate 22 (loadedmetadata (Seconds 30) three_line_storyboard)) = 2"
proof (intro conjI impI)
  assume "audioRef s = Some a \<and> duration a = Seconds D \<and> D \<noteq> 0 \<and> length (scenes s) \<noteq> 0"
  then show "handleAudioLoadedMetadata s =
        s\<lparr>sceneDurationRef := js_divide D (real (length (scenes s)))\<rparr>"
    by (simp add: handleAudioLoadedMetadata_def)
next
  let ?i = "min (int (length (scenes s)) - 1)
                \<lfloor>js_divide (currentTime a) (sceneDurationRef s)\<rfloor>"
  assume h: "audioRef s = Some a \<and> 0 \<le> currentTime a \<and> 0 < sceneDurationRef s"
  then have c: "handleAudioTimeUpdate_calls s =
      (if ?i \<noteq> currentSceneIndex s then [SetCurrentSceneIndex ?i] else []) @ [ForceUpdate]"
    by (intro handleAudioTimeUpdate_calls_eq) auto
  show "currentSceneIndex (handleAudioTimeUpdate s) = ?i"
    by (simp add: handleAudioTimeUpdate_def c)
  show "sceneDurationRef (handleAudioTimeUpdate s) = sceneDurationRef s"
    by (simp add: handleAudioTimeUpdate_def c)
  {
    assume "?i = currentSceneIndex s"
    then show "handleAudioTimeUpdate_calls s = [ForceUpdate]"
      and "handleAudioTimeUpdate s = s\<lparr>forceUpdateCount := forceUpdateCount s + 1\<rparr>"
      by (simp_all add: handleAudioTimeUpdate_def c)
  }
  {
    assume "?i \<noteq> currentSceneIndex s"
    then show "handleAudioTimeUpdate_calls s = [SetCurrentSceneIndex ?i, ForceUpdate]"
      and "handleAudioTimeUpdate s =
           s\<lparr>currentSceneIndex := ?i, forceUpdateCount := forceUpdateCount s + 1\<rparr>"
      by (simp_all add: handleAudioTimeUpdate_def c)
  }
next
  show "length (scenes three_line_storyboard) = 3"
    by (rule three_line_storyboard_value)
  have m: "loadedmetadata (Seconds 30) three_line_storyboard
      = three_line_storyboard\<lparr>audioRef := Some \<lparr>currentTime = 0, duration = Seconds 30\<rparr>,
                               sceneDurationRef := 10\<rparr>"
    by (simp add: loadedmetadata_def handleAudioLoadedMetadata_def three_line_storyboard_value
          rounding_examples)
  show "sceneDurationRef (loadedmetadata (Seconds 30) three_line_storyboard) = 10"
    by (simp add: m)
  have q: "\<lfloor>js_divide 22 10\<rfloor> = 2"
    by (simp add: rounding_examples)
  show "currentSceneIndex (timeupdate 22 (loadedmetadata (Seconds 30) three_line_storyboard)) = 2"
    by (simp add: m timeupdate_def handleAudioTimeUpdate_def handleAudioTimeUpdate_calls_def
          three_line_storyboard_value Let_def q)
qed

theorem time_division_index_witness:
  "audioRef audio_board_playing = Some \<lparr>currentTime = 0, duration = Seconds 30\<rparr> \<and>
   duration \<lparr>currentTime = 0, duration = Seconds 30\<rparr> = Seconds 30 \<and> (30::real) \<noteq> 0 \<and>
   length (scenes audio_board_playing) \<noteq> 0 \<and>
   sceneDurationRef (handleAudioLoadedMetadata audio_board_playing) = 10 \<and>
   0 < sceneDurationRef audio_board_playing \<and>
   currentSceneIndex audio_board_playing = 0 \<and>
   handleAudioTimeUpdate_calls audio_board_playing = [ForceUpdate] \<and>
   handleAudioTimeUpdate audio_board_playing = audio_board_playing\<lparr>forceUpdateCount := 1\<rparr> \<and>
   audioRef (audio_board_playing\<lparr>audioRef := Some \<lparr>currentTime = 22, duration = Seconds 30\<rparr>\<rparr>)
     = Some \<lparr>currentTime = 22, duration = Seconds 30\<rparr> \<and>
   handleAudioTimeUpdate_calls
     (audio_board_playing\<lparr>audioRef := Some \<lparr>currentTime = 22, duration = Seconds 30\<rparr>\<rparr>)
     = [SetCurrentSceneIndex 2, ForceUpdate] \<and>
   currentSceneIndex (handleAudioTimeUpdate
     (audio_board_playing\<lparr>audioRef := Some \<lparr>currentTime = 22, duration = Seconds 30\<rparr>\<rparr>)) = 2 \<and>
   currentSceneIndex (handleAudioTimeUpdate
     (audio_board_playing\<lparr>audioRef := Some \<lparr>currentTime = 99, duration = Seconds 30\<rparr>\<rparr>)) = 2"
proof -
  let ?a0 = "\<lparr>currentTime = 0, duration = Seconds 30\<rparr>"
  let ?a22 = "\<lparr>currentTime = 22, duration = Seconds 30\<rparr>"
  let ?a99 = "\<lparr>currentTime = 99, duration = Seconds 30\<rparr>"
  have v: "audioRef audio_board_playing = Some ?a0" "length (scenes audio_board_playing) = 3"
    "sceneDurationRef audio_board_playing = 10" "currentSceneIndex audio_board_playing = 0"
    "forceUpdateCount audio_board_playing = 0"
    by (simp_all add: audio_board_playing_def)
  have q: "js_divide 30 3 = 10" "\<lfloor>js_divide 0 10\<rfloor> = 0" "\<lfloor>js_divide 22 10\<rfloor> = 2"
    "\<lfloor>js_divide 99 10\<rfloor> = 9"
    by (simp_all add: round64_eval)
  note t0 = time_division_index [of audio_board_playing ?a0 30]
  note t22 = time_division_index
    [of "audio_board_playing\<lparr>audioRef := Some ?a22\<rparr>" ?a22 30]
  note t99 = time_division_index
    [of "audio_board_playing\<lparr>audioRef := Some ?a99\<rparr>" ?a99 30]
  have m: "handleAudioLoadedMetadata audio_board_playing
      = audio_board_playing\<lparr>sceneDurationRef :=
          js_divide 30 (real (length (scenes audio_board_playing)))\<rparr>"
    using t0 v by simp
  have u0: "handleAudioTimeUpdate_calls audio_board_playing = [ForceUpdate]"
    "handleAudioTimeUpdate audio_board_playing
      = audio_board_playing\<lparr>forceUpdateCount := forceUpdateCount audio_board_playing + 1\<rparr>"
    using t0 v q by simp_all
  have u22: "handleAudioTimeUpdate_calls (audio_board_playing\<lparr>audioRef := Some ?a22\<rparr>)
      = [SetCurrentSceneIndex 2, ForceUpdate]"
    "currentSceneIndex (handleAudioTimeUpdate (audio_board_playing\<lparr>audioRef := Some ?a22\<rparr>)) = 2"
    using t22 v q by simp_all
  have u99: "currentSceneIndex (handleAudioTimeUpdate (audio_board_playing\<lparr>audioRef := Some ?a99\<rparr>)) = 2"
    using t99 v q by simp
  show ?thesis using v u22 u99 by (simp add: m u0 q)
qed

section \<open>Properties of seeking to a scene\<close>

lemma js_rem_wrap:
  assumes "0 < n" and "- n \<le> i"
  shows "js_rem (i + n) n = i mod n"
proof -
  from assms have "0 \<le> i + n" by simp
  with assms(1) have "js_rem (i + n) n = (i + n) mod n"
    by (rule js_rem_nonneg [rotated])
  then show ?thesis by simp
qed

text \<open>
  \<open>goToScene\<close> is local to the component and is called from \<open>nextScene\<close> and
  \<open>prevScene\<close> only, with the current index plus or minus one. With the current index
  on the board (an array holds fewer than \<open>2\<^sup>3\<^sup>2\<close> elements) these calls lie between
  \<open>-N\<close> and \<open>2\<^sup>5\<^sup>3 - N\<close>, where the sum of index and length is exact on doubles.
\<close>

lemma navigation_calls_in_range:
  assumes "0 \<le> currentSceneIndex s" and "currentSceneIndex s < int (length (scenes s))"
    and "length (scenes s) < 2 ^ 32"
  shows "- int (length (scenes s)) \<le> currentSceneIndex s - 1"
    and "currentSceneIndex s + 1 + int (length (scenes s)) \<le> 2 ^ 53"
proof -
  show "- int (length (scenes s)) \<le> currentSceneIndex s - 1"
    using assms(1, 2) by linarith
  have "int (length (scenes s)) < 2 ^ 32"
    using assms(3) by (metis of_nat_less_iff of_nat_numeral of_nat_power)
  then show "currentSceneIndex s + 1 + int (length (scenes s)) \<le> 2 ^ 53"
    using assms(2) by simp
qed

text \<open>
  C5: on a board of \<open>N \<ge> 1\<close> scenes whose audio has reported its duration \<open>D > 0\<close>
  (so that the per-scene duration is \<open>D / N\<close>, as a double), \<open>goToScene i\<close> sets the
  playback position to \<open>i \<times> (D / N)\<close> (the product of the two doubles) and the
  current index to \<open>i\<close> when \<open>i\<close> is in range; for \<open>i\<close> out of range the index
  wraps to \<open>i mod N\<close> and the position is that of scene \<open>i mod N\<close>; nothing else
  changes. The indices covered are those from \<open>-N\<close> to \<open>2\<^sup>5\<^sup>3 - N\<close>, which include
  every call the component makes. Index \<open>-1\<close> on a board of five scenes goes to
  scene 4.
\<close>

theorem goToScene_seeks:
  assumes "1 \<le> length (scenes s)"
    and "audioRef s = Some a"
    and "duration a = Seconds D"
    and "0 < D"
    and "- int (length (scenes s)) \<le> i"
    and "i + int (length (scenes s)) \<le> 2 ^ 53"
  shows "goToScene i (handleAudioLoadedMetadata s) =
           s\<lparr>sceneDurationRef := js_divide D (real (length (scenes s))),
             currentSceneIndex := i mod int (length (scenes s)),
             audioRef := Some (a\<lparr>currentTime :=
               js_times (real_of_int (i mod int (length (scenes s))))
                        (js_divide D (real (length (scenes s))))\<rparr>)\<rparr> \<and>
         0 \<le> i mod int (length (scenes s)) \<and>
         i mod int (length (scenes s)) < int (length (scenes s)) \<and>
         (0 \<le> i \<and> i < int (length (scenes s)) \<longrightarrow>
            currentSceneIndex (goToScene i (handleAudioLoadedMetadata s)) = i \<and>
            map_option currentTime (audioRef (goToScene i (handleAudioLoadedMetadata s)))
              = Some (js_times (real_of_int i) (js_divide D (real (length (scenes s)))))) \<and>
         length (scenes five_scene_audio_board) = 5 \<and>
         currentSceneIndex (goToScene (- 1) five_scene_audio_board) = 4"
proof -
  let ?n = "int (length (scenes s))"
  let ?d = "js_divide D (real (length (scenes s)))"
  let ?s1 = "s\<lparr>sceneDurationRef := ?d\<rparr>"
  have ne: "scenes s \<noteq> []" using assms(1) by auto
  have n: "0 < ?n" using ne by simp
  have m: "handleAudioLoadedMetadata s = ?s1"
    using assms(2-4) ne by (simp add: handleAudioLoadedMetadata_def)
  have r: "js_rem (i + ?n) ?n = i mod ?n"
    using n assms(5) by (rule js_rem_wrap)
  have g: "goToScene i ?s1 =
           s\<lparr>sceneDurationRef := ?d,
             currentSceneIndex := i mod ?n,
             audioRef := Some (a\<lparr>currentTime := js_times (real_of_int (i mod ?n)) ?d\<rparr>)\<rparr>"
    using assms(2) ne by (simp add: goToScene_def isFinite_def r Let_def)
  have rng: "0 \<le> i mod ?n" "i mod ?n < ?n"
    using n by simp_all
  have inr: "i mod ?n = i" if "0 \<le> i \<and> i < ?n"
    using that by simp
  have five: "length (scenes five_scene_audio_board) = 5"
    "currentSceneIndex (goToScene (- 1) five_scene_audio_board) = 4"
    by (simp_all add: five_scene_audio_board_def audio_board_playing_def goToScene_def
          isFinite_def js_rem_def)
  show ?thesis
    unfolding m g using rng inr five by simp
qed

theorem goToScene_seeks_witness:
  "1 \<le> length (scenes audio_board_playing) \<and>
   audioRef audio_board_playing = Some \<lparr>currentTime = 0, duration = Seconds 30\<rparr> \<and>
   duration \<lparr>currentTime = 0, duration = Seconds 30\<rparr> = Seconds 30 \<and> (0::real) < 30 \<and>
   - int (length (scenes audio_board_playing)) \<le> 2 \<and>
   2 + int (length (scenes audio_board_playing)) \<le> 2 ^ 53 \<and>
   - int (length (scenes audio_board_playing)) \<le> - 1 \<and>
   - 1 + int (length (scenes audio_board_playing)) \<le> 2 ^ 53 \<and>
   currentSceneIndex (goToScene 2 (handleAudioLoadedMetadata audio_board_playing)) = 2 \<and>
   map_option currentTime (audioRef (goToScene 2 (handleAudioLoadedMetadata audio_board_playing)))
     = Some 20 \<and>
   currentSceneIndex (goToScene (- 1) (handleAudioLoadedMetadata audio_board_playing)) = 2 \<and>
   map_option currentTime
     (audioRef (goToScene (- 1) (handleAudioLoadedMetadata audio_board_playing))) = Some 20 \<and>
   currentSceneIndex (goToScene 3 (handleAudioLoadedMetadata audio_board_playing)) = 0"
proof -
  let ?a = "\<lparr>currentTime = 0, duration = Seconds 30\<rparr>"
  have h: "1 \<le> length (scenes audio_board_playing)" "audioRef audio_board_playing = Some ?a"
    "duration ?a = Seconds 30" "(0::real) < 30"
    by (simp_all add: audio_board_playing_def)
  have len: "length (scenes audio_board_playing) = 3"
    by (simp add: audio_board_playing_def)
  have i2: "- int (length (scenes audio_board_playing)) \<le> 2"
      "2 + int (length (scenes audio_board_playing)) \<le> 2 ^ 53"
    and im: "- int (length (scenes audio_board_playing)) \<le> - 1"
      "- 1 + int (length (scenes audio_board_playing)) \<le> 2 ^ 53"
    and i3: "- int (length (scenes audio_board_playing)) \<le> 3"
      "3 + int (length (scenes audio_board_playing)) \<le> 2 ^ 53"
    by (simp_all add: len)
  have q: "js_divide 30 3 = 10" "js_times 2 10 = 20" "js_times 0 10 = 0"
    by (simp_all add: round64_eval)
  have a: "currentSceneIndex (goToScene 2 (handleAudioLoadedMetadata audio_board_playing)) = 2"
    "map_option currentTime (audioRef (goToScene 2 (handleAudioLoadedMetadata audio_board_playing)))
       = Some 20"
    using goToScene_seeks [OF h i2] by (simp_all add: len q)
  have b: "currentSceneIndex (goToScene (- 1) (handleAudioLoadedMetadata audio_board_playing)) = 2"
    "map_option currentTime
       (audioRef (goToScene (- 1) (handleAudioLoadedMetadata audio_board_playing))) = Some 20"
    using goToScene_seeks [OF h im] by (simp_all add: len q)
  have c: "currentSceneIndex (goToScene 3 (handleAudioLoadedMetadata audio_board_playing)) = 0"
    using goToScene_seeks [OF h i3] by (simp add: len q)
  show ?thesis using h i2 im a b c by simp
qed

section \<open>Properties of input validation\<close>

text \<open>
  C7, as the claim states it, fails for an empty script file: the check of line 83 runs
  inside the pipeline, after the board has been reset. A board of three scenes that is
  playing its last scene ends with no scenes, index 0, playback stopped and its audio
  gone.
\<close>

theorem empty_script_counterexample:
  "length (scenes blank_script_board) = 3 \<and>
   currentSceneIndex blank_script_board = 2 \<and>
   isPlaying blank_script_board \<and>
   scenes (handleCreateStoryboard (ascii ''blob:2'') (\<lambda>i. Inr []) (\<lambda>i. ImagesReturned None)
             blank_script_board) = [] \<and>
   currentSceneIndex (handleCreateStoryboard (ascii ''blob:2'') (\<lambda>i. Inr [])
             (\<lambda>i. ImagesReturned None) blank_script_board) = 0 \<and>
   \<not> isPlaying (handleCreateStoryboard (ascii ''blob:2'') (\<lambda>i. Inr [])
             (\<lambda>i. ImagesReturned None) blank_script_board) \<and>
   error (handleCreateStoryboard (ascii ''blob:2'') (\<lambda>i. Inr [])
             (\<lambda>i. ImagesReturned None) blank_script_board) = Some empty_script_msg"
  by (simp add: blank_script_board_def audio_board_playing_def handleCreateStoryboard_def
        handleCreateStoryboard_begin_def scriptLines_of_def trim_def js_whitespace_def
        pipeline_finally_def pipeline_catch_def setAudioUrl_def error_text_def Let_def)

text \<open>
  C7, amended. An empty (blank) topic, a file of the wrong type (or no file) in either
  file input, and a missing script or audio file at "create" are rejected before
  anything is requested: the localized message is set, a refused file selection also
  clears the stored file of that input, and nothing else changes, so scenes, current
  index, playback flag and loading state are as before. A script file without a
  non-blank line is detected only after the pipeline has reset the board: the run ends
  with the localized message and loading false, but with the scenes cleared, the index
  0, playback stopped and the audio URL and element discarded.
\<close>

theorem invalid_input_rejected:
  "(trim (topic s) = [] \<longrightarrow>
      handleGenerate sr img s = s\<lparr>error := Some topic_required_msg\<rparr>) \<and>
   (f = None \<or> (\<exists>fl. f = Some fl \<and> file_type fl \<noteq> ascii ''text/plain'') \<longrightarrow>
      handleScriptFileChange f a = a\<lparr>scriptFile := None, error := Some text_file_required_msg\<rparr>) \<and>
   (f = None \<or> (\<exists>fl. f = Some fl \<and> take 6 (file_type fl) \<noteq> ascii ''audio/'') \<longrightarrow>
      handleAudioFileChange f a = a\<lparr>audioFile := None, error := Some audio_file_required_msg\<rparr>) \<and>
   (scriptFile a = None \<or> audioFile a = None \<longrightarrow>
      handleCreateStoryboard u pr img a = a\<lparr>error := Some both_files_required_msg\<rparr>) \<and>
   (scriptFile a = Some sf \<and> audioFile a \<noteq> None \<and> scriptLines_of (file_text sf) = [] \<longrightarrow>
      handleCreateStoryboard u pr img a =
        a\<lparr>scenes := [], isLoading := False, loadingMessage := [],
          error := Some empty_script_msg, currentSceneIndex := 0, isPlaying := False,
          audioUrl := None, audioRef := None\<rparr>)"
proof (intro conjI impI)
  assume "trim (topic s) = []"
  then show "handleGenerate sr img s = s\<lparr>error := Some topic_required_msg\<rparr>"
    by (simp add: handleGenerate_def handleGenerate_begin_def)
next
  assume "f = None \<or> (\<exists>fl. f = Some fl \<and> file_type fl \<noteq> ascii ''text/plain'')"
  then show "handleScriptFileChange f a
      = a\<lparr>scriptFile := None, error := Some text_file_required_msg\<rparr>"
    by (auto simp: handleScriptFileChange_def)
next
  assume "f = None \<or> (\<exists>fl. f = Some fl \<and> take 6 (file_type fl) \<noteq> ascii ''audio/'')"
  then show "handleAudioFileChange f a
      = a\<lparr>audioFile := None, error := Some audio_file_required_msg\<rparr>"
    by (auto simp: handleAudioFileChange_def)
next
  assume "scriptFile a = None \<or> audioFile a = None"
  then show "handleCreateStoryboard u pr img a = a\<lparr>error := Some both_files_required_msg\<rparr>"
    by (auto simp: handleCreateStoryboard_def handleCreateStoryboard_begin_def
             split: option.splits)
next
  assume "scriptFile a = Some sf \<and> audioFile a \<noteq> None \<and> scriptLines_of (file_text sf) = []"
  then show "handleCreateStoryboard u pr img a =
        a\<lparr>scenes := [], isLoading := False, loadingMessage := [],
          error := Some empty_script_msg, currentSceneIndex := 0, isPlaying := False,
          audioUrl := None, audioRef := None\<rparr>"
    by (auto simp: handleCreateStoryboard_def handleCreateStoryboard_begin_def Let_def
          pipeline_finally_def pipeline_catch_def setAudioUrl_def error_text_def)
qed

theorem invalid_input_rejected_witness:
  "trim (topic (three_scene_board\<lparr>topic := [0x20, 0x3000]\<rparr>)) = [] \<and>
   handleGenerate (Parsed ScenesFalsy) (\<lambda>i. ImagesReturned None)
       (three_scene_board\<lparr>topic := [0x20, 0x3000]\<rparr>)
     = three_scene_board\<lparr>topic := [0x20, 0x3000], error := Some topic_required_msg\<rparr> \<and>
   file_type some_audio_file \<noteq> ascii ''text/plain'' \<and>
   handleScriptFileChange (Some some_audio_file) audio_board_playing
     = audio_board_playing\<lparr>scriptFile := None, error := Some text_file_required_msg\<rparr> \<and>
   take 6 (file_type three_line_script) \<noteq> ascii ''audio/'' \<and>
   handleAudioFileChange (Some three_line_script) audio_board_playing
     = audio_board_playing\<lparr>audioFile := None, error := Some audio_file_required_msg\<rparr> \<and>
   scriptFile initial_audio_app = None \<and>
   handleCreateStoryboard (ascii ''blob:2'') (\<lambda>i. Inr []) (\<lambda>i. ImagesReturned None)
       initial_audio_app
     = initial_audio_app\<lparr>error := Some both_files_required_msg\<rparr> \<and>
   scriptFile blank_script_board
     = Some \<lparr>file_type = ascii ''text/plain'', file_text = [0x20, 0xA, 0xA]\<rparr> \<and>
   audioFile blank_script_board \<noteq> None \<and>
   scriptLines_of [0x20, 0xA, 0xA] = [] \<and>
   isLoading (handleCreateStoryboard (ascii ''blob:2'') (\<lambda>i. Inr []) (\<lambda>i. ImagesReturned None)
       blank_script_board) = False"
proof -
  let ?b = "three_scene_board\<lparr>topic := [0x20, 0x3000]\<rparr>"
  let ?sf = "\<lparr>file_type = ascii ''text/plain'', file_text = [0x20, 0xA, 0xA]\<rparr>"
  have h1: "trim (topic ?b) = []"
    by (simp add: trim_def js_whitespace_def)
  have h2: "file_type some_audio_file \<noteq> ascii ''text/plain''"
    by (simp add: some_audio_file_def ascii_def)
  have h3: "take 6 (file_type three_line_script) \<noteq> ascii ''audio/''"
    by (simp add: three_line_script_def ascii_def)
  have h4: "scriptFile initial_audio_app = None"
    by (simp add: initial_audio_app_def)
  have h5: "scriptFile blank_script_board = Some ?sf" "audioFile blank_script_board \<noteq> None"
    by (simp_all add: blank_script_board_def audio_board_playing_def)
  have h6: "scriptLines_of [0x20, 0xA, 0xA] = []"
    by (simp add: scriptLines_of_def trim_def js_whitespace_def)
  have r1: "handleGenerate (Parsed ScenesFalsy) (\<lambda>i. ImagesReturned None) ?b
      = ?b\<lparr>error := Some topic_required_msg\<rparr>"
    using invalid_input_rejected [where s = ?b] h1 by blast
  have r2: "handleScriptFileChange (Some some_audio_file) audio_board_playing
      = audio_board_playing\<lparr>scriptFile := None, error := Some text_file_required_msg\<rparr>"
    using invalid_input_rejected [where f = "Some some_audio_file" and a = audio_board_playing] h2
    by blast
  have r3: "handleAudioFileChange (Some three_line_script) audio_board_playing
      = audio_board_playing\<lparr>audioFile := None, error := Some audio_file_required_msg\<rparr>"
    using invalid_input_rejected [where f = "Some three_line_script" and a = audio_board_playing] h3
    by blast
  have r4: "handleCreateStoryboard (ascii ''blob:2'') (\<lambda>i. Inr []) (\<lambda>i. ImagesReturned None)
       initial_audio_app = initial_audio_app\<lparr>error := Some both_files_required_msg\<rparr>"
    using invalid_input_rejected [where a = initial_audio_app] h4 by blast
  have r5: "handleCreateStoryboard (ascii ''blob:2'') (\<lambda>i. Inr []) (\<lambda>i. ImagesReturned None)
       blank_script_board =
        blank_script_board\<lparr>scenes := [], isLoading := False, loadingMessage := [],
          error := Some empty_script_msg, currentSceneIndex := 0, isPlaying := False,
          audioUrl := None, audioRef := None\<rparr>"
    using invalid_input_rejected [where a = blank_script_board and sf = ?sf] h5 h6 by simp
  show ?thesis
    using h1 h2 h3 h4 h5 h6 r2 r3 r4 by (simp add: r1 r5)
qed

section \<open>Properties of the generation pipeline\<close>

lemma generateImage_cases:
  "generateImage r = Inl (Error image_failed_msg) \<or> (\<exists>url. generateImage r = Inr url)"
  by (cases r rule: generateImage_try.cases) (simp_all add: generateImage_def)

lemma generateImage_thrown: "generateImage r = Inl e \<Longrightarrow> e = Error image_failed_msg"
  using generateImage_cases [of r] by auto

lemma map_mapi: "map g (mapi f xs) = mapi (\<lambda>i x. g (f i x)) xs"
  by (simp add: mapi_def case_prod_unfold comp_def)

lemma mapi_cong: "(\<And>i. i < length xs \<Longrightarrow> f i (xs ! i) = g i (xs ! i)) \<Longrightarrow> mapi f xs = mapi g xs"
  by (rule nth_equalityI) (simp_all add: length_mapi nth_mapi)

lemma empty_range: "((k::nat) \<le> x \<and> x < k) = False"
  by auto

text \<open>The patches of scenes \<open>i\<close> to \<open>k - 1\<close>, one after the other, as one map.\<close>

lemma patch_imageUrl_range:
  "map (\<lambda>sc. if Suc i \<le> sceneId sc \<and> sceneId sc < k
             then sc\<lparr>imageUrl := Some (u (sceneId sc))\<rparr> else sc)
       (patch_imageUrl i (u i) scs)
   = map (\<lambda>sc. if i \<le> sceneId sc \<and> sceneId sc < k
               then sc\<lparr>imageUrl := Some (u (sceneId sc))\<rparr> else sc) scs"
  if "i < k"
  using that by (auto simp: patch_imageUrl_def)

lemma image_loop_fails_at:
  assumes "k < length initial"
    and "generateImage (img k) = Inl e"
  shows "i \<le> k \<Longrightarrow> (\<And>j. i \<le> j \<Longrightarrow> j < k \<Longrightarrow> generateImage (img j) = Inr (u j)) \<Longrightarrow>
    image_loop img initial i s =
      Inl (e, s\<lparr>scenes := map (\<lambda>sc. if i \<le> sceneId sc \<and> sceneId sc < k
                                     then sc\<lparr>imageUrl := Some (u (sceneId sc))\<rparr> else sc)
                              (scenes s),
                 loadingMessage := image_progress_msg k (length initial)\<rparr>)"
proof (induction "k - i" arbitrary: i s)
  case 0
  then have "i = k" by simp
  then show ?case
    using assms by (subst image_loop.simps) (simp add: Let_def empty_range)
next
  case (Suc d)
  then have lt: "i < k" by simp
  then have ok: "generateImage (img i) = Inr (u i)"
    using Suc.prems by simp
  have step: "image_loop img initial i s =
      image_loop img initial (Suc i)
        (s\<lparr>loadingMessage := image_progress_msg i (length initial),
           scenes := patch_imageUrl i (u i) (scenes s)\<rparr>)"
    using lt assms(1) ok by (subst image_loop.simps) (simp add: Let_def)
  have "d = k - Suc i" using Suc.hyps(2) by simp
  moreover have "Suc i \<le> k" using lt by simp
  moreover have "\<And>j. Suc i \<le> j \<Longrightarrow> j < k \<Longrightarrow> generateImage (img j) = Inr (u j)"
    using Suc.prems(2) by simp
  ultimately have "image_loop img initial (Suc i)
        (s\<lparr>loadingMessage := image_progress_msg i (length initial),
           scenes := patch_imageUrl i (u i) (scenes s)\<rparr>) =
      Inl (e, (s\<lparr>loadingMessage := image_progress_msg i (length initial),
                 scenes := patch_imageUrl i (u i) (scenes s)\<rparr>)
               \<lparr>scenes := map (\<lambda>sc. if Suc i \<le> sceneId sc \<and> sceneId sc < k
                                     then sc\<lparr>imageUrl := Some (u (sceneId sc))\<rparr> else sc)
                              (scenes (s\<lparr>loadingMessage := image_progress_msg i (length initial),
                                         scenes := patch_imageUrl i (u i) (scenes s)\<rparr>)),
                 loadingMessage := image_progress_msg k (length initial)\<rparr>)"
    by (rule Suc.hyps(1))
  then show ?case
    unfolding step by (simp add: patch_imageUrl_range [OF lt])
qed

lemma image_loop_succeeds:
  "i \<le> length initial \<Longrightarrow>
   (\<And>j. i \<le> j \<Longrightarrow> j < length initial \<Longrightarrow> generateImage (img j) = Inr (u j)) \<Longrightarrow>
    image_loop img initial i s =
      Inr (s\<lparr>scenes := map (\<lambda>sc. if i \<le> sceneId sc \<and> sceneId sc < length initial
                                  then sc\<lparr>imageUrl := Some (u (sceneId sc))\<rparr> else sc)
                           (scenes s),
              loadingMessage := (if i < length initial
                                 then image_progress_msg (length initial - 1) (length initial)
                                 else loadingMessage s)\<rparr>)"
proof (induction "length initial - i" arbitrary: i s)
  case 0
  then have "i = length initial" by simp
  then show ?case
    by (subst image_loop.simps) (simp add: Let_def empty_range)
next
  case (Suc d)
  then have lt: "i < length initial" by simp
  then have ok: "generateImage (img i) = Inr (u i)"
    using Suc.prems by simp
  have step: "image_loop img initial i s =
      image_loop img initial (Suc i)
        (s\<lparr>loadingMessage := image_progress_msg i (length initial),
           scenes := patch_imageUrl i (u i) (scenes s)\<rparr>)"
    using lt ok by (subst image_loop.simps) (simp add: Let_def)
  have "d = length initial - Suc i" using Suc.hyps(2) by simp
  moreover have "Suc i \<le> length initial" using lt by simp
  moreover have "\<And>j. Suc i \<le> j \<Longrightarrow> j < length initial \<Longrightarrow> generateImage (img j) = Inr (u j)"
    using Suc.prems(2) by simp
  ultimately have "image_loop img initial (Suc i)
        (s\<lparr>loadingMessage := image_progress_msg i (length initial),
           scenes := patch_imageUrl i (u i) (scenes s)\<rparr>) =
      Inr ((s\<lparr>loadingMessage := image_progress_msg i (length initial),
              scenes := patch_imageUrl i (u i) (scenes s)\<rparr>)
            \<lparr>scenes := map (\<lambda>sc. if Suc i \<le> sceneId sc \<and> sceneId sc < length initial
                                  then sc\<lparr>imageUrl := Some (u (sceneId sc))\<rparr> else sc)
                           (scenes (s\<lparr>loadingMessage := image_progress_msg i (length initial),
                                      scenes := patch_imageUrl i (u i) (scenes s)\<rparr>)),
              loadingMessage := (if Suc i < length initial
                                 then image_progress_msg (length initial - 1) (length initial)
                                 else loadingMessage
                                   (s\<lparr>loadingMessage := image_progress_msg i (length initial),
                                      scenes := patch_imageUrl i (u i) (scenes s)\<rparr>))\<rparr>)"
    by (rule Suc.hyps(1))
  moreover have "Suc i < length initial \<or> i = length initial - 1"
    using lt by auto
  ultimately show ?case
    unfolding step using lt by (auto simp: patch_imageUrl_range [OF lt])
qed

lemma image_loop_keeps_length:
  "(case image_loop img initial i s of
      Inl (e, s1) \<Rightarrow> length (scenes s1) = length (scenes s)
    | Inr s1 \<Rightarrow> length (scenes s1) = length (scenes s))"
proof (induction img initial i s rule: image_loop.induct)
  case (1 img initial i s)
  show ?case
  proof (cases "i < length initial")
    case False
    then show ?thesis by (subst image_loop.simps) simp
  next
    case True
    show ?thesis
    proof (cases "generateImage (img i)")
      case (Inl e)
      with True show ?thesis by (subst image_loop.simps) (simp add: Let_def)
    next
      case (Inr url)
      have lp: "length (patch_imageUrl i url xs) = length xs" for xs
        by (simp add: patch_imageUrl_def)
      from "1.IH" [OF True refl Inr] True Inr show ?thesis
        by (subst image_loop.simps) (auto simp: Let_def lp split: sum.splits prod.splits)
    qed
  qed
qed

lemma initialScenes_from_Entry:
  "initialScenes_from i (map Entry es)
     = Inr (map (\<lambda>(j, e). scene_of_entry j e) (enumerate i es))"
  by (induction es arbitrary: i) simp_all

lemma initialScenes_of_Entry: "initialScenes_of (map Entry es) = Inr (mapi scene_of_entry es)"
  by (simp add: initialScenes_of_def initialScenes_from_Entry mapi_def)

lemma initialScenes_from_null:
  "initialScenes_from i (map Entry pre @ NullEntry m # rest) = Inl (TypeError m)"
  by (induction pre arbitrary: i) simp_all

lemma initialScenes_of_null:
  "initialScenes_of (map Entry pre @ NullEntry m # rest) = Inl (TypeError m)"
  by (simp add: initialScenes_of_def initialScenes_from_null)

text \<open>An array either has no \<open>null\<close> entry or has a first one.\<close>

lemma entries_cases:
  "(\<exists>es. xs = map Entry es) \<or> (\<exists>pre m rest. xs = map Entry pre @ NullEntry m # rest)"
proof (induction xs)
  case Nil
  have "[] = map Entry []" by simp
  then have "\<exists>es. [] = map Entry es" by (rule exI)
  then show ?case by (rule disjI1)
next
  case (Cons x xs)
  show ?case
  proof (cases x)
    case (NullEntry m)
    then have "x # xs = map Entry [] @ NullEntry m # xs" by simp
    then have "\<exists>pre m rest. x # xs = map Entry pre @ NullEntry m # rest" by (intro exI)
    then show ?thesis by (rule disjI2)
  next
    case (Entry e)
    from Cons.IH show ?thesis
    proof
      assume "\<exists>es. xs = map Entry es"
      then obtain es where "xs = map Entry es" ..
      with Entry have "x # xs = map Entry (e # es)" by simp
      then have "\<exists>es. x # xs = map Entry es" by (rule exI)
      then show ?thesis by (rule disjI1)
    next
      assume "\<exists>pre m rest. xs = map Entry pre @ NullEntry m # rest"
      then obtain pre m rest where "xs = map Entry pre @ NullEntry m # rest" by blast
      with Entry have "x # xs = map Entry (e # pre) @ NullEntry m # rest" by simp
      then have "\<exists>pre m rest. x # xs = map Entry pre @ NullEntry m # rest" by (intro exI)
      then show ?thesis by (rule disjI2)
    qed
  qed
qed

lemma length_initialScenes_of: "length (mapi scene_of_entry entries) = length entries"
  by (simp add: length_mapi)

lemma initialScenes_patched:
  "map (\<lambda>sc. if sceneId sc < k
             then sc\<lparr>imageUrl := Some (u (sceneId sc))\<rparr> else sc)
       (mapi scene_of_entry entries)
   = mapi (\<lambda>j en. \<lparr>sceneId = j, imagePrompt = image_prompt en,
                    narratorScript = narrator_script en,
                    imageUrl = (if j < k then Some (u j) else None)\<rparr>) entries"
  unfolding map_mapi
  by (rule mapi_cong) (simp add: scene_of_entry_def)

lemma handleGenerate_script_failure:
  assumes "trim (topic s) \<noteq> []"
    and "\<forall>xs. sr \<noteq> Parsed (ScenesArray xs)"
  shows "handleGenerate sr img s =
           s\<lparr>scenes := [], isLoading := False, loadingMessage := [],
             error := Some script_failed_msg, currentSceneIndex := 0, isPlaying := False\<rparr>"
proof -
  have "generateScript sr = Inl (Error script_failed_msg)"
    using generateScript_cases [of sr] assms(2) by auto
  then show ?thesis
    using assms(1)
    by (simp add: handleGenerate_def handleGenerate_begin_def Let_def pipeline_finally_def
          pipeline_catch_def error_text_def)
qed

lemma handleGenerate_image_failure:
  assumes "trim (topic s) \<noteq> []"
    and "generateScript sr = Inr (map Entry entries)"
    and "k < length entries"
    and "\<And>j. j < k \<Longrightarrow> generateImage (img j) = Inr (u j)"
    and "generateImage (img k) = Inl e"
  shows "handleGenerate sr img s =
           s\<lparr>scenes := mapi (\<lambda>j en. \<lparr>sceneId = j, imagePrompt = image_prompt en,
                                      narratorScript = narrator_script en,
                                      imageUrl = (if j < k then Some (u j) else None)\<rparr>) entries,
             isLoading := False, loadingMessage := [],
             error := Some image_failed_msg, currentSceneIndex := 0, isPlaying := False\<rparr>"
proof -
  have e: "e = Error image_failed_msg"
    using assms(5) by (rule generateImage_thrown)
  have k: "k < length (mapi scene_of_entry entries)"
    using assms(3) by (simp add: length_initialScenes_of)
  have loop: "image_loop img (mapi scene_of_entry entries) 0 s1 =
      Inl (e, s1\<lparr>scenes := map (\<lambda>sc. if 0 \<le> sceneId sc \<and> sceneId sc < k
                                     then sc\<lparr>imageUrl := Some (u (sceneId sc))\<rparr> else sc)
                              (scenes s1),
                 loadingMessage := image_progress_msg k (length (mapi scene_of_entry entries))\<rparr>)"
    for s1 :: topic_app
    using k assms(5) le0 assms(4) by (rule image_loop_fails_at)
  show ?thesis
    using assms(1,2)
    by (simp add: handleGenerate_def handleGenerate_begin_def Let_def loop pipeline_finally_def
          pipeline_catch_def error_text_def e initialScenes_patched initialScenes_of_Entry)
qed

lemma handleGenerate_success:
  assumes "trim (topic s) \<noteq> []"
    and "generateScript sr = Inr (map Entry entries)"
    and "\<And>j. j < length entries \<Longrightarrow> generateImage (img j) = Inr (u j)"
  shows "handleGenerate sr img s =
           s\<lparr>scenes := mapi (\<lambda>j en. \<lparr>sceneId = j, imagePrompt = image_prompt en,
                                      narratorScript = narrator_script en,
                                      imageUrl = Some (u j)\<rparr>) entries,
             isLoading := False, loadingMessage := [],
             error := None, currentSceneIndex := 0, isPlaying := False\<rparr>"
proof -
  have a: "\<And>j. 0 \<le> j \<Longrightarrow> j < length (mapi scene_of_entry entries)
             \<Longrightarrow> generateImage (img j) = Inr (u j)"
    using assms(3) by (simp add: length_initialScenes_of)
  have loop: "image_loop img (mapi scene_of_entry entries) 0 s1 =
      Inr (s1\<lparr>scenes := map (\<lambda>sc. if 0 \<le> sceneId sc
                                       \<and> sceneId sc < length (mapi scene_of_entry entries)
                                  then sc\<lparr>imageUrl := Some (u (sceneId sc))\<rparr> else sc)
                           (scenes s1),
              loadingMessage := (if 0 < length (mapi scene_of_entry entries)
                                 then image_progress_msg (length (mapi scene_of_entry entries) - 1)
                                        (length (mapi scene_of_entry entries))
                                 else loadingMessage s1)\<rparr>)"
    for s1 :: topic_app
    using le0 a by (rule image_loop_succeeds)
  have m: "mapi (\<lambda>j en. \<lparr>sceneId = j, imagePrompt = image_prompt en,
                    narratorScript = narrator_script en,
                    imageUrl = (if j < length entries then Some (u j) else None)\<rparr>) entries
      = mapi (\<lambda>j en. \<lparr>sceneId = j, imagePrompt = image_prompt en,
                                      narratorScript = narrator_script en,
                                      imageUrl = Some (u j)\<rparr>) entries"
    by (rule mapi_cong) simp
  show ?thesis
    using assms(1,2)
    by (simp add: handleGenerate_def handleGenerate_begin_def Let_def loop pipeline_finally_def
          initialScenes_patched length_initialScenes_of m initialScenes_of_Entry)
qed

lemma handleGenerate_null_entry:
  assumes "trim (topic s) \<noteq> []"
    and "generateScript sr = Inr (map Entry pre @ NullEntry m # rest)"
  shows "handleGenerate sr img s =
           s\<lparr>scenes := [], isLoading := False, loadingMessage := [],
             error := Some m, currentSceneIndex := 0, isPlaying := False\<rparr>"
  using assms
  by (simp add: handleGenerate_def handleGenerate_begin_def Let_def pipeline_finally_def
        pipeline_catch_def error_text_def initialScenes_of_null)

lemma script_response_cases:
  "(\<exists>es. generateScript sr = Inr (map Entry es)) \<or>
   (\<exists>pre m rest. generateScript sr = Inr (map Entry pre @ NullEntry m # rest)) \<or>
   (\<forall>xs. sr \<noteq> Parsed (ScenesArray xs))"
proof (cases "\<forall>xs. sr \<noteq> Parsed (ScenesArray xs)")
  case True
  then show ?thesis by simp
next
  case False
  then obtain xs where sr: "sr = Parsed (ScenesArray xs)" by blast
  then have g: "generateScript sr = Inr xs" by (simp add: generateScript_def)
  from entries_cases [of xs] show ?thesis
  proof
    assume "\<exists>es. xs = map Entry es"
    then obtain es where "xs = map Entry es" ..
    with g have "generateScript sr = Inr (map Entry es)" by simp
    then have "\<exists>es. generateScript sr = Inr (map Entry es)" by (rule exI)
    then show ?thesis by (rule disjI1)
  next
    assume "\<exists>pre m rest. xs = map Entry pre @ NullEntry m # rest"
    then obtain pre m rest where "xs = map Entry pre @ NullEntry m # rest" by blast
    with g have "generateScript sr = Inr (map Entry pre @ NullEntry m # rest)" by simp
    then have "\<exists>pre m rest. generateScript sr = Inr (map Entry pre @ NullEntry m # rest)"
      by (intro exI)
    then show ?thesis by (intro disjI2 disjI1)
  qed
qed

lemma handleGenerate_scene_count:
  assumes "trim (topic s) \<noteq> []"
    and "generateScript sr = Inr (map Entry entries)"
  shows "length (scenes (handleGenerate sr img s)) = length entries"
proof -
  let ?s1 = "(handleGenerate_begin s)\<lparr>scenes := mapi scene_of_entry entries\<rparr>"
  have "length (scenes ?s1) = length entries"
    by (simp add: length_initialScenes_of)
  with image_loop_keeps_length [where img = img and initial = "mapi scene_of_entry entries"
                                  and i = 0 and s = ?s1]
  show ?thesis
    using assms
    by (auto simp: handleGenerate_def Let_def pipeline_finally_def pipeline_catch_def
             initialScenes_of_Entry split: sum.splits)
qed

lemma ocean_request_topic: "trim (topic ocean_request) \<noteq> []"
  by (simp add: ocean_request_def trim_def js_whitespace_def ascii_def)

text \<open>
  C1, as the claim states it, fails for a response without \<open>k\<close> entries:
  \<open>generateScript\<close> accepts any array and \<open>handleGenerate\<close> never compares its length
  with \<open>sceneCount\<close>. With four scenes requested and a script of two entries, two scenes
  are produced and no error is surfaced.
\<close>

theorem scene_count_counterexample:
  "sceneCount ocean_request = 4 \<and>
   generateScript (Parsed (ScenesArray (map Entry two_entries))) = Inr (map Entry two_entries) \<and>
   length two_entries = 2 \<and>
   length (scenes (handleGenerate (Parsed (ScenesArray (map Entry two_entries))) always_answers
                     ocean_request)) = 2 \<and>
   error (handleGenerate (Parsed (ScenesArray (map Entry two_entries))) always_answers ocean_request) = None"
proof -
  have g: "generateScript (Parsed (ScenesArray (map Entry two_entries))) = Inr (map Entry two_entries)"
    by (simp add: generateScript_def)
  have i: "generateImage (always_answers j) = Inr (ascii ''data:image/jpeg;base64,x'')" for j
    by (simp add: always_answers_def generateImage_def data_url_prefix_def ascii_def)
  note r = handleGenerate_success [OF ocean_request_topic g i]
  have l: "length two_entries = 2" by (simp add: two_entries_def)
  show ?thesis
    by (simp add: r g l length_mapi) (simp add: ocean_request_def)
qed

text \<open>
  C1, amended. In topic mode, for a request with a non-blank topic, the answer to the
  script request is of one of three kinds. When the script-generation call succeeds with
  \<open>m\<close> entries none of which is \<open>null\<close>, \<open>handleGenerate\<close> produces exactly \<open>m\<close>
  scenes whatever the image calls do, hence exactly \<open>k = sceneCount\<close> scenes when the
  call succeeds with \<open>k\<close> such entries; the number of entries is not compared with
  \<open>sceneCount\<close>, and when every image call succeeds no error is surfaced. When the
  call succeeds with an array that holds a \<open>null\<close> entry, building the scenes throws:
  the message of that TypeError is surfaced and the scene count is 0. When the script
  call fails (it is rejected, its text is missing or no JSON, or \<open>scenes\<close> is missing
  or no array) the error message of the service is surfaced and the scene count is 0.
\<close>

theorem scene_count_of_script:
  assumes "trim (topic s) \<noteq> []"
  shows "(generateScript sr = Inr (map Entry entries) \<longrightarrow>
            length (scenes (handleGenerate sr img s)) = length entries) \<and>
         (generateScript sr = Inr (map Entry entries) \<and> length entries = sceneCount s \<longrightarrow>
            length (scenes (handleGenerate sr img s)) = sceneCount s) \<and>
         (generateScript sr = Inr (map Entry entries) \<and>
          (\<forall>j < length entries. generateImage (img j) = Inr (u j)) \<longrightarrow>
            error (handleGenerate sr img s) = None) \<and>
         (generateScript sr = Inr (map Entry pre @ NullEntry m # rest) \<longrightarrow>
            length (scenes (handleGenerate sr img s)) = 0 \<and>
            error (handleGenerate sr img s) = Some m) \<and>
         ((\<forall>xs. sr \<noteq> Parsed (ScenesArray xs)) \<longrightarrow>
            length (scenes (handleGenerate sr img s)) = 0 \<and>
            error (handleGenerate sr img s) = Some script_failed_msg) \<and>
         ((\<exists>es. generateScript sr = Inr (map Entry es)) \<or>
          (\<exists>pre m rest. generateScript sr = Inr (map Entry pre @ NullEntry m # rest)) \<or>
          (\<forall>xs. sr \<noteq> Parsed (ScenesArray xs)))"
proof (intro conjI impI)
  assume "generateScript sr = Inr (map Entry entries)"
  with assms show "length (scenes (handleGenerate sr img s)) = length entries"
    by (rule handleGenerate_scene_count)
next
  assume "generateScript sr = Inr (map Entry entries) \<and> length entries = sceneCount s"
  with assms show "length (scenes (handleGenerate sr img s)) = sceneCount s"
    by (simp add: handleGenerate_scene_count)
next
  assume h: "generateScript sr = Inr (map Entry entries) \<and>
          (\<forall>j < length entries. generateImage (img j) = Inr (u j))"
  then have "handleGenerate sr img s =
           s\<lparr>scenes := mapi (\<lambda>j en. \<lparr>sceneId = j, imagePrompt = image_prompt en,
                                      narratorScript = narrator_script en,
                                      imageUrl = Some (u j)\<rparr>) entries,
             isLoading := False, loadingMessage := [],
             error := None, currentSceneIndex := 0, isPlaying := False\<rparr>"
    using assms by (intro handleGenerate_success) auto
  then show "error (handleGenerate sr img s) = None" by simp
next
  assume n: "generateScript sr = Inr (map Entry pre @ NullEntry m # rest)"
  note r = handleGenerate_null_entry [OF assms n, of img]
  show "length (scenes (handleGenerate sr img s)) = 0"
    by (simp add: r)
  show "error (handleGenerate sr img s) = Some m"
    by (simp add: r)
next
  assume f: "\<forall>xs. sr \<noteq> Parsed (ScenesArray xs)"
  note r = handleGenerate_script_failure [OF assms f, of img]
  show "length (scenes (handleGenerate sr img s)) = 0"
    by (simp add: r)
  show "error (handleGenerate sr img s) = Some script_failed_msg"
    by (simp add: r)
next
  show "(\<exists>es. generateScript sr = Inr (map Entry es)) \<or>
          (\<exists>pre m rest. generateScript sr = Inr (map Entry pre @ NullEntry m # rest)) \<or>
          (\<forall>xs. sr \<noteq> Parsed (ScenesArray xs))"
    by (rule script_response_cases)
qed

theorem scene_count_of_script_witness:
  "trim (topic ocean_request) \<noteq> [] \<and>
   generateScript (Parsed (ScenesArray (map Entry four_entries))) = Inr (map Entry four_entries) \<and>
   length four_entries = sceneCount ocean_request \<and>
   length (scenes (handleGenerate (Parsed (ScenesArray (map Entry four_entries)))
                     (rejects_scene 2) ocean_request)) = 4 \<and>
   generateImage (always_answers 0) = Inr (ascii ''data:image/jpeg;base64,x'') \<and>
   generateImage (always_answers 3) = Inr (ascii ''data:image/jpeg;base64,x'') \<and>
   error (handleGenerate (Parsed (ScenesArray (map Entry four_entries))) always_answers
            ocean_request) = None \<and>
   generateScript script_with_null
     = Inr (map Entry [entry_of ''p0'' ''n0''] @ NullEntry null_read_msg # []) \<and>
   length (scenes (handleGenerate script_with_null always_answers ocean_request)) = 0 \<and>
   error (handleGenerate script_with_null always_answers ocean_request) = Some null_read_msg \<and>
   length (scenes (handleGenerate (TextNotJson []) always_answers ocean_request)) = 0 \<and>
   error (handleGenerate (TextNotJson []) always_answers ocean_request) = Some script_failed_msg"
proof -
  have g: "generateScript (Parsed (ScenesArray (map Entry four_entries)))
             = Inr (map Entry four_entries)"
    by (simp add: generateScript_def)
  have l: "length four_entries = sceneCount ocean_request"
    by (simp add: four_entries_def ocean_request_def)
  have l4: "length four_entries = 4"
    by (simp add: four_entries_def)
  have i: "\<forall>j < length four_entries.
      generateImage (always_answers j) = Inr (ascii ''data:image/jpeg;base64,x'')"
    by (simp add: always_answers_def generateImage_def data_url_prefix_def ascii_def)
  have n: "generateScript script_with_null
      = Inr (map Entry [entry_of ''p0'' ''n0''] @ NullEntry null_read_msg # [])"
    by (simp add: script_with_null_def generateScript_def)
  have f: "\<forall>xs. TextNotJson [] \<noteq> Parsed (ScenesArray xs)"
    by simp
  note t1 = scene_count_of_script [OF ocean_request_topic,
      where sr = "Parsed (ScenesArray (map Entry four_entries))" and entries = four_entries
        and img = "rejects_scene 2"]
  note t2 = scene_count_of_script [OF ocean_request_topic,
      where sr = "Parsed (ScenesArray (map Entry four_entries))" and entries = four_entries
        and img = always_answers and u = "\<lambda>j. ascii ''data:image/jpeg;base64,x''"]
  note t3 = scene_count_of_script [OF ocean_request_topic,
      where sr = "TextNotJson []" and img = always_answers]
  note t4 = scene_count_of_script [OF ocean_request_topic,
      where sr = script_with_null and img = always_answers
        and pre = "[entry_of ''p0'' ''n0'']" and m = null_read_msg and rest = "[]"]
  have a: "length (scenes (handleGenerate (Parsed (ScenesArray (map Entry four_entries)))
                     (rejects_scene 2) ocean_request)) = 4"
    using t1 [THEN conjunct1] g l4 by simp
  have b: "error (handleGenerate (Parsed (ScenesArray (map Entry four_entries))) always_answers
                    ocean_request) = None"
    using t2 [THEN conjunct2, THEN conjunct2, THEN conjunct1] g i by blast
  have c: "length (scenes (handleGenerate (TextNotJson []) always_answers ocean_request)) = 0"
    "error (handleGenerate (TextNotJson []) always_answers ocean_request) = Some script_failed_msg"
    using t3 [THEN conjunct2, THEN conjunct2, THEN conjunct2, THEN conjunct2, THEN conjunct1] f
    by blast+
  have d: "length (scenes (handleGenerate script_with_null always_answers ocean_request)) = 0"
    "error (handleGenerate script_with_null always_answers ocean_request) = Some null_read_msg"
    using t4 [THEN conjunct2, THEN conjunct2, THEN conjunct2, THEN conjunct1] n
    by blast+
  have i0: "generateImage (always_answers 0) = Inr (ascii ''data:image/jpeg;base64,x'')"
    "generateImage (always_answers 3) = Inr (ascii ''data:image/jpeg;base64,x'')"
    by (simp_all add: always_answers_def generateImage_def data_url_prefix_def ascii_def)
  show ?thesis
    by (intro conjI) (fact ocean_request_topic g l a i0 b n d c)+
qed

text \<open>One round of the audio-mode loop, folded into the map over the rounds before it.\<close>

lemma patch_both_range:
  "map (\<lambda>sc. if Suc i \<le> sceneId sc \<and> sceneId sc < k
             then sc\<lparr>imagePrompt := p (sceneId sc), imageUrl := Some (u (sceneId sc))\<rparr> else sc)
       (patch_imageUrl i (u i) (patch_imagePrompt i (p i) scs))
   = map (\<lambda>sc. if i \<le> sceneId sc \<and> sceneId sc < k
               then sc\<lparr>imagePrompt := p (sceneId sc), imageUrl := Some (u (sceneId sc))\<rparr> else sc)
       scs"
  if "i < k"
  using that by (auto simp: patch_imageUrl_def patch_imagePrompt_def)

lemma storyboard_loop_round:
  assumes "i < length initial" and "pr i = Inr prompt" and "generateImage (img i) = Inr url"
  shows "storyboard_loop pr img initial i s =
      storyboard_loop pr img initial (Suc i)
        (s\<lparr>loadingMessage := image_progress_msg i (length initial),
           scenes := patch_imageUrl i url (patch_imagePrompt i prompt (scenes s))\<rparr>)"
  using assms by (subst storyboard_loop.simps) (simp add: Let_def)

text \<open>
  The loop from \<open>i\<close> when the rounds before \<open>k\<close> succeed and round \<open>k\<close> fails, at
  its prompt call or at its image call.
\<close>

lemma storyboard_loop_fails_at:
  assumes "k < length initial"
    and "(pr k = Inl e \<and> last_state = (\<lambda>scs. (scs, prompt_progress_msg k (length initial)))) \<or>
         (pr k = Inr pk \<and> generateImage (img k) = Inl e \<and>
          last_state = (\<lambda>scs. (patch_imagePrompt k pk scs, image_progress_msg k (length initial))))"
  shows "i \<le> k \<Longrightarrow>
    (\<And>j. i \<le> j \<Longrightarrow> j < k \<Longrightarrow> pr j = Inr (p j) \<and> generateImage (img j) = Inr (u j)) \<Longrightarrow>
    storyboard_loop pr img initial i s =
      Inl (e, s\<lparr>scenes := fst (last_state
                   (map (\<lambda>sc. if i \<le> sceneId sc \<and> sceneId sc < k
                              then sc\<lparr>imagePrompt := p (sceneId sc),
                                      imageUrl := Some (u (sceneId sc))\<rparr> else sc)
                        (scenes s))),
                 loadingMessage := snd (last_state [])\<rparr>)"
proof (induction "k - i" arbitrary: i s)
  case 0
  then have "i = k" by simp
  then show ?case
    using assms by (subst storyboard_loop.simps) (auto simp: Let_def empty_range)
next
  case (Suc d)
  then have lt: "i < k" by simp
  then have ok: "pr i = Inr (p i)" "generateImage (img i) = Inr (u i)"
    using Suc.prems by simp_all
  have il: "i < length initial" using lt assms(1) by simp
  note step = storyboard_loop_round [where pr = pr and img = img and i = i, OF il ok]
  have "d = k - Suc i" using Suc.hyps(2) by simp
  moreover have "Suc i \<le> k" using lt by simp
  moreover have "\<And>j. Suc i \<le> j \<Longrightarrow> j < k
      \<Longrightarrow> pr j = Inr (p j) \<and> generateImage (img j) = Inr (u j)"
    using Suc.prems(2) by simp
  ultimately have "storyboard_loop pr img initial (Suc i)
        (s\<lparr>loadingMessage := image_progress_msg i (length initial),
           scenes := patch_imageUrl i (u i) (patch_imagePrompt i (p i) (scenes s))\<rparr>) =
      Inl (e, (s\<lparr>loadingMessage := image_progress_msg i (length initial),
                 scenes := patch_imageUrl i (u i) (patch_imagePrompt i (p i) (scenes s))\<rparr>)
               \<lparr>scenes := fst (last_state
                   (map (\<lambda>sc. if Suc i \<le> sceneId sc \<and> sceneId sc < k
                              then sc\<lparr>imagePrompt := p (sceneId sc),
                                      imageUrl := Some (u (sceneId sc))\<rparr> else sc)
                        (scenes (s\<lparr>loadingMessage := image_progress_msg i (length initial),
                           scenes := patch_imageUrl i (u i)
                                       (patch_imagePrompt i (p i) (scenes s))\<rparr>)))),
                 loadingMessage := snd (last_state [])\<rparr>)"
    by (rule Suc.hyps(1))
  then show ?case
    unfolding step by (simp add: patch_both_range [OF lt])
qed

lemma storyboard_loop_succeeds:
  "i \<le> length initial \<Longrightarrow>
   (\<And>j. i \<le> j \<Longrightarrow> j < length initial
      \<Longrightarrow> pr j = Inr (p j) \<and> generateImage (img j) = Inr (u j)) \<Longrightarrow>
    storyboard_loop pr img initial i s =
      Inr (s\<lparr>scenes := map (\<lambda>sc. if i \<le> sceneId sc \<and> sceneId sc < length initial
                                  then sc\<lparr>imagePrompt := p (sceneId sc),
                                          imageUrl := Some (u (sceneId sc))\<rparr> else sc)
                           (scenes s),
              loadingMessage := (if i < length initial
                                 then image_progress_msg (length initial - 1) (length initial)
                                 else loadingMessage s)\<rparr>)"
proof (induction "length initial - i" arbitrary: i s)
  case 0
  then have "i = length initial" by simp
  then show ?case
    by (subst storyboard_loop.simps) (simp add: Let_def empty_range)
next
  case (Suc d)
  then have lt: "i < length initial" by simp
  then have ok: "pr i = Inr (p i)" "generateImage (img i) = Inr (u i)"
    using Suc.prems by simp_all
  note step = storyboard_loop_round [where pr = pr and img = img and i = i, OF lt ok]
  have "d = length initial - Suc i" using Suc.hyps(2) by simp
  moreover have "Suc i \<le> length initial" using lt by simp
  moreover have "\<And>j. Suc i \<le> j \<Longrightarrow> j < length initial
      \<Longrightarrow> pr j = Inr (p j) \<and> generateImage (img j) = Inr (u j)"
    using Suc.prems(2) by simp
  ultimately have "storyboard_loop pr img initial (Suc i)
        (s\<lparr>loadingMessage := image_progress_msg i (length initial),
           scenes := patch_imageUrl i (u i) (patch_imagePrompt i (p i) (scenes s))\<rparr>) =
      Inr ((s\<lparr>loadingMessage := image_progress_msg i (length initial),
              scenes := patch_imageUrl i (u i) (patch_imagePrompt i (p i) (scenes s))\<rparr>)
            \<lparr>scenes := map (\<lambda>sc. if Suc i \<le> sceneId sc \<and> sceneId sc < length initial
                                  then sc\<lparr>imagePrompt := p (sceneId sc),
                                          imageUrl := Some (u (sceneId sc))\<rparr> else sc)
                           (scenes (s\<lparr>loadingMessage := image_progress_msg i (length initial),
                              scenes := patch_imageUrl i (u i)
                                          (patch_imagePrompt i (p i) (scenes s))\<rparr>)),
              loadingMessage := (if Suc i < length initial
                                 then image_progress_msg (length initial - 1) (length initial)
                                 else loadingMessage
                                   (s\<lparr>loadingMessage := image_progress_msg i (length initial),
                                      scenes := patch_imageUrl i (u i)
                                                  (patch_imagePrompt i (p i) (scenes s))\<rparr>))\<rparr>)"
    by (rule Suc.hyps(1))
  moreover have "Suc i < length initial \<or> i = length initial - 1"
    using lt by auto
  ultimately show ?case
    unfolding step using lt by (auto simp: patch_both_range [OF lt])
qed

lemma length_initialScenes_of_lines: "length (initialScenes_of_lines ls) = length ls"
  by (simp add: initialScenes_of_lines_def length_mapi)

lemma initialScenes_of_lines_patched:
  "map (\<lambda>sc. if sceneId sc < k
             then sc\<lparr>imagePrompt := p (sceneId sc), imageUrl := Some (u (sceneId sc))\<rparr> else sc)
       (initialScenes_of_lines ls)
   = mapi (\<lambda>j line. \<lparr>sceneId = j, imagePrompt = (if j < k then p j else []),
                      narratorScript = line,
                      imageUrl = (if j < k then Some (u j) else None)\<rparr>) ls"
  unfolding initialScenes_of_lines_def map_mapi
  by (rule mapi_cong) simp

lemma patch_imagePrompt_mapi:
  "patch_imagePrompt k pk
     (mapi (\<lambda>j line. \<lparr>sceneId = j, imagePrompt = (if j < k then p j else []),
                       narratorScript = line,
                       imageUrl = (if j < k then Some (u j) else None)\<rparr>) ls)
   = mapi (\<lambda>j line. \<lparr>sceneId = j,
                      imagePrompt = (if j < k then p j else if j = k then pk else []),
                      narratorScript = line,
                      imageUrl = (if j < k then Some (u j) else None)\<rparr>) ls"
  unfolding patch_imagePrompt_def map_mapi
  by (rule mapi_cong) simp

lemma handleCreateStoryboard_prompt_failure:
  assumes "scriptFile a = Some sf" and "audioFile a \<noteq> None"
    and "scriptLines_of (file_text sf) = ls"
    and "k < length ls"
    and "\<And>j. j < k \<Longrightarrow> pr j = Inr (p j) \<and> generateImage (img j) = Inr (u j)"
    and "pr k = Inl e"
  shows "handleCreateStoryboard url pr img a =
           a\<lparr>scenes := mapi (\<lambda>j line. \<lparr>sceneId = j, imagePrompt = (if j < k then p j else []),
                                        narratorScript = line,
                                        imageUrl = (if j < k then Some (u j) else None)\<rparr>) ls,
             isLoading := False, loadingMessage := [],
             error := Some (error_text unknown_error_msg e),
             currentSceneIndex := 0, isPlaying := False,
             audioUrl := None, audioRef := None\<rparr>"
proof -
  let ?init = "initialScenes_of_lines ls"
  let ?last = "\<lambda>scs :: Scene list. (scs, prompt_progress_msg k (length ?init))"
  have k: "k < length ?init"
    using assms(4) by (simp add: length_initialScenes_of_lines)
  have f: "(pr k = Inl e \<and> ?last = (\<lambda>scs. (scs, prompt_progress_msg k (length ?init)))) \<or>
         (pr k = Inr [] \<and> generateImage (img k) = Inl e \<and>
          ?last = (\<lambda>scs. (patch_imagePrompt k [] scs, image_progress_msg k (length ?init))))"
    using assms(6) by simp
  have loop: "storyboard_loop pr img ?init 0 s1 =
      Inl (e, s1\<lparr>scenes := fst (?last
                   (map (\<lambda>sc. if 0 \<le> sceneId sc \<and> sceneId sc < k
                              then sc\<lparr>imagePrompt := p (sceneId sc),
                                      imageUrl := Some (u (sceneId sc))\<rparr> else sc)
                        (scenes s1))),
                 loadingMessage := snd (?last [])\<rparr>)"
    for s1 :: audio_app
    using k f le0 assms(5) by (rule storyboard_loop_fails_at)
  have ne: "ls \<noteq> []" using assms(4) by auto
  show ?thesis
    using assms(1-3) ne
    by (auto simp: handleCreateStoryboard_def handleCreateStoryboard_begin_def Let_def loop
          pipeline_finally_def pipeline_catch_def setAudioUrl_def
          initialScenes_of_lines_patched)
qed

lemma handleCreateStoryboard_image_failure:
  assumes "scriptFile a = Some sf" and "audioFile a \<noteq> None"
    and "scriptLines_of (file_text sf) = ls"
    and "k < length ls"
    and "\<And>j. j < k \<Longrightarrow> pr j = Inr (p j) \<and> generateImage (img j) = Inr (u j)"
    and "pr k = Inr pk" and "generateImage (img k) = Inl e"
  shows "handleCreateStoryboard url pr img a =
           a\<lparr>scenes := mapi (\<lambda>j line. \<lparr>sceneId = j,
                                 imagePrompt = (if j < k then p j else if j = k then pk else []),
                                 narratorScript = line,
                                 imageUrl = (if j < k then Some (u j) else None)\<rparr>) ls,
             isLoading := False, loadingMessage := [],
             error := Some image_failed_msg,
             currentSceneIndex := 0, isPlaying := False,
             audioUrl := None, audioRef := None\<rparr>"
proof -
  let ?init = "initialScenes_of_lines ls"
  let ?last = "\<lambda>scs :: Scene list.
                 (patch_imagePrompt k pk scs, image_progress_msg k (length ?init))"
  have e: "e = Error image_failed_msg"
    using assms(7) by (rule generateImage_thrown)
  have k: "k < length ?init"
    using assms(4) by (simp add: length_initialScenes_of_lines)
  have f: "(pr k = Inl e \<and> ?last = (\<lambda>scs. (scs, prompt_progress_msg k (length ?init)))) \<or>
         (pr k = Inr pk \<and> generateImage (img k) = Inl e \<and>
          ?last = (\<lambda>scs. (patch_imagePrompt k pk scs, image_progress_msg k (length ?init))))"
    using assms(6,7) by simp
  have loop: "storyboard_loop pr img ?init 0 s1 =
      Inl (e, s1\<lparr>scenes := fst (?last
                   (map (\<lambda>sc. if 0 \<le> sceneId sc \<and> sceneId sc < k
                              then sc\<lparr>imagePrompt := p (sceneId sc),
                                      imageUrl := Some (u (sceneId sc))\<rparr> else sc)
                        (scenes s1))),
                 loadingMessage := snd (?last [])\<rparr>)"
    for s1 :: audio_app
    using k f le0 assms(5) by (rule storyboard_loop_fails_at)
  have ne: "ls \<noteq> []" using assms(4) by auto
  show ?thesis
    using assms(1-3) ne
    by (auto simp: handleCreateStoryboard_def handleCreateStoryboard_begin_def Let_def loop
          pipeline_finally_def pipeline_catch_def setAudioUrl_def error_text_def e
          initialScenes_of_lines_patched patch_imagePrompt_mapi)
qed

text \<open>
  C6: a failure in the middle of the pipeline aborts it at once and keeps what was
  populated.

  Topic mode, non-blank topic. If the script call fails, the run ends with the error
  message set, loading cleared and no scenes. If the script has \<open>N\<close> entries (none of
  them \<open>null\<close>), the image calls of scenes \<open>0 .. k - 1\<close> succeed and that of scene
  \<open>k < N\<close> fails, the run ends with the error message set, loading cleared, all \<open>N\<close>
  scenes present, scenes below \<open>k\<close> holding their images and scenes from \<open>k\<close> on
  without one; and the result does not depend on what the image service would answer
  after scene \<open>k\<close>: no later call is made.

  Audio mode, both files present, \<open>N\<close> non-blank script lines. If the rounds of scenes
  \<open>0 .. k - 1\<close> succeed and round \<open>k < N\<close> fails at its prompt call or at its image
  call, the run ends with the error message set, loading cleared, the audio URL and
  element discarded, scenes below \<open>k\<close> holding their prompts and images, scenes from
  \<open>k\<close> on without an image; later answers do not matter.

  The scenario: topic "ocean", four scenes, the image call of scene 2 fails. Scenes 0 and
  1 have an imageUrl, scenes 2 and 3 have none, the error message is set and loading is
  false.
\<close>

theorem failure_aborts_pipeline:
  "(trim (topic s) \<noteq> [] \<and> (\<forall>xs. sr \<noteq> Parsed (ScenesArray xs)) \<longrightarrow>
      handleGenerate sr img s =
        s\<lparr>scenes := [], isLoading := False, loadingMessage := [],
          error := Some script_failed_msg, currentSceneIndex := 0, isPlaying := False\<rparr>) \<and>
   (trim (topic s) \<noteq> [] \<and> generateScript sr = Inr (map Entry entries) \<and> k < length entries \<and>
    (\<forall>j < k. generateImage (img j) = Inr (u j)) \<and> generateImage (img k) = Inl e \<longrightarrow>
      handleGenerate sr img s =
        s\<lparr>scenes := mapi (\<lambda>j en. \<lparr>sceneId = j, imagePrompt = image_prompt en,
                                   narratorScript = narrator_script en,
                                   imageUrl = (if j < k then Some (u j) else None)\<rparr>) entries,
          isLoading := False, loadingMessage := [],
          error := Some image_failed_msg, currentSceneIndex := 0, isPlaying := False\<rparr> \<and>
      ((\<forall>j \<le> k. img' j = img j) \<longrightarrow> handleGenerate sr img' s = handleGenerate sr img s)) \<and>
   (scriptFile a = Some sf \<and> audioFile a \<noteq> None \<and> scriptLines_of (file_text sf) = ls \<and>
    k < length ls \<and> (\<forall>j < k. pr j = Inr (p j) \<and> generateImage (img j) = Inr (u j)) \<and>
    pr k = Inl e \<longrightarrow>
      handleCreateStoryboard url pr img a =
        a\<lparr>scenes := mapi (\<lambda>j line. \<lparr>sceneId = j, imagePrompt = (if j < k then p j else []),
                                     narratorScript = line,
                                     imageUrl = (if j < k then Some (u j) else None)\<rparr>) ls,
          isLoading := False, loadingMessage := [],
          error := Some (error_text unknown_error_msg e),
          currentSceneIndex := 0, isPlaying := False,
          audioUrl := None, audioRef := None\<rparr> \<and>
      ((\<forall>j \<le> k. pr' j = pr j) \<and> (\<forall>j < k. img' j = img j) \<longrightarrow>
         handleCreateStoryboard url pr' img' a = handleCreateStoryboard url pr img a)) \<and>
   (scriptFile a = Some sf \<and> audioFile a \<noteq> None \<and> scriptLines_of (file_text sf) = ls \<and>
    k < length ls \<and> (\<forall>j < k. pr j = Inr (p j) \<and> generateImage (img j) = Inr (u j)) \<and>
    pr k = Inr pk \<and> generateImage (img k) = Inl e \<longrightarrow>
      handleCreateStoryboard url pr img a =
        a\<lparr>scenes := mapi (\<lambda>j line. \<lparr>sceneId = j,
                              imagePrompt = (if j < k then p j else if j = k then pk else []),
                              narratorScript = line,
                              imageUrl = (if j < k then Some (u j) else None)\<rparr>) ls,
          isLoading := False, loadingMessage := [],
          error := Some image_failed_msg,
          currentSceneIndex := 0, isPlaying := False,
          audioUrl := None, audioRef := None\<rparr> \<and>
      ((\<forall>j \<le> k. pr' j = pr j \<and> img' j = img j) \<longrightarrow>
         handleCreateStoryboard url pr' img' a = handleCreateStoryboard url pr img a)) \<and>
   map imageUrl (scenes (handleGenerate (Parsed (ScenesArray (map Entry four_entries))) (rejects_scene 2)
                           ocean_request))
     = [Some (ascii ''data:image/jpeg;base64,x''), Some (ascii ''data:image/jpeg;base64,x''),
        None, None] \<and>
   error (handleGenerate (Parsed (ScenesArray (map Entry four_entries))) (rejects_scene 2) ocean_request)
     = Some image_failed_msg \<and>
   isLoading (handleGenerate (Parsed (ScenesArray (map Entry four_entries))) (rejects_scene 2) ocean_request)
     = False"
proof (intro conjI impI)
  assume "trim (topic s) \<noteq> [] \<and> (\<forall>xs. sr \<noteq> Parsed (ScenesArray xs))"
  then show "handleGenerate sr img s =
        s\<lparr>scenes := [], isLoading := False, loadingMessage := [],
          error := Some script_failed_msg, currentSceneIndex := 0, isPlaying := False\<rparr>"
    by (simp add: handleGenerate_script_failure)
next
  assume h: "trim (topic s) \<noteq> [] \<and> generateScript sr = Inr (map Entry entries) \<and> k < length entries \<and>
    (\<forall>j < k. generateImage (img j) = Inr (u j)) \<and> generateImage (img k) = Inl e"
  then have r: "handleGenerate sr img s =
        s\<lparr>scenes := mapi (\<lambda>j en. \<lparr>sceneId = j, imagePrompt = image_prompt en,
                                   narratorScript = narrator_script en,
                                   imageUrl = (if j < k then Some (u j) else None)\<rparr>) entries,
          isLoading := False, loadingMessage := [],
          error := Some image_failed_msg, currentSceneIndex := 0, isPlaying := False\<rparr>"
    by (intro handleGenerate_image_failure [where e = e]) auto
  then show "handleGenerate sr img s =
        s\<lparr>scenes := mapi (\<lambda>j en. \<lparr>sceneId = j, imagePrompt = image_prompt en,
                                   narratorScript = narrator_script en,
                                   imageUrl = (if j < k then Some (u j) else None)\<rparr>) entries,
          isLoading := False, loadingMessage := [],
          error := Some image_failed_msg, currentSceneIndex := 0, isPlaying := False\<rparr>" .
  assume same: "\<forall>j \<le> k. img' j = img j"
  with h have "handleGenerate sr img' s =
        s\<lparr>scenes := mapi (\<lambda>j en. \<lparr>sceneId = j, imagePrompt = image_prompt en,
                                   narratorScript = narrator_script en,
                                   imageUrl = (if j < k then Some (u j) else None)\<rparr>) entries,
          isLoading := False, loadingMessage := [],
          error := Some image_failed_msg, currentSceneIndex := 0, isPlaying := False\<rparr>"
    by (intro handleGenerate_image_failure [where e = e]) auto
  with r show "handleGenerate sr img' s = handleGenerate sr img s" by simp
next
  assume h: "scriptFile a = Some sf \<and> audioFile a \<noteq> None \<and> scriptLines_of (file_text sf) = ls \<and>
    k < length ls \<and> (\<forall>j < k. pr j = Inr (p j) \<and> generateImage (img j) = Inr (u j)) \<and>
    pr k = Inl e"
  then have r: "handleCreateStoryboard url pr img a =
        a\<lparr>scenes := mapi (\<lambda>j line. \<lparr>sceneId = j, imagePrompt = (if j < k then p j else []),
                                     narratorScript = line,
                                     imageUrl = (if j < k then Some (u j) else None)\<rparr>) ls,
          isLoading := False, loadingMessage := [],
          error := Some (error_text unknown_error_msg e),
          currentSceneIndex := 0, isPlaying := False,
          audioUrl := None, audioRef := None\<rparr>"
    by (intro handleCreateStoryboard_prompt_failure [where sf = sf]) auto
  then show "handleCreateStoryboard url pr img a =
        a\<lparr>scenes := mapi (\<lambda>j line. \<lparr>sceneId = j, imagePrompt = (if j < k then p j else []),
                                     narratorScript = line,
                                     imageUrl = (if j < k then Some (u j) else None)\<rparr>) ls,
          isLoading := False, loadingMessage := [],
          error := Some (error_text unknown_error_msg e),
          currentSceneIndex := 0, isPlaying := False,
          audioUrl := None, audioRef := None\<rparr>" .
  assume same: "(\<forall>j \<le> k. pr' j = pr j) \<and> (\<forall>j < k. img' j = img j)"
  with h have "handleCreateStoryboard url pr' img' a =
        a\<lparr>scenes := mapi (\<lambda>j line. \<lparr>sceneId = j, imagePrompt = (if j < k then p j else []),
                                     narratorScript = line,
                                     imageUrl = (if j < k then Some (u j) else None)\<rparr>) ls,
          isLoading := False, loadingMessage := [],
          error := Some (error_text unknown_error_msg e),
          currentSceneIndex := 0, isPlaying := False,
          audioUrl := None, audioRef := None\<rparr>"
    by (intro handleCreateStoryboard_prompt_failure [where sf = sf]) auto
  with r show "handleCreateStoryboard url pr' img' a = handleCreateStoryboard url pr img a"
    by simp
next
  assume h: "scriptFile a = Some sf \<and> audioFile a \<noteq> None \<and> scriptLines_of (file_text sf) = ls \<and>
    k < length ls \<and> (\<forall>j < k. pr j = Inr (p j) \<and> generateImage (img j) = Inr (u j)) \<and>
    pr k = Inr pk \<and> generateImage (img k) = Inl e"
  then have r: "handleCreateStoryboard url pr img a =
        a\<lparr>scenes := mapi (\<lambda>j line. \<lparr>sceneId = j,
                              imagePrompt = (if j < k then p j else if j = k then pk else []),
                              narratorScript = line,
                              imageUrl = (if j < k then Some (u j) else None)\<rparr>) ls,
          isLoading := False, loadingMessage := [],
          error := Some image_failed_msg,
          currentSceneIndex := 0, isPlaying := False,
          audioUrl := None, audioRef := None\<rparr>"
    by (intro handleCreateStoryboard_image_failure [where sf = sf and e = e]) auto
  then show "handleCreateStoryboard url pr img a =
        a\<lparr>scenes := mapi (\<lambda>j line. \<lparr>sceneId = j,
                              imagePrompt = (if j < k then p j else if j = k then pk else []),
                              narratorScript = line,
                              imageUrl = (if j < k then Some (u j) else None)\<rparr>) ls,
          isLoading := False, loadingMessage := [],
          error := Some image_failed_msg,
          currentSceneIndex := 0, isPlaying := False,
          audioUrl := None, audioRef := None\<rparr>" .
  assume same: "\<forall>j \<le> k. pr' j = pr j \<and> img' j = img j"
  with h have "handleCreateStoryboard url pr' img' a =
        a\<lparr>scenes := mapi (\<lambda>j line. \<lparr>sceneId = j,
                              imagePrompt = (if j < k then p j else if j = k then pk else []),
                              narratorScript = line,
                              imageUrl = (if j < k then Some (u j) else None)\<rparr>) ls,
          isLoading := False, loadingMessage := [],
          error := Some image_failed_msg,
          currentSceneIndex := 0, isPlaying := False,
          audioUrl := None, audioRef := None\<rparr>"
    by (intro handleCreateStoryboard_image_failure [where sf = sf and e = e]) auto
  with r show "handleCreateStoryboard url pr' img' a = handleCreateStoryboard url pr img a"
    by simp
next
  have g: "generateScript (Parsed (ScenesArray (map Entry four_entries))) = Inr (map Entry four_entries)"
    by (simp add: generateScript_def)
  have ok: "generateImage (rejects_scene 2 j) = Inr (ascii ''data:image/jpeg;base64,x'')"
    if "j < 2" for j
    using that by (simp add: rejects_scene_def generateImage_def data_url_prefix_def ascii_def)
  have bad: "generateImage (rejects_scene 2 2) = Inl (Error image_failed_msg)"
    by (simp add: rejects_scene_def generateImage_def)
  have l: "2 < length four_entries"
    by (simp add: four_entries_def)
  note r = handleGenerate_image_failure
    [where u = "\<lambda>j. ascii ''data:image/jpeg;base64,x''" and img = "rejects_scene 2"
       and k = 2, OF ocean_request_topic g l ok bad]
  show "map imageUrl (scenes (handleGenerate (Parsed (ScenesArray (map Entry four_entries))) (rejects_scene 2)
                           ocean_request))
     = [Some (ascii ''data:image/jpeg;base64,x''), Some (ascii ''data:image/jpeg;base64,x''),
        None, None]"
  proof -
    have "map imageUrl
            (mapi (\<lambda>j en. \<lparr>sceneId = j, imagePrompt = image_prompt en,
                             narratorScript = narrator_script en,
                             imageUrl = (if j < 2 then Some (ascii ''data:image/jpeg;base64,x'')
                                         else None)\<rparr>) four_entries)
          = [Some (ascii ''data:image/jpeg;base64,x''), Some (ascii ''data:image/jpeg;base64,x''),
             None, None]"
      by (simp add: mapi_def four_entries_def)
    then show ?thesis by (simp add: r)
  qed
  show "error (handleGenerate (Parsed (ScenesArray (map Entry four_entries))) (rejects_scene 2) ocean_request)
     = Some image_failed_msg"
    by (simp add: r)
  show "isLoading (handleGenerate (Parsed (ScenesArray (map Entry four_entries))) (rejects_scene 2)
                     ocean_request) = False"
    by (simp add: r)
qed

theorem failure_aborts_pipeline_witness:
  "trim (topic ocean_request) \<noteq> [] \<and> (\<forall>xs. TextNotJson [] \<noteq> Parsed (ScenesArray xs)) \<and>
   scenes (handleGenerate (TextNotJson []) always_answers ocean_request) = [] \<and>
   error (handleGenerate (TextNotJson []) always_answers ocean_request) = Some script_failed_msg \<and>
   generateScript (Parsed (ScenesArray (map Entry four_entries))) = Inr (map Entry four_entries) \<and>
   2 < length four_entries \<and>
   generateImage (rejects_scene 2 0) = Inr (ascii ''data:image/jpeg;base64,x'') \<and>
   generateImage (rejects_scene 2 1) = Inr (ascii ''data:image/jpeg;base64,x'') \<and>
   generateImage (rejects_scene 2 2) = Inl (Error image_failed_msg) \<and>
   length (scenes (handleGenerate (Parsed (ScenesArray (map Entry four_entries))) (rejects_scene 2)
                     ocean_request)) = 4 \<and>
   (if (2::nat) \<le> 2 then rejects_scene 2 2 else ImagesRejected NonError) = rejects_scene 2 2 \<and>
   (if (3::nat) \<le> 2 then rejects_scene 2 3 else ImagesRejected NonError) \<noteq> rejects_scene 2 3 \<and>
   handleGenerate (Parsed (ScenesArray (map Entry four_entries)))
       (\<lambda>i. if i \<le> 2 then rejects_scene 2 i else ImagesRejected NonError) ocean_request
     = handleGenerate (Parsed (ScenesArray (map Entry four_entries))) (rejects_scene 2) ocean_request \<and>
   scriptFile three_line_upload = Some three_line_script \<and>
   audioFile three_line_upload \<noteq> None \<and>
   scriptLines_of (file_text three_line_script) = [[0x61], [0x62], [0x63]] \<and>
   1 < length [[0x61], [0x62], [0x63 :: nat]] \<and>
   prompt_rejects_scene 1 0 = Inr (ascii ''p'') \<and>
   generateImage (always_answers 0) = Inr (ascii ''data:image/jpeg;base64,x'') \<and>
   prompt_rejects_scene 1 1 = Inl NonError \<and>
   map imageUrl (scenes (handleCreateStoryboard (ascii ''blob:1'') (prompt_rejects_scene 1)
                           always_answers three_line_upload))
     = [Some (ascii ''data:image/jpeg;base64,x''), None, None] \<and>
   error (handleCreateStoryboard (ascii ''blob:1'') (prompt_rejects_scene 1)
            always_answers three_line_upload) = Some unknown_error_msg \<and>
   audioUrl (handleCreateStoryboard (ascii ''blob:1'') (prompt_rejects_scene 1)
            always_answers three_line_upload) = None \<and>
   prompt_answers 0 = Inr (ascii ''p'') \<and>
   generateImage (rejects_scene 1 0) = Inr (ascii ''data:image/jpeg;base64,x'') \<and>
   prompt_answers 1 = Inr (ascii ''p'') \<and>
   generateImage (rejects_scene 1 1) = Inl (Error image_failed_msg) \<and>
   map imageUrl (scenes (handleCreateStoryboard (ascii ''blob:1'') prompt_answers
                           (rejects_scene 1) three_line_upload))
     = [Some (ascii ''data:image/jpeg;base64,x''), None, None] \<and>
   isLoading (handleCreateStoryboard (ascii ''blob:1'') prompt_answers
                (rejects_scene 1) three_line_upload) = False \<and>
   audioUrl (handleCreateStoryboard (ascii ''blob:1'') prompt_answers
               (rejects_scene 1) three_line_upload) = None"
proof -
  let ?x = "ascii ''data:image/jpeg;base64,x''"
  let ?ls = "[[0x61], [0x62], [0x63 :: nat]]"
  let ?img' = "\<lambda>i. if i \<le> 2 then rejects_scene 2 i else ImagesRejected NonError"
  have f: "\<forall>xs. TextNotJson [] \<noteq> Parsed (ScenesArray xs)" by simp
  have g: "generateScript (Parsed (ScenesArray (map Entry four_entries))) = Inr (map Entry four_entries)"
    by (simp add: generateScript_def)
  have l: "2 < length four_entries" "length four_entries = 4"
    by (simp_all add: four_entries_def)
  have ok2: "\<forall>j < 2. generateImage (rejects_scene 2 j) = Inr ?x"
    by (simp add: rejects_scene_def generateImage_def data_url_prefix_def ascii_def)
  have bad2: "generateImage (rejects_scene 2 2) = Inl (Error image_failed_msg)"
    by (simp add: rejects_scene_def generateImage_def)
  have same: "\<forall>j \<le> 2. ?img' j = rejects_scene 2 j" by simp
  have sf: "scriptFile three_line_upload = Some three_line_script"
    "audioFile three_line_upload \<noteq> None"
    by (simp_all add: three_line_upload_def handleAudioFileChange_def handleScriptFileChange_def
          initial_audio_app_def three_line_script_def some_audio_file_def ascii_def)
  have ls: "scriptLines_of (file_text three_line_script) = ?ls"
    by (simp add: three_line_script_def scriptLines_of_def trim_def js_whitespace_def)
  have l3: "1 < length ?ls" by simp
  have okp: "\<forall>j < 1. prompt_rejects_scene 1 j = Inr (ascii ''p'') \<and>
             generateImage (always_answers j) = Inr ?x"
    by (simp add: prompt_rejects_scene_def always_answers_def generateImage_def
          data_url_prefix_def ascii_def)
  have badp: "prompt_rejects_scene 1 1 = Inl NonError"
    by (simp add: prompt_rejects_scene_def)
  have oki: "\<forall>j < 1. prompt_answers j = Inr (ascii ''p'') \<and>
             generateImage (rejects_scene 1 j) = Inr ?x"
    by (simp add: prompt_answers_def rejects_scene_def generateImage_def
          data_url_prefix_def ascii_def)
  have pk: "prompt_answers 1 = Inr (ascii ''p'')"
    by (simp add: prompt_answers_def)
  have badi: "generateImage (rejects_scene 1 1) = Inl (Error image_failed_msg)"
    by (simp add: rejects_scene_def generateImage_def)
  note t1 = failure_aborts_pipeline
    [where s = ocean_request and sr = "TextNotJson []" and img = always_answers,
     THEN conjunct1]
  note t2 = failure_aborts_pipeline
    [where s = ocean_request and sr = "Parsed (ScenesArray (map Entry four_entries))"
       and entries = four_entries and k = 2 and img = "rejects_scene 2" and img' = ?img'
       and u = "\<lambda>j. ?x" and e = "Error image_failed_msg",
     THEN conjunct2, THEN conjunct1]
  note t3 = failure_aborts_pipeline
    [where a = three_line_upload and sf = three_line_script and ls = ?ls and k = 1
       and pr = "prompt_rejects_scene 1" and img = always_answers and p = "\<lambda>j. ascii ''p''"
       and u = "\<lambda>j. ?x" and e = NonError and url = "ascii ''blob:1''",
     THEN conjunct2, THEN conjunct2, THEN conjunct1]
  note t4 = failure_aborts_pipeline
    [where a = three_line_upload and sf = three_line_script and ls = ?ls and k = 1
       and pr = prompt_answers and img = "rejects_scene 1" and p = "\<lambda>j. ascii ''p''"
       and u = "\<lambda>j. ?x" and e = "Error image_failed_msg" and pk = "ascii ''p''"
       and url = "ascii ''blob:1''",
     THEN conjunct2, THEN conjunct2, THEN conjunct2, THEN conjunct1]
  have r1: "handleGenerate (TextNotJson []) always_answers ocean_request =
        ocean_request\<lparr>scenes := [], isLoading := False, loadingMessage := [],
          error := Some script_failed_msg, currentSceneIndex := 0, isPlaying := False\<rparr>"
    using t1 ocean_request_topic f by blast
  from t2 ocean_request_topic g l(1) ok2 bad2
  have r2: "handleGenerate (Parsed (ScenesArray (map Entry four_entries))) (rejects_scene 2) ocean_request =
        ocean_request\<lparr>scenes := mapi (\<lambda>j en. \<lparr>sceneId = j, imagePrompt = image_prompt en,
                                   narratorScript = narrator_script en,
                                   imageUrl = (if j < 2 then Some ?x else None)\<rparr>) four_entries,
          isLoading := False, loadingMessage := [],
          error := Some image_failed_msg, currentSceneIndex := 0, isPlaying := False\<rparr>"
    and i2: "(\<forall>j \<le> 2. ?img' j = rejects_scene 2 j) \<longrightarrow>
       handleGenerate (Parsed (ScenesArray (map Entry four_entries))) ?img' ocean_request
         = handleGenerate (Parsed (ScenesArray (map Entry four_entries))) (rejects_scene 2) ocean_request"
    by blast+
  from t3 sf ls l3 okp badp
  have r3: "handleCreateStoryboard (ascii ''blob:1'') (prompt_rejects_scene 1) always_answers
              three_line_upload =
        three_line_upload\<lparr>scenes := mapi (\<lambda>j line. \<lparr>sceneId = j,
                                     imagePrompt = (if j < 1 then ascii ''p'' else []),
                                     narratorScript = line,
                                     imageUrl = (if j < 1 then Some ?x else None)\<rparr>) ?ls,
          isLoading := False, loadingMessage := [],
          error := Some (error_text unknown_error_msg NonError),
          currentSceneIndex := 0, isPlaying := False,
          audioUrl := None, audioRef := None\<rparr>"
    by blast
  from t4 sf ls l3 oki pk badi
  have r4: "handleCreateStoryboard (ascii ''blob:1'') prompt_answers (rejects_scene 1)
              three_line_upload =
        three_line_upload\<lparr>scenes := mapi (\<lambda>j line. \<lparr>sceneId = j,
                              imagePrompt = (if j < 1 then ascii ''p''
                                             else if j = 1 then ascii ''p'' else []),
                              narratorScript = line,
                              imageUrl = (if j < 1 then Some ?x else None)\<rparr>) ?ls,
          isLoading := False, loadingMessage := [],
          error := Some image_failed_msg,
          currentSceneIndex := 0, isPlaying := False,
          audioUrl := None, audioRef := None\<rparr>"
    by blast
  have a1: "scenes (handleGenerate (TextNotJson []) always_answers ocean_request) = []"
    "error (handleGenerate (TextNotJson []) always_answers ocean_request) = Some script_failed_msg"
    by (simp_all add: r1)
  have a2: "length (scenes (handleGenerate (Parsed (ScenesArray (map Entry four_entries))) (rejects_scene 2)
                     ocean_request)) = 4"
    by (simp add: r2 length_mapi l)
  have a2': "handleGenerate (Parsed (ScenesArray (map Entry four_entries))) ?img' ocean_request
     = handleGenerate (Parsed (ScenesArray (map Entry four_entries))) (rejects_scene 2) ocean_request"
    using i2 same by blast
  have a3: "map imageUrl (scenes (handleCreateStoryboard (ascii ''blob:1'')
                (prompt_rejects_scene 1) always_answers three_line_upload)) = [Some ?x, None, None]"
    "error (handleCreateStoryboard (ascii ''blob:1'') (prompt_rejects_scene 1)
            always_answers three_line_upload) = Some unknown_error_msg"
    "audioUrl (handleCreateStoryboard (ascii ''blob:1'') (prompt_rejects_scene 1)
            always_answers three_line_upload) = None"
    unfolding r3 by (simp_all add: mapi_def error_text_def)
  have a4: "map imageUrl (scenes (handleCreateStoryboard (ascii ''blob:1'') prompt_answers
                           (rejects_scene 1) three_line_upload)) = [Some ?x, None, None]"
    "isLoading (handleCreateStoryboard (ascii ''blob:1'') prompt_answers
                (rejects_scene 1) three_line_upload) = False"
    "audioUrl (handleCreateStoryboard (ascii ''blob:1'') prompt_answers
               (rejects_scene 1) three_line_upload) = None"
    unfolding r4 by (simp_all add: mapi_def)
  have inst: "generateImage (rejects_scene 2 0) = Inr ?x"
    "generateImage (rejects_scene 2 1) = Inr ?x"
    "(if (2::nat) \<le> 2 then rejects_scene 2 2 else ImagesRejected NonError) = rejects_scene 2 2"
    "(if (3::nat) \<le> 2 then rejects_scene 2 3 else ImagesRejected NonError) \<noteq> rejects_scene 2 3"
    "prompt_rejects_scene 1 0 = Inr (ascii ''p'')"
    "generateImage (always_answers 0) = Inr ?x"
    "prompt_answers 0 = Inr (ascii ''p'')"
    "generateImage (rejects_scene 1 0) = Inr ?x"
    by (simp_all add: rejects_scene_def prompt_rejects_scene_def prompt_answers_def
          always_answers_def generateImage_def data_url_prefix_def ascii_def)
  show ?thesis
    using ocean_request_topic f a1 g l(1) inst bad2 a2 a2' sf ls l3 badp a3 pk badi a4
    by blast
qed

section \<open>Properties of the regeneration guard\<close>

lemma filter_without_nth_aux:
  "k < length p \<Longrightarrow>
     length (filter P (take k p)) + length (filter P (drop (Suc k) p))
       + (if P (p ! k) then 1 else 0) = length (filter P p)"
proof (induction p arbitrary: k)
  case Nil
  then show ?case by simp
next
  case (Cons x xs)
  show ?case
  proof (cases k)
    case 0
    then show ?thesis by simp
  next
    case (Suc m)
    with Cons.prems have "m < length xs" by simp
    from Cons.IH [OF this] Suc show ?thesis by simp
  qed
qed

lemma filter_without_nth:
  assumes "k < length p"
  shows "length (filter P (take k p @ drop (Suc k) p @ new))
         = length (filter P p) - (if P (p ! k) then 1 else 0) + length (filter P new)"
  using filter_without_nth_aux [OF assms, of P] by simp

text \<open>The handlers that neither start nor finish a request leave both guards alone.\<close>

lemma guards_kept:
  "isLoading (nextScene s) = isLoading s"
  "regeneratingSceneId (nextScene s) = regeneratingSceneId s"
  "isLoading (prevScene s) = isLoading s"
  "regeneratingSceneId (prevScene s) = regeneratingSceneId s"
  "isLoading (togglePlayPause s) = isLoading s"
  "regeneratingSceneId (togglePlayPause s) = regeneratingSceneId s"
  "isLoading (synthesis_completes s) = isLoading s"
  "regeneratingSceneId (synthesis_completes s) = regeneratingSceneId s"
  "isLoading (synthesis_fails s) = isLoading s"
  "regeneratingSceneId (synthesis_fails s) = regeneratingSceneId s"
  by (simp_all add: nextScene_def prevScene_def togglePlayPause_def synthesis_completes_def
        synthesis_fails_def utterance_onend_def utterance_onerror_def Let_def
        split: option.splits)

lemma guards_kept_by_edit:
  "isLoading (handleScriptChange v b) = isLoading b"
  "regeneratingSceneId (handleScriptChange v b) = regeneratingSceneId b"
  "isLoading (handlePromptChange v b) = isLoading b"
  "regeneratingSceneId (handlePromptChange v b) = regeneratingSceneId b"
  by (simp_all add: handleScriptChange_def handlePromptChange_def)

lemma loop_head_guards:
  "loop_head initial i s = (s1, new) \<Longrightarrow>
     regeneratingSceneId s1 = regeneratingSceneId s \<and>
     regenerations_in_flight new = 0 \<and>
     ((isLoading s1 = isLoading s \<and> pipelines_in_flight new = 1) \<or>
      (\<not> isLoading s1 \<and> pipelines_in_flight new = 0))"
  by (auto simp: loop_head_def pipeline_finally_def regenerations_in_flight_def
        pipelines_in_flight_def split: if_splits)

lemma resume_guards:
  assumes "resume rq a s = Some (s1, new)"
  shows "regenerations_in_flight new = 0 \<and>
         (is_regenerate_request rq \<longrightarrow>
            regeneratingSceneId s1 = None \<and> isLoading s1 = isLoading s \<and>
            pipelines_in_flight new = 0) \<and>
         (is_pipeline_request rq \<longrightarrow>
            regeneratingSceneId s1 = regeneratingSceneId s \<and>
            ((isLoading s1 = isLoading s \<and> pipelines_in_flight new = 1) \<or>
             (\<not> isLoading s1 \<and> pipelines_in_flight new = 0)))"
proof (cases rq)
  case ScriptRequest
  show ?thesis
  proof (cases a)
    case (ScriptAnswer sr)
    show ?thesis
    proof (cases "generateScript sr")
      case (Inl e)
      with assms ScriptRequest ScriptAnswer show ?thesis
        by (auto simp: pipeline_finally_def pipeline_catch_def regenerations_in_flight_def
              pipelines_in_flight_def)
    next
      case (Inr entries)
      note script = this
      show ?thesis
      proof (cases "initialScenes_of entries")
        case (Inl e)
        with assms ScriptRequest ScriptAnswer script show ?thesis
          by (auto simp: pipeline_finally_def pipeline_catch_def regenerations_in_flight_def
                pipelines_in_flight_def)
      next
        case (Inr initialScenes)
        with assms ScriptRequest ScriptAnswer script
        have "loop_head initialScenes 0 (s\<lparr>scenes := initialScenes\<rparr>) = (s1, new)"
          by simp
        from loop_head_guards [OF this] ScriptRequest show ?thesis by simp
      qed
    qed
  next
    case (ImagesAnswer r)
    with assms ScriptRequest show ?thesis by simp
  qed
next
  case (PipelineImageRequest i initial)
  show ?thesis
  proof (cases a)
    case (ScriptAnswer sr)
    with assms PipelineImageRequest show ?thesis by simp
  next
    case (ImagesAnswer r)
    show ?thesis
    proof (cases "generateImage r")
      case (Inl e)
      with assms PipelineImageRequest ImagesAnswer show ?thesis
        by (auto simp: pipeline_finally_def pipeline_catch_def regenerations_in_flight_def
              pipelines_in_flight_def)
    next
      case (Inr url)
      with assms PipelineImageRequest ImagesAnswer
      have "loop_head initial (Suc i) (s\<lparr>scenes := patch_imageUrl i url (scenes s)\<rparr>)
              = (s1, new)"
        by simp
      from loop_head_guards [OF this] PipelineImageRequest show ?thesis by simp
    qed
  qed
next
  case (RegenerateImageRequest cs)
  show ?thesis
  proof (cases a)
    case (ScriptAnswer sr)
    with assms RegenerateImageRequest show ?thesis by simp
  next
    case (ImagesAnswer r)
    with assms RegenerateImageRequest show ?thesis
      by (auto simp: handleRegenerateImage_settle_def regenerations_in_flight_def
            pipelines_in_flight_def Let_def split: sum.splits)
  qed
qed

lemma request_kind: "is_pipeline_request rq \<longleftrightarrow> \<not> is_regenerate_request rq"
  by (cases rq) simp_all

text \<open>
  The two guards count the requests in flight: a regeneration is pending exactly while
  \<open>regeneratingSceneId\<close> is set, a request of the pipeline exactly while \<open>isLoading\<close>
  is true. Every event keeps this.
\<close>

lemma step_keeps_guards:
  assumes r: "regenerations_in_flight p = (if regeneratingSceneId s = None then 0 else 1)"
    and l: "pipelines_in_flight p = (if isLoading s then 1 else 0)"
    and st: "step e (s, p) = (s1, p1)"
  shows "regenerations_in_flight p1 = (if regeneratingSceneId s1 = None then 0 else 1) \<and>
         pipelines_in_flight p1 = (if isLoading s1 then 1 else 0)"
proof (cases e)
  case ClickGenerate
  with r l st show ?thesis
    by (auto simp: handleGenerate_begin_def regenerations_in_flight_def pipelines_in_flight_def
          split: if_splits)
next
  case ClickRegenerate
  with r l st show ?thesis
    by (auto simp: click_regenerate_def regenerate_enabled_def handleRegenerateImage_begin_def
          regenerations_in_flight_def pipelines_in_flight_def
          split: if_splits option.splits)
next
  case ClickNext
  with r l st show ?thesis by (auto simp: guards_kept split: if_splits)
next
  case ClickPrev
  with r l st show ?thesis by (auto simp: guards_kept split: if_splits)
next
  case ClickPlayPause
  with r l st show ?thesis by (auto simp: guards_kept split: if_splits)
next
  case (EditScript v)
  with r l st show ?thesis by (auto simp: guards_kept_by_edit split: if_splits)
next
  case (EditPrompt v)
  with r l st show ?thesis by (auto simp: guards_kept_by_edit split: if_splits)
next
  case (EditTopic v)
  with r l st show ?thesis by auto
next
  case (SetSceneCount n)
  with r l st show ?thesis by auto
next
  case SynthesisEnds
  with r l st show ?thesis by (auto simp: guards_kept)
next
  case SynthesisFails
  with r l st show ?thesis by (auto simp: guards_kept)
next
  case (Settles k a)
  show ?thesis
  proof (cases "k < length p")
    case False
    with Settles r l st show ?thesis by auto
  next
    case k: True
    show ?thesis
    proof (cases "resume (p ! k) a s")
      case None
      with Settles k r l st show ?thesis by auto
    next
      case (Some res)
      obtain s2 new where res: "res = (s2, new)" by (cases res)
      with Some have rs: "resume (p ! k) a s = Some (s2, new)" by simp
      with Settles k st have eq: "s1 = s2" "p1 = take k p @ drop (Suc k) p @ new"
        by auto
      note g = resume_guards [OF rs]
      have cr: "regenerations_in_flight p1
          = regenerations_in_flight p - (if is_regenerate_request (p ! k) then 1 else 0)
            + regenerations_in_flight new"
        unfolding eq regenerations_in_flight_def by (rule filter_without_nth [OF k])
      have cp: "pipelines_in_flight p1
          = pipelines_in_flight p - (if is_pipeline_request (p ! k) then 1 else 0)
            + pipelines_in_flight new"
        unfolding eq pipelines_in_flight_def by (rule filter_without_nth [OF k])
      have mem: "p ! k \<in> set p" using k by simp
      show ?thesis
      proof (cases "is_regenerate_request (p ! k)")
        case True
        then have np: "\<not> is_pipeline_request (p ! k)" by (simp add: request_kind)
        from True mem have "filter is_regenerate_request p \<noteq> []"
          by (auto simp: filter_empty_conv)
        then have pos: "0 < regenerations_in_flight p"
          by (simp add: regenerations_in_flight_def)
        with r have one: "regenerations_in_flight p = 1"
          by (simp split: if_splits)
        from g True have "regeneratingSceneId s2 = None" "isLoading s2 = isLoading s"
          "pipelines_in_flight new = 0" "regenerations_in_flight new = 0"
          by simp_all
        with cr cp one l True np eq show ?thesis by simp
      next
        case False
        then have ip: "is_pipeline_request (p ! k)" by (simp add: request_kind)
        from ip mem have "filter is_pipeline_request p \<noteq> []"
          by (auto simp: filter_empty_conv)
        then have pos: "0 < pipelines_in_flight p"
          by (simp add: pipelines_in_flight_def)
        with l have one: "pipelines_in_flight p = 1" and ld: "isLoading s"
          by (simp_all split: if_splits)
        from g ip have g1: "regeneratingSceneId s2 = regeneratingSceneId s"
          "regenerations_in_flight new = 0"
          and g2: "(isLoading s2 = isLoading s \<and> pipelines_in_flight new = 1) \<or>
             (\<not> isLoading s2 \<and> pipelines_in_flight new = 0)"
          by simp_all
        from g2 cp one ld ip eq have "pipelines_in_flight p1 = (if isLoading s1 then 1 else 0)"
          by auto
        moreover from cr g1 r False eq
        have "regenerations_in_flight p1 = (if regeneratingSceneId s1 = None then 0 else 1)"
          by simp
        ultimately show ?thesis by simp
      qed
    qed
  qed
qed

lemma session_keeps_guards:
  "regenerations_in_flight (snd c) = (if regeneratingSceneId (fst c) = None then 0 else 1) \<and>
   pipelines_in_flight (snd c) = (if isLoading (fst c) then 1 else 0) \<Longrightarrow>
   regenerations_in_flight (snd (foldl (\<lambda>c e. step e c) c es))
     = (if regeneratingSceneId (fst (foldl (\<lambda>c e. step e c) c es)) = None then 0 else 1) \<and>
   pipelines_in_flight (snd (foldl (\<lambda>c e. step e c) c es))
     = (if isLoading (fst (foldl (\<lambda>c e. step e c) c es)) then 1 else 0)"
proof (induction es arbitrary: c)
  case Nil
  then show ?case by simp
next
  case (Cons e es)
  obtain s p where c: "c = (s, p)" by (cases c)
  obtain s1 p1 where st: "step e (s, p) = (s1, p1)" by (cases "step e (s, p)")
  from Cons.prems c have "regenerations_in_flight p = (if regeneratingSceneId s = None then 0 else 1)"
    and "pipelines_in_flight p = (if isLoading s then 1 else 0)"
    by simp_all
  from step_keeps_guards [OF this st]
  have "regenerations_in_flight (snd (s1, p1))
          = (if regeneratingSceneId (fst (s1, p1)) = None then 0 else 1) \<and>
        pipelines_in_flight (snd (s1, p1)) = (if isLoading (fst (s1, p1)) then 1 else 0)"
    by simp
  from Cons.IH [OF this] c st show ?case by simp
qed

lemma run_keeps_guards:
  "regenerations_in_flight (snd (run es))
     = (if regeneratingSceneId (fst (run es)) = None then 0 else 1) \<and>
   pipelines_in_flight (snd (run es)) = (if isLoading (fst (run es)) then 1 else 0)"
  unfolding run_def
  by (rule session_keeps_guards)
     (simp add: initial_app_def regenerations_in_flight_def pipelines_in_flight_def)

text \<open>
  What the guards ensure. The regenerate button is disabled while a full pipeline run is
  active (\<open>isLoading\<close>) and while a single-scene regeneration is in flight
  (\<open>regeneratingSceneId\<close> non-null): a click then leaves all state unchanged and sends
  no request, in both applications. In every session of the topic-mode application at
  most one regeneration request is in flight at a time, exactly while
  \<open>regeneratingSceneId\<close> is set, and at most one request of the pipeline, exactly while
  \<open>isLoading\<close> is true.
\<close>

lemma regenerate_button_guard:
  "(isLoading b \<longrightarrow> click_regenerate b = b) \<and>
   (regeneratingSceneId b \<noteq> None \<longrightarrow> click_regenerate b = b) \<and>
   (isLoading s \<or> regeneratingSceneId s \<noteq> None \<longrightarrow> step ClickRegenerate (s, p) = (s, p)) \<and>
   regenerations_in_flight (snd (run es)) \<le> 1 \<and>
   (regenerations_in_flight (snd (run es)) = 1 \<longleftrightarrow>
      regeneratingSceneId (fst (run es)) \<noteq> None) \<and>
   pipelines_in_flight (snd (run es)) \<le> 1 \<and>
   (pipelines_in_flight (snd (run es)) = 1 \<longleftrightarrow> isLoading (fst (run es)))"
proof (intro conjI impI)
  assume "isLoading b"
  then show "click_regenerate b = b"
    by (simp add: click_regenerate_def regenerate_enabled_def)
next
  assume "regeneratingSceneId b \<noteq> None"
  then show "click_regenerate b = b"
    by (simp add: click_regenerate_def regenerate_enabled_def)
next
  assume "isLoading s \<or> regeneratingSceneId s \<noteq> None"
  then show "step ClickRegenerate (s, p) = (s, p)"
    by (auto simp: regenerate_enabled_def split: option.splits)
next
  note g = run_keeps_guards [of es]
  from g show "regenerations_in_flight (snd (run es)) \<le> 1"
    by (simp split: if_splits)
  from g show "regenerations_in_flight (snd (run es)) = 1 \<longleftrightarrow>
      regeneratingSceneId (fst (run es)) \<noteq> None"
    by (simp split: if_splits)
  from g show "pipelines_in_flight (snd (run es)) \<le> 1"
    by (simp split: if_splits)
  from g show "pipelines_in_flight (snd (run es)) = 1 \<longleftrightarrow> isLoading (fst (run es))"
    by (simp split: if_splits)
qed

text \<open>The state and the requests in flight after the two sessions.\<close>

lemma overlapping_session_value:
  "run overlapping_session =
     (\<lparr>scenes = mapi scene_of_entry desert_entries, isLoading = True,
       loadingMessage = image_progress_msg 0 (length desert_entries), error = None, currentSceneIndex = 0,
       isPlaying = False, regeneratingSceneId = Some 0,
       topic = ascii ''desert'', sceneCount = 5\<rparr>,
      [RegenerateImageRequest
         (scene_of 0 ''p0'' ''n0'' (Some (ascii ''data:image/jpeg;base64,x''))),
       PipelineImageRequest 0 (mapi scene_of_entry desert_entries)])"
  by (simp add: run_def overlapping_session_def initial_app_def handleGenerate_begin_def
        trim_def js_whitespace_def generateScript_def generateImage_def two_entries_def
        desert_entries_def entry_of_def initialScenes_of_def scene_of_entry_def mapi_def
        loop_head_def patch_imageUrl_def pipeline_finally_def regenerate_enabled_def
        click_regenerate_def currentScene_def js_index_def handleRegenerateImage_begin_def
        scene_of_def data_url_prefix_def ascii_def writing_scenario_msg_def Let_def)

lemma stale_regeneration_session_value:
  "run stale_regeneration_session =
     (\<lparr>scenes = [\<lparr>sceneId = 0, imagePrompt = ascii ''q0'', narratorScript = ascii ''m0'',
                  imageUrl = Some (ascii ''data:image/jpeg;base64,y'')\<rparr>,
                 \<lparr>sceneId = 1, imagePrompt = ascii ''q1'', narratorScript = ascii ''m1'',
                  imageUrl = None\<rparr>,
                 \<lparr>sceneId = 2, imagePrompt = ascii ''q2'', narratorScript = ascii ''m2'',
                  imageUrl = None\<rparr>],
       isLoading = True, loadingMessage = image_progress_msg 0 (length desert_entries), error = None,
       currentSceneIndex = 0, isPlaying = False, regeneratingSceneId = None,
       topic = ascii ''desert'', sceneCount = 5\<rparr>,
      [PipelineImageRequest 0 (mapi scene_of_entry desert_entries)])"
proof -
  have "run stale_regeneration_session
      = step (Settles 0 (ImagesAnswer (ImagesReturned (Some [ascii ''y'']))))
          (run overlapping_session)"
    by (simp add: run_def stale_regeneration_session_def)
  then show ?thesis
    unfolding overlapping_session_value
    by (simp add: handleRegenerateImage_settle_def generateImage_def patch_imageUrl_def
          scene_of_def desert_entries_def entry_of_def scene_of_entry_def mapi_def
          data_url_prefix_def ascii_def Let_def)
qed

text \<open>
  C3: while a full pipeline run is active or a regeneration is in flight, the regenerate
  button runs nothing; but the claim's conclusion, that no two image requests are ever
  in flight at once, fails in the code. The generate button is disabled by \<open>isLoading\<close>
  only (line 189), without the test of \<open>regeneratingSceneId\<close> that the regenerate
  button (line 283) and the play button (line 234) carry, so a full run can be started
  while a regeneration is pending. After the session \<open>overlapping_session\<close> the image
  request of the regeneration (for the prompt of scene 0 of the old board) and the first
  image request of the new run are in flight together, with \<open>isLoading\<close> true and
  \<open>regeneratingSceneId\<close> set. When the regeneration then settles, its image is written
  into scene 0 of the new board, whose prompt is another one, while the run is loading.
\<close>

theorem regeneration_overlaps_generation:
  "snd (run overlapping_session) =
     [RegenerateImageRequest
        (scene_of 0 ''p0'' ''n0'' (Some (ascii ''data:image/jpeg;base64,x''))),
      PipelineImageRequest 0 (mapi scene_of_entry desert_entries)] \<and>
   images_in_flight (snd (run overlapping_session)) = 2 \<and>
   isLoading (fst (run overlapping_session)) \<and>
   regeneratingSceneId (fst (run overlapping_session)) = Some 0 \<and>
   map imagePrompt (scenes (fst (run overlapping_session)))
     = [ascii ''q0'', ascii ''q1'', ascii ''q2''] \<and>
   map imageUrl (scenes (fst (run overlapping_session))) = [None, None, None] \<and>
   map imagePrompt (scenes (fst (run stale_regeneration_session)))
     = [ascii ''q0'', ascii ''q1'', ascii ''q2''] \<and>
   map imageUrl (scenes (fst (run stale_regeneration_session)))
     = [Some (ascii ''data:image/jpeg;base64,y''), None, None] \<and>
   isLoading (fst (run stale_regeneration_session)) \<and>
   snd (run stale_regeneration_session)
     = [PipelineImageRequest 0 (mapi scene_of_entry desert_entries)]"
  unfolding overlapping_session_value stale_regeneration_session_value
  by (simp add: images_in_flight_def desert_entries_def entry_of_def scene_of_entry_def
        mapi_def)

end
